(* ===== verification/Prelude.thy ===== *)
theory Prelude
  imports Main
begin

text \<open>
  Shared vocabulary of the development.  The program (\<open>src/app.js\<close>) is a single-threaded
  Node.js process: every handler either returns normally or throws, and a throw that nobody
  catches ends the process.  A handler is therefore modelled as a function into
  \<open>'e + 'a\<close> (\<open>Inl\<close> the exception), sequenced with \<open>ebind\<close> below.  The theory also
  holds the collections \<open>handler_defs\<close> (the definitions a handler proof unfolds) and
  \<open>world_simps\<close> (facts on the state helpers), and list lemmas shared by the components.
\<close>

named_theorems handler_defs "definitions of the event handlers, unfolded by component proofs"
named_theorems world_simps "rewrite rules for the helpers that update the process state"

subsection \<open>Exceptions as the left summand\<close>

definition ebind :: "'e + 'a \<Rightarrow> ('a \<Rightarrow> 'e + 'b) \<Rightarrow> 'e + 'b" where
  "ebind m f = (case m of Inl e \<Rightarrow> Inl e | Inr a \<Rightarrow> f a)"

lemma ebind_Inl [simp]: "ebind (Inl e) f = Inl e"
  by (simp add: ebind_def)

lemma ebind_Inr [simp]: "ebind (Inr a) f = f a"
  by (simp add: ebind_def)

lemma ebind_eq_Inr:
  "ebind m f = Inr b \<longleftrightarrow> (\<exists>a. m = Inr a \<and> f a = Inr b)"
  by (cases m) auto

lemma ebind_eq_Inl:
  "ebind m f = Inl e \<longleftrightarrow> m = Inl e \<or> (\<exists>a. m = Inr a \<and> f a = Inl e)"
  by (cases m) auto

subsection \<open>Lists\<close>

text \<open>\<open>Array.prototype.join\<close> on strings: the parts with the separator between them.\<close>

fun join_with :: "'a list \<Rightarrow> 'a list list \<Rightarrow> 'a list" where
  "join_with sep [] = []"
| "join_with sep [x] = x"
| "join_with sep (x # xs) = x @ sep @ join_with sep xs"

lemma distinct_append_single [simp]:
  "distinct (xs @ [x]) \<longleftrightarrow> distinct xs \<and> x \<notin> set xs"
  by auto

lemma remove1_append_notin:
  "x \<notin> set xs \<Longrightarrow> remove1 x (xs @ [x]) = xs"
  by (induction xs) auto

lemma notin_set_remove1_distinct:
  "distinct xs \<Longrightarrow> x \<notin> set (remove1 x xs)"
  by simp

lemma take_length_append [simp]:
  "take (length p) (p @ s) = p"
  by simp

end
