(* ===== verification/JsValue.thy ===== *)
theory JsValue
  imports Prelude
begin

text \<open>
  The JavaScript values and built-ins that \<open>src/app.js\<close> relies on: the value type returned by
  \<open>JSON.parse\<close> and built by object literals, property access \<open>v.k\<close> and \<open>v[i]\<close> (which
  throw a \<open>TypeError\<close> on \<open>undefined\<close> and \<open>null\<close>), string conversion in \<open>+\<close> and
  template literals, \<open>JSON.stringify\<close>, \<open>String.prototype.indexOf\<close> and
  \<open>String.prototype.replace\<close> with a string pattern, and \<open>Array.prototype.indexOf\<close> with the
  \<open>splice\<close> idiom of line 134--137.  JavaScript numbers occurring in the program (sizes, pixel
  counts, status codes, indices) are integers below \<open>2^53\<close> and are modelled as \<open>int\<close>.
\<close>

subsection \<open>Values and exceptions\<close>

datatype jsval =
    JUndef
  | JNull
  | JBool bool
  | JNum int
  | JStr string
  | JArr "jsval list"
  | JObj "(string \<times> jsval) list"

datatype js_error =
    TypeError       \<comment> \<open>property read on \<open>undefined\<close>/\<open>null\<close>, or a call of a non-function\<close>
  | SyntaxError     \<comment> \<open>\<open>JSON.parse\<close> of a text that is not JSON\<close>
  | ImageSizeError  \<comment> \<open>\<open>imageSize\<close> on a file it cannot decode\<close>

subsection \<open>Decimal strings of numbers\<close>

definition digit_char :: "nat \<Rightarrow> char" where
  "digit_char d = ''0123456789abcdef'' ! d"

fun nat_str :: "nat \<Rightarrow> string" where
  "nat_str n = (if n < 10 then [digit_char n] else nat_str (n div 10) @ [digit_char (n mod 10)])"

declare nat_str.simps [simp del]

definition int_str :: "int \<Rightarrow> string" where
  "int_str i = (if i < 0 then CHR ''-'' # nat_str (nat (- i)) else nat_str (nat i))"

subsection \<open>ToString, as used by \<open>+\<close> on strings and by template literals\<close>

fun js_to_string :: "jsval \<Rightarrow> string" where
  "js_to_string JUndef = ''undefined''"
| "js_to_string JNull = ''null''"
| "js_to_string (JBool b) = (if b then ''true'' else ''false'')"
| "js_to_string (JNum i) = int_str i"
| "js_to_string (JStr s) = s"
| "js_to_string (JArr vs) =
     join_with '','' (map (\<lambda>v. if v = JUndef \<or> v = JNull then [] else js_to_string v) vs)"
| "js_to_string (JObj kvs) = ''[object Object]''"

subsection \<open>Property access\<close>

text \<open>
  \<open>v.k\<close> for a property name: a \<open>TypeError\<close> on \<open>undefined\<close> and \<open>null\<close>; an own
  property of an object, the last one when \<open>JSON.parse\<close> met a duplicate key; \<open>length\<close>
  of strings and arrays; \<open>undefined\<close> otherwise.  Numeric keys go through \<open>js_index\<close>.
\<close>

fun js_get :: "jsval \<Rightarrow> string \<Rightarrow> js_error + jsval" where
  "js_get JUndef k = Inl TypeError"
| "js_get JNull k = Inl TypeError"
| "js_get (JObj kvs) k = Inr (case map_of (rev kvs) k of Some v \<Rightarrow> v | None \<Rightarrow> JUndef)"
| "js_get (JArr vs) k = Inr (if k = ''length'' then JNum (int (length vs)) else JUndef)"
| "js_get (JStr s) k = Inr (if k = ''length'' then JNum (int (length s)) else JUndef)"
| "js_get (JBool b) k = Inr JUndef"
| "js_get (JNum i) k = Inr JUndef"

text \<open>\<open>v[i]\<close> for a non-negative integer literal \<open>i\<close>.\<close>

fun js_index :: "jsval \<Rightarrow> nat \<Rightarrow> js_error + jsval" where
  "js_index JUndef i = Inl TypeError"
| "js_index JNull i = Inl TypeError"
| "js_index (JArr vs) i = Inr (if i < length vs then vs ! i else JUndef)"
| "js_index (JStr s) i = Inr (if i < length s then JStr [s ! i] else JUndef)"
| "js_index (JObj kvs) i = Inr (case map_of (rev kvs) (nat_str i) of Some v \<Rightarrow> v | None \<Rightarrow> JUndef)"
| "js_index (JBool b) i = Inr JUndef"
| "js_index (JNum n) i = Inr JUndef"

text \<open>
  A chain of member expressions such as \<open>JSON.parse(body).entries[0].id\<close> (line 133):
  the accesses are made left to right and the first one that throws ends the chain.
\<close>

datatype js_access = PKey string | PIdx nat

fun js_path :: "jsval \<Rightarrow> js_access list \<Rightarrow> js_error + jsval" where
  "js_path v [] = Inr v"
| "js_path v (PKey k # as) = ebind (js_get v k) (\<lambda>u. js_path u as)"
| "js_path v (PIdx i # as) = ebind (js_index v i) (\<lambda>u. js_path u as)"

subsection \<open>String search and replacement\<close>

definition starts_with :: "string \<Rightarrow> string \<Rightarrow> bool" where
  "starts_with s p \<longleftrightarrow> take (length p) s = p"

text \<open>
  \<open>s.indexOf(p)\<close>: the first position \<open>k\<close> from which \<open>s\<close> continues with \<open>p\<close>, scanning
  \<open>k = 0, 1, \<dots>\<close>; \<open>-1\<close> when there is none.
\<close>

fun str_index_from :: "string \<Rightarrow> string \<Rightarrow> nat \<Rightarrow> int" where
  "str_index_from s p k =
     (if starts_with s p then int k
      else (case s of [] \<Rightarrow> -1 | _ # s' \<Rightarrow> str_index_from s' p (Suc k)))"

declare str_index_from.simps [simp del]

definition str_index_of :: "string \<Rightarrow> string \<Rightarrow> int" where
  "str_index_of s p = str_index_from s p 0"

text \<open>
  \<open>s.replace(p, r)\<close> with a string pattern replaces the first occurrence only.  The program
  always passes the empty replacement, which contains no \<open>$\<close>-pattern, so the replacement
  is inserted as it is.
\<close>

definition js_replace :: "string \<Rightarrow> string \<Rightarrow> string \<Rightarrow> string" where
  "js_replace s p r =
     (let i = str_index_of s p in
      if i = -1 then s else take (nat i) s @ r @ drop (nat i + length p) s)"

subsection \<open>Arrays: \<open>indexOf\<close>, \<open>push\<close> and the \<open>splice\<close> removal\<close>

fun array_index_from :: "'a list \<Rightarrow> 'a \<Rightarrow> nat \<Rightarrow> int" where
  "array_index_from [] x k = -1"
| "array_index_from (y # ys) x k = (if y = x then int k else array_index_from ys x (Suc k))"

definition array_index_of :: "'a list \<Rightarrow> 'a \<Rightarrow> int" where
  "array_index_of xs x = array_index_from xs x 0"

text \<open>\<open>xs.splice(i, 1)\<close> for an index in range removes the element at \<open>i\<close>.\<close>

definition array_splice1 :: "'a list \<Rightarrow> nat \<Rightarrow> 'a list" where
  "array_splice1 xs i = take i xs @ drop (Suc i) xs"

text \<open>Lines 134--137: \<open>index = pending.indexOf(f); if (index != -1) pending.splice(index, 1)\<close>.\<close>

definition array_remove :: "'a list \<Rightarrow> 'a \<Rightarrow> 'a list" where
  "array_remove xs x =
     (let i = array_index_of xs x in if i \<noteq> -1 then array_splice1 xs (nat i) else xs)"

subsection \<open>JSON.stringify\<close>

text \<open>
  The escape of one character in a JSON string literal: quote and backslash are escaped,
  the five control characters with a short escape get it, the other control characters
  become \<open>\u00XX\<close> with lower-case hexadecimal digits, everything else is kept.
\<close>

definition json_escape :: "char \<Rightarrow> string" where
  "json_escape c =
     (let n = of_char c :: nat in
      if c = CHR 0x22 then [CHR 0x5C, CHR 0x22]
      else if c = CHR 0x5C then [CHR 0x5C, CHR 0x5C]
      else if n = 8 then [CHR 0x5C, CHR ''b'']
      else if n = 12 then [CHR 0x5C, CHR ''f'']
      else if n = 10 then [CHR 0x5C, CHR ''n'']
      else if n = 13 then [CHR 0x5C, CHR ''r'']
      else if n = 9 then [CHR 0x5C, CHR ''t'']
      else if n < 32 then [CHR 0x5C, CHR ''u'', CHR ''0'', CHR ''0'', digit_char (n div 16), digit_char (n mod 16)]
      else [c])"

definition json_quote :: "string \<Rightarrow> string" where
  "json_quote s = CHR 0x22 # concat (map json_escape s) @ [CHR 0x22]"

text \<open>
  \<open>JSON.stringify\<close> of a value: \<open>None\<close> for a top-level \<open>undefined\<close> (the built-in returns
  \<open>undefined\<close>), object members whose value is \<open>undefined\<close> are left out and array elements
  that are \<open>undefined\<close> print as \<open>null\<close>.
\<close>

fun json_stringify :: "jsval \<Rightarrow> string option"
  and json_elems :: "jsval list \<Rightarrow> string list"
  and json_members :: "(string \<times> jsval) list \<Rightarrow> string list" where
  "json_stringify JUndef = None"
| "json_stringify JNull = Some ''null''"
| "json_stringify (JBool b) = Some (if b then ''true'' else ''false'')"
| "json_stringify (JNum i) = Some (int_str i)"
| "json_stringify (JStr s) = Some (json_quote s)"
| "json_stringify (JArr vs) = Some (''['' @ join_with '','' (json_elems vs) @ '']'')"
| "json_stringify (JObj kvs) = Some (''{'' @ join_with '','' (json_members kvs) @ ''}'')"
| "json_elems [] = []"
| "json_elems (v # vs) =
     (case json_stringify v of None \<Rightarrow> ''null'' | Some t \<Rightarrow> t) # json_elems vs"
| "json_members [] = []"
| "json_members ((k, v) # kvs) =
     (case json_stringify v of
        None \<Rightarrow> json_members kvs
      | Some t \<Rightarrow> (json_quote k @ '':'' @ t) # json_members kvs)"

subsection \<open>Lemmas: string search\<close>

lemma starts_with_Nil [simp]: "starts_with s []"
  by (simp add: starts_with_def)

lemma starts_with_prefix [simp]: "starts_with (p @ s) p"
  by (simp add: starts_with_def)

lemma starts_with_Nil_iff [simp]: "starts_with [] p \<longleftrightarrow> p = []"
  by (auto simp add: starts_with_def)

lemma ex_le_Suc_iff:
  "(\<exists>j \<le> Suc n. P j) \<longleftrightarrow> P 0 \<or> (\<exists>j \<le> n. P (Suc j))"
  by (metis Suc_le_mono le0 not0_implies_Suc)

text \<open>
  The scanning loop finds the least matching position, or answers \<open>-1\<close> when no position
  up to the end of the string matches.
\<close>

lemma str_index_from_least:
  "str_index_from s p k =
     (if \<exists>j \<le> length s. starts_with (drop j s) p
      then int (k + (LEAST j. starts_with (drop j s) p)) else -1)"
proof (induction s arbitrary: k)
  case Nil
  then show ?case
    by (simp add: str_index_from.simps)
next
  case (Cons c s)
  show ?case
  proof (cases "starts_with (c # s) p")
    case True
    then have "(LEAST j. starts_with (drop j (c # s)) p) = 0"
      by (intro Least_eq_0) simp
    with True show ?thesis
      by (subst str_index_from.simps) force
  next
    case False
    have ex: "(\<exists>j \<le> length (c # s). starts_with (drop j (c # s)) p)
              \<longleftrightarrow> (\<exists>j \<le> length s. starts_with (drop j s) p)"
      using False by (simp add: ex_le_Suc_iff)
    have least: "(LEAST j. starts_with (drop j (c # s)) p) = Suc (LEAST j. starts_with (drop j s) p)"
      if "starts_with (drop j s) p" for j
      using False that by (subst Least_Suc [where n = "Suc j"]) simp_all
    show ?thesis
      using False Cons.IH [of "Suc k"] ex least
      by (subst str_index_from.simps) auto
  qed
qed

lemma str_index_of_prefix [simp]: "str_index_of (p @ s) p = 0"
  by (simp add: str_index_of_def str_index_from.simps)

lemma str_index_of_absent:
  "(\<forall>j \<le> length s. \<not> starts_with (drop j s) p) \<Longrightarrow> str_index_of s p = -1"
  by (simp add: str_index_of_def str_index_from_least)

text \<open>So the program's test \<open>s.indexOf(p) > -1\<close> is the test that \<open>p\<close> occurs in \<open>s\<close>.\<close>

lemma str_index_of_gt_iff [simp]:
  "-1 < str_index_of s p \<longleftrightarrow> str_index_of s p \<noteq> -1"
  by (auto simp add: str_index_of_def str_index_from_least)

subsection \<open>Lemmas: arrays\<close>

lemma array_index_from_takeWhile:
  "array_index_from xs x k =
     (if x \<in> set xs then int (k + length (takeWhile (\<lambda>y. y \<noteq> x) xs)) else -1)"
  by (induction xs arbitrary: k) auto

lemma array_index_of_eq_minus_one [simp]:
  "array_index_of xs x = -1 \<longleftrightarrow> x \<notin> set xs"
  by (simp add: array_index_of_def array_index_from_takeWhile)

lemma splice_takeWhile_remove1:
  "x \<in> set xs \<Longrightarrow>
   array_splice1 xs (length (takeWhile (\<lambda>y. y \<noteq> x) xs)) = remove1 x xs"
  by (induction xs) (auto simp add: array_splice1_def)

lemma array_remove_remove1: "array_remove xs x = remove1 x xs"
  by (simp add: array_remove_def array_index_of_def array_index_from_takeWhile
      splice_takeWhile_remove1 remove1_idem)

lemmas js_eval_simps = str_index_of_def str_index_from.simps starts_with_def js_replace_def
  int_str_def nat_str.simps digit_char_def json_quote_def json_escape_def

subsection \<open>Properties\<close>

text \<open>
  C14.  The removal idiom of lines 134--137 (\<open>indexOf\<close>, then \<open>splice(index, 1)\<close> when the
  index is not \<open>-1\<close>) applied to a duplicate-free array keeps it duplicate-free and removes
  exactly the given element.
\<close>

theorem array_remove_distinct:
  "distinct xs \<Longrightarrow> distinct (array_remove xs x) \<and> set (array_remove xs x) = set xs - {x}"
  by (simp add: array_remove_remove1)

theorem array_remove_distinct_witness:
  "distinct [''a'', ''b'', ''c''] \<and> distinct (array_remove [''a'', ''b'', ''c''] ''b'')
   \<and> set (array_remove [''a'', ''b'', ''c''] ''b'') = set [''a'', ''b'', ''c''] - {''b''}
   \<and> array_remove [''a'', ''b'', ''c''] ''b'' = [''a'', ''c'']"
proof -
  have d: "distinct [''a'', ''b'', ''c'']" by simp
  show ?thesis
    using array_remove_distinct [OF d, of "''b''"] d
    by (simp add: array_remove_def array_index_of_def array_splice1_def)
qed

end
