(* ===== verification/World.thy ===== *)
theory World
  imports JsValue
begin

text \<open>
  The state of the running process of \<open>src/app.js\<close> and the data it exchanges with the outside.
  \<^item> \<open>config\<close>: the constants and environment variables of lines 9--21;
  \<^item> \<open>lib\<close>: the third-party functions the program only calls (\<open>mime.lookup\<close>,
    \<open>imageSize\<close>, \<open>JSON.parse\<close>), passed as parameters so that every theorem holds for any
    implementation of them;
  \<^item> \<open>http_req\<close>: the three HTTP requests the program sends;
  \<^item> \<open>cont\<close>: the callbacks that are registered and wait for a network event, the
    closures of the source made first-order (\<open>auth_k\<close> is the callback handed to
    \<open>authenticateApp\<close>);
  \<^item> \<open>world\<close>: the global array \<open>pending\<close> (line 145), the registered callbacks keyed by
    request number, the requests sent so far, the console output and whether the process
    still runs.
\<close>

subsection \<open>Configuration and libraries\<close>

record config =
  app_id :: "string option"      \<comment> \<open>\<open>process.env.FILESYNC_CLIENT_ID\<close>, line 12\<close>
  app_secret :: "string option"  \<comment> \<open>\<open>process.env.FILESYNC_CLIENT_SECRET\<close>, line 15\<close>
  folder :: string               \<comment> \<open>\<open>folder\<close>, line 17\<close>
  space_id :: string             \<comment> \<open>\<open>SPACE_ID\<close>, line 18\<close>
  user_jwt :: "string option"    \<comment> \<open>\<open>process.env.USER_JWT\<close>, line 21\<close>

record lib =
  mime_lookup :: "string \<Rightarrow> string option"       \<comment> \<open>\<open>mime.lookup\<close>; \<open>None\<close> is its \<open>false\<close>\<close>
  image_size :: "string \<Rightarrow> (nat \<times> nat) option"  \<comment> \<open>\<open>imageSize\<close>: (width, height); \<open>None\<close> throws\<close>
  json_parse :: "string \<Rightarrow> jsval option"         \<comment> \<open>\<open>JSON.parse\<close>; \<open>None\<close> throws\<close>

definition watson_work :: string where
  "watson_work = ''https://api.watsonwork.ibm.com''"

subsection \<open>File-system events\<close>

text \<open>
  The arguments of the \<open>watch.watchTree\<close> callback (line 147): \<open>f\<close> is the object of all
  files when the initial walk is finished and a path otherwise; \<open>curr\<close> and \<open>prev\<close> are
  \<open>fs.Stats\<close> objects or \<open>null\<close>.
\<close>

datatype fs_arg = FilesObj | FPath string

record stat =
  st_size :: nat
  st_nlink :: nat

subsection \<open>Requests, responses, callbacks, output\<close>

datatype http_req =
    TokenReq string "string option" "string option" "(string \<times> string) list"
      \<comment> \<open>URL, basic-auth user and password, form fields\<close>
  | FileReq string string string string              \<comment> \<open>host path, Authorization, file, attributes\<close>
  | MsgReq string string jsval                       \<comment> \<open>URL, Authorization, JSON body\<close>

text \<open>
  What a request's callback receives: a transport error (\<open>err\<close> set, \<open>response\<close>
  undefined) or a response with its status code and body.
\<close>

datatype http_resp = NetError string | HttpResp nat string

datatype auth_k =
    KUpload string string nat string  \<comment> \<open>closure of line 121: spaceId, fileName, fileSize, attributes\<close>
  | KMessage string jsval             \<comment> \<open>closure of line 92: message URL, messageData\<close>

datatype cont =
    CAuth auth_k             \<comment> \<open>callback of the token request, line 45\<close>
  | CSubmit string string nat  \<comment> \<open>callback of \<open>form.submit\<close>, line 127\<close>
  | CData string string nat    \<comment> \<open>\<open>res.on('data', ...)\<close> listener, line 131\<close>
  | CPost                    \<comment> \<open>callback of the message request, line 103\<close>

datatype log_msg =
    LogWalked | LogCreated fs_arg | LogRemoved fs_arg | LogChanged fs_arg
  | LogAuthExit | LogUploadError string | LogBody string | LogMessage jsval | LogPostError nat

datatype proc_status = Running | Exited int | Crashed js_error

record world =
  pending :: "fs_arg list"
  conts :: "nat \<Rightarrow> cont option"
  next_id :: nat
  sent :: "(nat \<times> http_req) list"
  out :: "log_msg list"
  status :: proc_status

definition init_world :: world where
  "init_world = \<lparr>pending = [], conts = Map.empty, next_id = 0, sent = [], out = [], status = Running\<rparr>"

subsection \<open>A configuration and library instance for the witnesses\<close>

text \<open>
  Watched folder \<open>/watch/\<close>, no \<open>USER_JWT\<close>; \<open>mime.lookup\<close> knows \<open>.jpg\<close> and \<open>.txt\<close>;
  \<open>imageSize\<close> knows one picture of 100 by 50 pixels; \<open>JSON.parse\<close> is given on the two
  response bodies the witnesses use: a token response, an upload response with file id 42, an
  error response without \<open>entries\<close> and a token response without \<open>access_token\<close>.
\<close>

definition demo_cfg :: config where
  "demo_cfg = \<lparr>app_id = Some ''app'', app_secret = Some ''secret'', folder = ''/watch/'',
     space_id = ''space1'', user_jwt = None\<rparr>"

definition demo_lib :: lib where
  "demo_lib = \<lparr>
     mime_lookup = (\<lambda>s. if starts_with (rev s) (rev ''.jpg'') then Some ''image/jpeg''
                        else if starts_with (rev s) (rev ''.txt'') then Some ''text/plain'' else None),
     image_size = (\<lambda>fn. if fn = ''/watch/photo.jpg'' then Some (100, 50) else None),
     json_parse = (\<lambda>b. if b = ''token-body'' then Some (JObj [(''access_token'', JStr ''T'')])
                       else if b = ''upload-body''
                       then Some (JObj [(''entries'', JArr [JObj [(''id'', JNum 42)]])])
                       else if b = ''error-body'' then Some (JObj [(''errors'', JArr [])])
                       else if b = ''no-token-body'' then Some (JObj [(''token_type'', JStr ''bearer'')])
                       else None)\<rparr>"

subsection \<open>State helpers\<close>

text \<open>Sending a request: it gets the next number and its callback is registered under it.\<close>

definition issue :: "http_req \<Rightarrow> cont \<Rightarrow> world \<Rightarrow> world" where
  "issue r k w =
     w\<lparr>sent := sent w @ [(next_id w, r)], conts := (conts w)(next_id w \<mapsto> k),
       next_id := Suc (next_id w)\<rparr>"

definition log :: "log_msg \<Rightarrow> world \<Rightarrow> world" where
  "log m w = w\<lparr>out := out w @ [m]\<rparr>"

lemmas demo_simps = demo_cfg_def demo_lib_def

lemma demo_facts:
  "user_jwt demo_cfg = None" "space_id demo_cfg = ''space1''" "folder demo_cfg = ''/watch/''"
  "json_parse demo_lib ''token-body'' = Some (JObj [(''access_token'', JStr ''T'')])"
  "json_parse demo_lib ''upload-body'' = Some (JObj [(''entries'', JArr [JObj [(''id'', JNum 42)]])])"
  by (simp_all add: demo_simps)

lemma issue_fields [world_simps]:
  "pending (issue r k w) = pending w"
  "status (issue r k w) = status w"
  "out (issue r k w) = out w"
  "sent (issue r k w) = sent w @ [(next_id w, r)]"
  "next_id (issue r k w) = Suc (next_id w)"
  "conts (issue r k w) = (conts w)(next_id w \<mapsto> k)"
  by (simp_all add: issue_def)

lemma log_fields [world_simps]:
  "pending (log m w) = pending w"
  "status (log m w) = status w"
  "out (log m w) = out w @ [m]"
  "sent (log m w) = sent w"
  "next_id (log m w) = next_id w"
  "conts (log m w) = conts w"
  by (simp_all add: log_def)

end
