(* ===== verification/Auth.thy ===== *)
theory Auth
  imports World
begin

text \<open>
  The Authenticator: \<open>authenticateApp\<close> (lines 24--53) and the two closures the program
  hands to it (lines 92--103 in \<open>sendMessage\<close>, lines 121--127 in \<open>uploadFile\<close>).  A
  closure is a value of \<open>auth_k\<close>; applying it to a token is \<open>run_auth_k\<close>, which sends the
  upload or the message request with the header \<open>Authorization: Bearer <token>\<close>.  With a
  non-empty \<open>USER_JWT\<close> the closure runs at once with that token; otherwise a token request
  is sent and the closure waits in \<open>CAuth\<close> for its response, handled by
  \<open>auth_callback\<close>.
\<close>

subsection \<open>Operations\<close>

definition bearer :: "jsval \<Rightarrow> string" where
  "bearer jwt = ''Bearer '' @ js_to_string jwt"

definition files_api :: string where
  "files_api = ''/files/api/v1/files/file/''"

definition run_auth_k :: "auth_k \<Rightarrow> jsval \<Rightarrow> world \<Rightarrow> world" where
  "run_auth_k k jwt w =
     (case k of
        KUpload sp fn sz attrs \<Rightarrow> issue (FileReq files_api (bearer jwt) fn attrs) (CSubmit sp fn sz) w
      | KMessage url msg \<Rightarrow> issue (MsgReq url (bearer jwt) msg) CPost w)"

text \<open>\<open>if (USER_JWT)\<close>: an environment variable is \<open>undefined\<close> or a string, truthy when non-empty.\<close>

definition env_truthy :: "string option \<Rightarrow> bool" where
  "env_truthy v = (case v of None \<Rightarrow> False | Some s \<Rightarrow> s \<noteq> [])"

definition token_request :: "config \<Rightarrow> http_req" where
  "token_request cfg =
     TokenReq (watson_work @ ''/oauth/token'') (app_id cfg) (app_secret cfg) [(''grant_type'', ''client_credentials'')]"

definition authenticate_app :: "config \<Rightarrow> auth_k \<Rightarrow> world \<Rightarrow> world" where
  "authenticate_app cfg k w =
     (case user_jwt cfg of
        Some j \<Rightarrow> if j \<noteq> [] then run_auth_k k (JStr j) w else issue (token_request cfg) (CAuth k) w
      | None \<Rightarrow> issue (token_request cfg) (CAuth k) w)"

text \<open>
  Lines 45--52.  On a transport error \<open>response\<close> is \<open>undefined\<close> and reading its
  \<open>statusCode\<close> throws; a status other than 200 logs and calls \<open>process.exit(1)\<close>; otherwise
  the body is parsed and its \<open>access_token\<close> passed to the closure.
\<close>

definition auth_callback :: "lib \<Rightarrow> auth_k \<Rightarrow> http_resp \<Rightarrow> world \<Rightarrow> js_error + world" where
  "auth_callback L k r w =
     (case r of
        NetError e \<Rightarrow> Inl TypeError
      | HttpResp code body \<Rightarrow>
          if code \<noteq> 200 then Inr ((log LogAuthExit w)\<lparr>status := Exited 1\<rparr>)
          else (case json_parse L body of
                  None \<Rightarrow> Inl SyntaxError
                | Some v \<Rightarrow> ebind (js_get v ''access_token'') (\<lambda>tok. Inr (run_auth_k k tok w))))"

declare run_auth_k_def [handler_defs] authenticate_app_def [handler_defs] auth_callback_def [handler_defs]

subsection \<open>Lemmas\<close>

lemma env_truthy_Some [simp]: "env_truthy (Some s) \<longleftrightarrow> s \<noteq> []"
  by (simp add: env_truthy_def)

lemma authenticate_app_static:
  "user_jwt cfg = Some j \<Longrightarrow> j \<noteq> [] \<Longrightarrow> authenticate_app cfg k w = run_auth_k k (JStr j) w"
  by (simp add: authenticate_app_def)

lemma authenticate_app_exchange:
  "\<not> env_truthy (user_jwt cfg) \<Longrightarrow> authenticate_app cfg k w = issue (token_request cfg) (CAuth k) w"
  by (auto simp add: authenticate_app_def env_truthy_def split: option.splits)

lemma run_auth_k_fields [world_simps]:
  "pending (run_auth_k k jwt w) = pending w"
  "status (run_auth_k k jwt w) = status w"
  "out (run_auth_k k jwt w) = out w"
  "next_id (run_auth_k k jwt w) = Suc (next_id w)"
  by (simp_all add: run_auth_k_def world_simps split: auth_k.splits)

lemma authenticate_app_fields [world_simps]:
  "pending (authenticate_app cfg k w) = pending w"
  "status (authenticate_app cfg k w) = status w"
  "out (authenticate_app cfg k w) = out w"
  "next_id (authenticate_app cfg k w) = Suc (next_id w)"
  by (simp_all add: authenticate_app_def world_simps split: option.splits)

text \<open>Every call of \<open>authenticateApp\<close> sends exactly one request: the token exchange or the closure's.\<close>

lemma authenticate_app_sent:
  "\<exists>r. sent (authenticate_app cfg k w) = sent w @ [(next_id w, r)]"
  by (auto simp add: authenticate_app_def run_auth_k_def world_simps split: option.splits auth_k.splits)

lemma auth_callback_fields:
  assumes "auth_callback L k r w = Inr w'"
  shows "pending w' = pending w"
    and "status w' = status w \<or> (status w' = Exited 1 \<and> sent w' = sent w)"
  using assms
  by (auto simp add: auth_callback_def ebind_eq_Inr world_simps split: http_resp.splits if_splits option.splits)

end
