(* ===== verification/Message.thy ===== *)
theory Message
  imports Auth
begin

text \<open>
  The Message Composer: \<open>sendMessage\<close> (lines 56--111).  It strips the watched folder from
  the path (\<open>short_name\<close>), looks the MIME type up, reads the image dimensions when the type
  contains \<open>image\<close> (\<open>image_dims\<close>), builds the message object (\<open>message_data\<close>, lines
  68--88), logs it and authenticates with the closure \<open>KMessage\<close> that posts it.  The
  response of the post is handled by \<open>post_callback\<close> (lines 103--109).
\<close>

subsection \<open>Operations\<close>

definition spaces_api :: "string \<Rightarrow> string" where
  "spaces_api sp = ''v1/spaces/'' @ sp @ ''/messages''"

text \<open>\<open>fileName.replace(folder, '')\<close>, lines 60 and 115.\<close>

definition short_name :: "config \<Rightarrow> string \<Rightarrow> string" where
  "short_name cfg fn = js_replace fn (folder cfg) []"

text \<open>Lines 62--65; \<open>dimensions\<close> as the pair (width, height).\<close>

definition image_dims :: "lib \<Rightarrow> string \<Rightarrow> string \<Rightarrow> js_error + (nat \<times> nat)" where
  "image_dims L mt fn =
     (if str_index_of mt ''image'' > -1
      then (case image_size L fn of None \<Rightarrow> Inl ImageSizeError | Some d \<Rightarrow> Inr d)
      else Inr (0, 0))"

definition message_data :: "jsval \<Rightarrow> string \<Rightarrow> string \<Rightarrow> nat \<Rightarrow> nat \<times> nat \<Rightarrow> jsval" where
  "message_data fid short mt sz d =
     JObj [(''type'', JStr ''appMessage''), (''version'', JNum 1),
       (''annotations'', JArr
         [JObj [(''type'', JStr ''generic''), (''version'', JNum 1),
                (''text'', JStr (''<$file|'' @ js_to_string fid @ ''|'' @ short @ ''>''))],
          JObj [(''type'', JStr ''file''), (''contentType'', JStr mt), (''fileId'', fid),
                (''name'', JStr short), (''version'', JNum 1), (''size'', JNum (int sz)),
                (''height'', JNum (int (snd d))), (''width'', JNum (int (fst d)))]])]"

definition send_message :: "config \<Rightarrow> lib \<Rightarrow> string \<Rightarrow> jsval \<Rightarrow> string \<Rightarrow> nat \<Rightarrow> world \<Rightarrow> js_error + world" where
  "send_message cfg L sp fid fn sz w =
     (let api = spaces_api sp; short = short_name cfg fn in
      case mime_lookup L short of
        None \<Rightarrow> Inl TypeError
      | Some mt \<Rightarrow> ebind (image_dims L mt fn) (\<lambda>d.
          let msg = message_data fid short mt sz d in
          Inr (authenticate_app cfg (KMessage (watson_work @ ''/'' @ api) msg) (log (LogMessage msg) w))))"

text \<open>
  Lines 103--109: on a transport error \<open>response\<close> is \<open>undefined\<close> and \<open>response.statusCode\<close>
  throws; a status other than 201 is logged; nothing else happens.
\<close>

definition post_callback :: "http_resp \<Rightarrow> world \<Rightarrow> js_error + world" where
  "post_callback r w =
     (case r of
        NetError e \<Rightarrow> Inl TypeError
      | HttpResp code body \<Rightarrow> Inr (if code \<noteq> 201 then log (LogPostError code) w else w))"

declare send_message_def [handler_defs] post_callback_def [handler_defs]

subsection \<open>Lemmas\<close>

lemma image_dims_image:
  "str_index_of mt ''image'' \<noteq> -1 \<Longrightarrow> image_size L fn = Some d \<Longrightarrow> image_dims L mt fn = Inr d"
  by (simp add: image_dims_def)

lemma image_dims_other:
  "str_index_of mt ''image'' = -1 \<Longrightarrow> image_dims L mt fn = Inr (0, 0)"
  by (simp add: image_dims_def)

text \<open>The shape of a successful \<open>sendMessage\<close>: the message is logged, then \<open>authenticateApp\<close> runs.\<close>

lemma send_message_Inr_iff:
  "send_message cfg L sp fid fn sz w = Inr w' \<longleftrightarrow>
     (\<exists>mt d. mime_lookup L (short_name cfg fn) = Some mt \<and> image_dims L mt fn = Inr d \<and>
        w' = authenticate_app cfg
               (KMessage (watson_work @ ''/'' @ spaces_api sp) (message_data fid (short_name cfg fn) mt sz d))
               (log (LogMessage (message_data fid (short_name cfg fn) mt sz d)) w))"
  by (auto simp add: send_message_def ebind_eq_Inr Let_def split: option.splits)

lemma send_message_fields:
  assumes "send_message cfg L sp fid fn sz w = Inr w'"
  shows "pending w' = pending w" "status w' = status w" "next_id w' = Suc (next_id w)"
  using assms by (auto simp add: send_message_Inr_iff world_simps)

lemma post_callback_Inr:
  "post_callback r w = Inr w' \<Longrightarrow>
   pending w' = pending w \<and> status w' = status w \<and> sent w' = sent w \<and> conts w' = conts w"
  by (auto simp add: post_callback_def world_simps split: http_resp.splits if_splits)

subsection \<open>Properties\<close>

text \<open>
  C10.  Short-name derivation (lines 60 and 115): for a path inside the watched folder the
  short name is the path with the folder prefix removed and nothing else altered.
\<close>

theorem short_name_prefix: "short_name cfg (folder cfg @ rest) = rest"
  by (simp add: short_name_def js_replace_def)

text \<open>
  C7.  For a file whose MIME type contains \<open>image\<close> and whose dimensions \<open>imageSize\<close>
  reads, \<open>sendMessage\<close> returns normally and the message it logs (and posts) carries
  these pixel dimensions in its file annotation.
\<close>

theorem send_message_image_dims:
  assumes "mime_lookup L (short_name cfg fn) = Some mt"
    and "str_index_of mt ''image'' \<noteq> -1"
    and "image_size L fn = Some (wd, ht)"
  shows "\<exists>w' m. send_message cfg L sp fid fn sz w = Inr w' \<and> out w' = out w @ [LogMessage m] \<and>
           js_path m [PKey ''annotations'', PIdx 1, PKey ''width''] = Inr (JNum (int wd)) \<and>
           js_path m [PKey ''annotations'', PIdx 1, PKey ''height''] = Inr (JNum (int ht))"
proof -
  have "image_dims L mt fn = Inr (wd, ht)"
    using assms(2,3) by (rule image_dims_image)
  with assms(1) show ?thesis
    by (simp add: send_message_def Let_def message_data_def world_simps)
qed

theorem send_message_image_dims_witness:
  "mime_lookup demo_lib (short_name demo_cfg ''/watch/photo.jpg'') = Some ''image/jpeg''
   \<and> str_index_of ''image/jpeg'' ''image'' \<noteq> -1
   \<and> image_size demo_lib ''/watch/photo.jpg'' = Some (100, 50)
   \<and> (\<exists>w' m. send_message demo_cfg demo_lib ''space1'' (JNum 42) ''/watch/photo.jpg'' 7 init_world = Inr w'
        \<and> out w' = out init_world @ [LogMessage m]
        \<and> js_path m [PKey ''annotations'', PIdx 1, PKey ''width''] = Inr (JNum (int 100))
        \<and> js_path m [PKey ''annotations'', PIdx 1, PKey ''height''] = Inr (JNum (int 50)))"
proof -
  have h1: "mime_lookup demo_lib (short_name demo_cfg ''/watch/photo.jpg'') = Some ''image/jpeg''"
    by (simp add: demo_simps short_name_def js_eval_simps)
  have h2: "str_index_of ''image/jpeg'' ''image'' \<noteq> -1"
    by (simp add: js_eval_simps)
  have h3: "image_size demo_lib ''/watch/photo.jpg'' = Some (100, 50)"
    by (simp add: demo_simps)
  show ?thesis
    using send_message_image_dims [OF h1 h2 h3, of "''space1''" "JNum 42" 7 init_world] h1 h2 h3
    by blast
qed

text \<open>
  C8.  For a file whose MIME type does not contain \<open>image\<close>, \<open>sendMessage\<close> returns
  normally without reading the file and the logged message has width and height 0.
\<close>

theorem send_message_plain_dims:
  assumes "mime_lookup L (short_name cfg fn) = Some mt"
    and "str_index_of mt ''image'' = -1"
  shows "\<exists>w' m. send_message cfg L sp fid fn sz w = Inr w' \<and> out w' = out w @ [LogMessage m] \<and>
           js_path m [PKey ''annotations'', PIdx 1, PKey ''width''] = Inr (JNum 0) \<and>
           js_path m [PKey ''annotations'', PIdx 1, PKey ''height''] = Inr (JNum 0)"
  using assms
  by (simp add: send_message_def image_dims_other Let_def message_data_def world_simps)

theorem send_message_plain_dims_witness:
  "mime_lookup demo_lib (short_name demo_cfg ''/watch/notes.txt'') = Some ''text/plain''
   \<and> str_index_of ''text/plain'' ''image'' = -1
   \<and> (\<exists>w' m. send_message demo_cfg demo_lib ''space1'' (JNum 42) ''/watch/notes.txt'' 7 init_world = Inr w'
        \<and> out w' = out init_world @ [LogMessage m]
        \<and> js_path m [PKey ''annotations'', PIdx 1, PKey ''width''] = Inr (JNum 0)
        \<and> js_path m [PKey ''annotations'', PIdx 1, PKey ''height''] = Inr (JNum 0))"
proof -
  have h1: "mime_lookup demo_lib (short_name demo_cfg ''/watch/notes.txt'') = Some ''text/plain''"
    by (simp add: demo_simps short_name_def js_eval_simps)
  have h2: "str_index_of ''text/plain'' ''image'' = -1"
    by (simp add: js_eval_simps)
  show ?thesis
    using send_message_plain_dims [OF h1 h2, of "''space1''" "JNum 42" 7 init_world] h1 h2
    by blast
qed

text \<open>
  C9.  Whenever \<open>sendMessage\<close> returns normally, the generic annotation of the message it
  logs has the text \<open><$file|ID|NAME>\<close> where ID is the file id converted to a string and
  NAME the short name (line 75).
\<close>

theorem send_message_text:
  assumes "send_message cfg L sp fid fn sz w = Inr w'"
  shows "\<exists>m. out w' = out w @ [LogMessage m] \<and>
           js_path m [PKey ''annotations'', PIdx 0, PKey ''text'']
             = Inr (JStr (''<$file|'' @ js_to_string fid @ ''|'' @ short_name cfg fn @ ''>''))"
  using assms by (auto simp add: send_message_Inr_iff message_data_def world_simps)

theorem send_message_text_witness:
  "send_message demo_cfg demo_lib ''space1'' (JNum 42) ''/watch/a.txt'' 7 init_world
     = Inr (authenticate_app demo_cfg
              (KMessage (watson_work @ ''/'' @ spaces_api ''space1'')
                 (message_data (JNum 42) ''a.txt'' ''text/plain'' 7 (0, 0)))
              (log (LogMessage (message_data (JNum 42) ''a.txt'' ''text/plain'' 7 (0, 0))) init_world))
   \<and> (\<exists>m. out (authenticate_app demo_cfg
              (KMessage (watson_work @ ''/'' @ spaces_api ''space1'')
                 (message_data (JNum 42) ''a.txt'' ''text/plain'' 7 (0, 0)))
              (log (LogMessage (message_data (JNum 42) ''a.txt'' ''text/plain'' 7 (0, 0))) init_world))
          = out init_world @ [LogMessage m]
        \<and> js_path m [PKey ''annotations'', PIdx 0, PKey ''text''] = Inr (JStr ''<$file|42|a.txt>''))"
proof -
  have sn: "short_name demo_cfg ''/watch/a.txt'' = ''a.txt''"
    by (simp add: demo_simps short_name_def js_eval_simps)
  have h: "send_message demo_cfg demo_lib ''space1'' (JNum 42) ''/watch/a.txt'' 7 init_world
     = Inr (authenticate_app demo_cfg
              (KMessage (watson_work @ ''/'' @ spaces_api ''space1'')
                 (message_data (JNum 42) ''a.txt'' ''text/plain'' 7 (0, 0)))
              (log (LogMessage (message_data (JNum 42) ''a.txt'' ''text/plain'' 7 (0, 0))) init_world))"
  proof -
    have m: "mime_lookup demo_lib ''a.txt'' = Some ''text/plain''"
      by (simp add: demo_simps js_eval_simps)
    have d: "image_dims demo_lib ''text/plain'' ''/watch/a.txt'' = Inr (0, 0)"
      by (simp add: image_dims_other js_eval_simps)
    show ?thesis
      by (simp add: send_message_def Let_def sn m d)
  qed
  show ?thesis
    using send_message_text [OF h] h sn by (simp add: js_eval_simps)
qed

text \<open>
  \<open>fileName.replace(folder, '')\<close> with a string pattern removes the first occurrence of the
  folder wherever it is, not only a prefix: a path that contains the folder further in loses
  that inner part (the specification describes stripping a prefix).
\<close>

lemma short_name_inner_folder:
  "short_name demo_cfg ''/mnt/watch/a.txt'' = ''/mnta.txt''"
  by (simp add: short_name_def demo_simps js_eval_simps)

end
