(* ===== verification/Upload.thy ===== *)
theory Upload
  imports Message
begin

text \<open>
  The File Uploader: \<open>uploadFile\<close> (lines 113--143).  It computes the short name and the
  \<open>attributes\<close> JSON part, and authenticates with the closure \<open>KUpload\<close> that submits the
  multipart form.  The submit callback (\<open>submit_callback\<close>, lines 127--130) logs a transport
  error or registers a \<open>data\<close> listener on the response; each \<open>data\<close> chunk
  (\<open>data_listener\<close>, lines 131--138) is logged, parsed, its \<open>entries[0].id\<close> passed to
  \<open>sendMessage\<close>, and then the file is removed from \<open>pending\<close>.  The listener stays
  registered, so a response delivered in several chunks runs it several times.
\<close>

subsection \<open>Operations\<close>

text \<open>\<open>JSON.stringify({"name": shortName, "space": spaceId})\<close>, line 116; the stringification of an object is never \<open>undefined\<close>.\<close>

definition upload_attributes :: "string \<Rightarrow> string \<Rightarrow> string" where
  "upload_attributes short sp =
     (case json_stringify (JObj [(''name'', JStr short), (''space'', JStr sp)]) of
        Some t \<Rightarrow> t | None \<Rightarrow> [])"

text \<open>
  \<open>fileName\<close> is the watcher's \<open>f\<close>; \<open>fileName.replace\<close> on the files object is a call of
  \<open>undefined\<close> and throws.  \<open>fs.createReadStream\<close> opens the file lazily, so it cannot throw here.
\<close>

definition upload_file :: "config \<Rightarrow> string \<Rightarrow> fs_arg \<Rightarrow> nat \<Rightarrow> world \<Rightarrow> js_error + world" where
  "upload_file cfg sp f sz w =
     (case f of
        FilesObj \<Rightarrow> Inl TypeError
      | FPath fn \<Rightarrow>
          (let short = short_name cfg fn; attrs = upload_attributes short sp in
           Inr (authenticate_app cfg (KUpload sp fn sz attrs) w)))"

definition submit_callback :: "nat \<Rightarrow> string \<Rightarrow> string \<Rightarrow> nat \<Rightarrow> http_resp \<Rightarrow> world \<Rightarrow> world" where
  "submit_callback i sp fn sz r w =
     (case r of
        NetError e \<Rightarrow> log (LogUploadError e) w
      | HttpResp code body \<Rightarrow> w\<lparr>conts := (conts w)(i \<mapsto> CData sp fn sz)\<rparr>)"

definition data_listener :: "config \<Rightarrow> lib \<Rightarrow> string \<Rightarrow> string \<Rightarrow> nat \<Rightarrow> string \<Rightarrow> world \<Rightarrow> js_error + world" where
  "data_listener cfg L sp fn sz chunk w =
     (let w1 = log (LogBody chunk) w in
      case json_parse L chunk of
        None \<Rightarrow> Inl SyntaxError
      | Some v \<Rightarrow>
          ebind (js_path v [PKey ''entries'', PIdx 0, PKey ''id'']) (\<lambda>fid.
          ebind (send_message cfg L sp fid fn sz w1) (\<lambda>w2.
          Inr (w2\<lparr>pending := array_remove (pending w2) (FPath fn)\<rparr>))))"

declare upload_file_def [handler_defs] submit_callback_def [handler_defs] data_listener_def [handler_defs]

subsection \<open>Lemmas\<close>

lemma upload_file_Inr_iff:
  "upload_file cfg sp f sz w = Inr w' \<longleftrightarrow>
     (\<exists>fn. f = FPath fn \<and>
        w' = authenticate_app cfg (KUpload sp fn sz (upload_attributes (short_name cfg fn) sp)) w)"
  by (auto simp add: upload_file_def split: fs_arg.splits)

lemma upload_file_fields:
  assumes "upload_file cfg sp f sz w = Inr w'"
  shows "pending w' = pending w" "status w' = status w" "next_id w' = Suc (next_id w)"
  using assms by (auto simp add: upload_file_Inr_iff world_simps)

lemma submit_callback_fields [world_simps]:
  "pending (submit_callback i sp fn sz r w) = pending w"
  "status (submit_callback i sp fn sz r w) = status w"
  "sent (submit_callback i sp fn sz r w) = sent w"
  "next_id (submit_callback i sp fn sz r w) = next_id w"
  by (simp_all add: submit_callback_def world_simps split: http_resp.splits)

lemma data_listener_Inr_iff:
  "data_listener cfg L sp fn sz chunk w = Inr w' \<longleftrightarrow>
     (\<exists>v fid w2. json_parse L chunk = Some v \<and>
        js_path v [PKey ''entries'', PIdx 0, PKey ''id''] = Inr fid \<and>
        send_message cfg L sp fid fn sz (log (LogBody chunk) w) = Inr w2 \<and>
        w' = w2\<lparr>pending := array_remove (pending w2) (FPath fn)\<rparr>)"
  by (auto simp add: data_listener_def ebind_eq_Inr Let_def split: option.splits)

lemma data_listener_fields:
  assumes "data_listener cfg L sp fn sz chunk w = Inr w'"
  shows "pending w' = remove1 (FPath fn) (pending w)" "status w' = status w"
    "next_id w' = Suc (next_id w)"
  using assms
  by (auto simp add: data_listener_Inr_iff array_remove_remove1 world_simps dest: send_message_fields)

subsection \<open>Properties\<close>

text \<open>
  C15.  A \<open>data\<close> chunk that parses, has an \<open>entries[0].id\<close> and names a file with a known
  MIME type (and readable dimensions if it is an image) is handled without exception:
  \<open>sendMessage\<close> starts and the file leaves the duplicate-free \<open>pending\<close> array, which
  otherwise keeps its elements.
\<close>

theorem data_listener_removes:
  assumes "distinct (pending w)"
    and "json_parse L chunk = Some v"
    and "js_path v [PKey ''entries'', PIdx 0, PKey ''id''] = Inr fid"
    and "mime_lookup L (short_name cfg fn) = Some mt"
    and "image_dims L mt fn = Inr d"
  shows "\<exists>w'. data_listener cfg L sp fn sz chunk w = Inr w' \<and> FPath fn \<notin> set (pending w') \<and>
           set (pending w') = set (pending w) - {FPath fn} \<and> status w' = status w"
proof -
  obtain w2 where sm: "send_message cfg L sp fid fn sz (log (LogBody chunk) w) = Inr w2"
    using assms(4,5) by (simp add: send_message_def Let_def)
  then have "data_listener cfg L sp fn sz chunk w = Inr (w2\<lparr>pending := array_remove (pending w2) (FPath fn)\<rparr>)"
    using assms(2,3) by (simp add: data_listener_def)
  moreover have "pending w2 = pending w" "status w2 = status w"
    using send_message_fields [OF sm] by (simp_all add: world_simps)
  ultimately show ?thesis
    using assms(1) by (simp add: array_remove_remove1)
qed

theorem data_listener_removes_witness:
  "distinct [FPath ''/watch/a.txt'']
   \<and> json_parse demo_lib ''upload-body'' = Some (JObj [(''entries'', JArr [JObj [(''id'', JNum 42)]])])
   \<and> js_path (JObj [(''entries'', JArr [JObj [(''id'', JNum 42)]])]) [PKey ''entries'', PIdx 0, PKey ''id''] = Inr (JNum 42)
   \<and> mime_lookup demo_lib (short_name demo_cfg ''/watch/a.txt'') = Some ''text/plain''
   \<and> image_dims demo_lib ''text/plain'' ''/watch/a.txt'' = Inr (0, 0)
   \<and> (\<exists>w'. data_listener demo_cfg demo_lib ''space1'' ''/watch/a.txt'' 7 ''upload-body''
              (init_world\<lparr>pending := [FPath ''/watch/a.txt'']\<rparr>) = Inr w'
         \<and> FPath ''/watch/a.txt'' \<notin> set (pending w')
         \<and> set (pending w') = set [FPath ''/watch/a.txt''] - {FPath ''/watch/a.txt''}
         \<and> status w' = Running)"
proof -
  have h1: "distinct (pending (init_world\<lparr>pending := [FPath ''/watch/a.txt'']\<rparr>))" by simp
  have h2: "json_parse demo_lib ''upload-body'' = Some (JObj [(''entries'', JArr [JObj [(''id'', JNum 42)]])])"
    by (simp add: demo_simps)
  have h3: "js_path (JObj [(''entries'', JArr [JObj [(''id'', JNum 42)]])]) [PKey ''entries'', PIdx 0, PKey ''id''] = Inr (JNum 42)"
    by simp
  have h4: "mime_lookup demo_lib (short_name demo_cfg ''/watch/a.txt'') = Some ''text/plain''"
    by (simp add: demo_simps short_name_def js_eval_simps)
  have h5: "image_dims demo_lib ''text/plain'' ''/watch/a.txt'' = Inr (0, 0)"
    by (simp add: image_dims_other js_eval_simps)
  show ?thesis
    using data_listener_removes [OF h1 h2 h3 h4 h5, of "''space1''" 7] h2 h3 h4 h5
    by (simp add: init_world_def)
qed

end
