(* ===== verification/Watcher.thy ===== *)
theory Watcher
  imports Upload
begin

text \<open>
  The Directory Watcher: the callback given to \<open>watch.watchTree\<close> (lines 147--161), with
  the source's \<open>curr\<close> and \<open>prev\<close> named \<open>cur\<close> and \<open>prv\<close>.  The end of the initial
  walk and removals and changes are only logged; a creation of a path that is not in
  \<open>pending\<close> pushes it, logs it and starts \<open>uploadFile\<close> with the size from \<open>curr\<close>.
  Reading \<open>curr.size\<close> or \<open>curr.nlink\<close> when \<open>curr\<close> is \<open>null\<close> throws.
\<close>

subsection \<open>Operations\<close>

definition watch_callback ::
  "config \<Rightarrow> fs_arg \<Rightarrow> stat option \<Rightarrow> stat option \<Rightarrow> world \<Rightarrow> js_error + world" where
  "watch_callback cfg f cur prv w =
     (if f = FilesObj \<and> prv = None \<and> cur = None then Inr (log LogWalked w)
      else if prv = None then
        (if array_index_of (pending w) f = -1 then
           (let w1 = log (LogCreated f) (w\<lparr>pending := pending w @ [f]\<rparr>) in
            case cur of
              None \<Rightarrow> Inl TypeError
            | Some c \<Rightarrow> upload_file cfg (space_id cfg) f (st_size c) w1)
         else Inr w)
      else (case cur of
              None \<Rightarrow> Inl TypeError
            | Some c \<Rightarrow> if st_nlink c = 0 then Inr (log (LogRemoved f) w)
                       else Inr (log (LogChanged f) w)))"

declare watch_callback_def [handler_defs]

subsection \<open>Lemmas\<close>

lemma watch_callback_pending:
  assumes "watch_callback cfg f cur prv w = Inr w'"
  shows "pending w' = pending w \<or> (f \<notin> set (pending w) \<and> pending w' = pending w @ [f])"
  using assms
  by (auto simp add: watch_callback_def Let_def world_simps split: if_splits option.splits
      dest: upload_file_fields)

lemma watch_callback_status:
  "watch_callback cfg f cur prv w = Inr w' \<Longrightarrow> status w' = status w"
  by (auto simp add: watch_callback_def Let_def world_simps split: if_splits option.splits
      dest: upload_file_fields)

lemma watch_created_fresh:
  "FPath p \<notin> set (pending w) \<Longrightarrow>
   watch_callback cfg (FPath p) (Some c) None w =
     Inr (authenticate_app cfg
            (KUpload (space_id cfg) p (st_size c) (upload_attributes (short_name cfg p) (space_id cfg)))
            (log (LogCreated (FPath p)) (w\<lparr>pending := pending w @ [FPath p]\<rparr>)))"
  by (simp add: watch_callback_def upload_file_def Let_def)

lemma watch_created_pending:
  "FPath p \<in> set (pending w) \<Longrightarrow> watch_callback cfg (FPath p) cur None w = Inr w"
  by (simp add: watch_callback_def)

end
