(* ===== verification/Runtime.thy ===== *)
theory Runtime
  imports Watcher
begin

text \<open>
  The Node.js event loop that drives the handlers.  An event is a file-system notification
  from \<open>watch\<close>, the completion of a request (its callback runs once and is then
  forgotten), or a \<open>data\<close> chunk on the response stream of an upload (the listener stays).
  Handlers run to completion one at a time; an exception that escapes a handler terminates
  the process (\<open>commit\<close>), and after \<open>process.exit\<close> or such a crash no further event is
  handled.  \<open>run\<close> is a sequence of events; \<open>reachable\<close> the states some sequence reaches.
\<close>

subsection \<open>Events and the step function\<close>

datatype event =
    Watch fs_arg "stat option" "stat option"
  | Response nat http_resp
  | Data nat string
  | End nat

definition commit :: "world \<Rightarrow> js_error + world \<Rightarrow> world" where
  "commit w r = (case r of Inl e \<Rightarrow> w\<lparr>status := Crashed e\<rparr> | Inr w' \<Rightarrow> w')"

definition drop_cont :: "nat \<Rightarrow> world \<Rightarrow> world" where
  "drop_cont i w = w\<lparr>conts := (conts w)(i := None)\<rparr>"

definition step :: "config \<Rightarrow> lib \<Rightarrow> world \<Rightarrow> event \<Rightarrow> world" where
  "step cfg L w ev =
     (if status w \<noteq> Running then w
      else case ev of
        Watch f cur prv \<Rightarrow> commit w (watch_callback cfg f cur prv w)
      | Response i r \<Rightarrow>
          (case conts w i of
             Some (CAuth k) \<Rightarrow> commit w (auth_callback L k r (drop_cont i w))
           | Some (CSubmit sp fn sz) \<Rightarrow> submit_callback i sp fn sz r (drop_cont i w)
           | Some CPost \<Rightarrow> commit w (post_callback r (drop_cont i w))
           | _ \<Rightarrow> w)
      | Data i chunk \<Rightarrow>
          (case conts w i of
             Some (CData sp fn sz) \<Rightarrow> commit w (data_listener cfg L sp fn sz chunk w)
           | _ \<Rightarrow> w)
      | End i \<Rightarrow>
          (case conts w i of
             Some (CData sp fn sz) \<Rightarrow> drop_cont i w
           | _ \<Rightarrow> w))"

definition run :: "config \<Rightarrow> lib \<Rightarrow> world \<Rightarrow> event list \<Rightarrow> world" where
  "run cfg L w evs = foldl (step cfg L) w evs"

inductive reachable :: "config \<Rightarrow> lib \<Rightarrow> world \<Rightarrow> bool" for cfg L where
  init: "reachable cfg L init_world"
| step: "reachable cfg L w \<Longrightarrow> reachable cfg L (step cfg L w ev)"

subsection \<open>Lemmas: the loop\<close>

lemma commit_Inl [simp]: "commit w (Inl e) = w\<lparr>status := Crashed e\<rparr>"
  by (simp add: commit_def)

lemma commit_Inr [simp]: "commit w (Inr w') = w'"
  by (simp add: commit_def)

lemma drop_cont_fields [world_simps]:
  "pending (drop_cont i w) = pending w" "status (drop_cont i w) = status w"
  "sent (drop_cont i w) = sent w" "next_id (drop_cont i w) = next_id w"
  "out (drop_cont i w) = out w" "conts (drop_cont i w) = (conts w)(i := None)"
  by (simp_all add: drop_cont_def)

lemma step_stopped: "status w \<noteq> Running \<Longrightarrow> step cfg L w ev = w"
  by (simp add: step_def)

lemma run_Nil [simp]: "run cfg L w [] = w"
  by (simp add: run_def)

lemma run_Cons [simp]: "run cfg L w (ev # evs) = run cfg L (step cfg L w ev) evs"
  by (simp add: run_def)

lemma run_append: "run cfg L w (evs @ evs') = run cfg L (run cfg L w evs) evs'"
  by (simp add: run_def)

lemma run_stopped: "status w \<noteq> Running \<Longrightarrow> run cfg L w evs = w"
  by (induction evs) (simp_all add: step_stopped)

lemma reachable_run: "reachable cfg L w \<Longrightarrow> reachable cfg L (run cfg L w evs)"
  by (induction evs arbitrary: w) (auto intro: reachable.step)

subsection \<open>Lemmas: one rule per kind of event\<close>

lemma step_watch:
  "status w = Running \<Longrightarrow> step cfg L w (Watch f cur prv) = commit w (watch_callback cfg f cur prv w)"
  by (simp add: step_def)

lemma step_auth:
  "status w = Running \<Longrightarrow> conts w i = Some (CAuth k) \<Longrightarrow>
   step cfg L w (Response i r) = commit w (auth_callback L k r (drop_cont i w))"
  by (simp add: step_def)

lemma step_auth_ok:
  "status w = Running \<Longrightarrow> conts w i = Some (CAuth k) \<Longrightarrow>
   json_parse L b = Some v \<Longrightarrow> js_get v ''access_token'' = Inr t \<Longrightarrow>
   step cfg L w (Response i (HttpResp 200 b)) = run_auth_k k t (drop_cont i w)"
  by (simp add: step_auth auth_callback_def)

lemma step_submit:
  "status w = Running \<Longrightarrow> conts w i = Some (CSubmit sp fn sz) \<Longrightarrow>
   step cfg L w (Response i r) = submit_callback i sp fn sz r (drop_cont i w)"
  by (simp add: step_def)

lemma step_post:
  "status w = Running \<Longrightarrow> conts w i = Some CPost \<Longrightarrow>
   step cfg L w (Response i r) = commit w (post_callback r (drop_cont i w))"
  by (simp add: step_def)

lemma step_data:
  "status w = Running \<Longrightarrow> conts w i = Some (CData sp fn sz) \<Longrightarrow>
   step cfg L w (Data i chunk) = commit w (data_listener cfg L sp fn sz chunk w)"
  by (simp add: step_def)

lemma step_end:
  "status w = Running \<Longrightarrow> conts w i = Some (CData sp fn sz) \<Longrightarrow> step cfg L w (End i) = drop_cont i w"
  by (simp add: step_def)

lemma step_no_cont:
  "conts w i = None \<Longrightarrow> step cfg L w (Response i r) = w"
  "conts w i = None \<Longrightarrow> step cfg L w (Data i chunk) = w"
  "conts w i = None \<Longrightarrow> step cfg L w (End i) = w"
  by (simp_all add: step_def)

subsection \<open>Lemmas: invariants of the loop from invariants of the handlers\<close>

text \<open>
  A property of the world that every handler keeps when it returns normally, and that a
  crash keeps, holds after every step and so in every reachable state.  Each premise is about
  one handler, in the state the loop runs it in.
\<close>

lemma step_preserves:
  assumes watch: "\<And>w f cur prv w'. P w \<Longrightarrow> status w = Running \<Longrightarrow>
      watch_callback cfg f cur prv w = Inr w' \<Longrightarrow> P w'"
    and auth: "\<And>w i k r w'. P w \<Longrightarrow> status w = Running \<Longrightarrow> conts w i = Some (CAuth k) \<Longrightarrow>
      auth_callback L k r (drop_cont i w) = Inr w' \<Longrightarrow> P w'"
    and submit: "\<And>w i sp fn sz r. P w \<Longrightarrow> status w = Running \<Longrightarrow> conts w i = Some (CSubmit sp fn sz) \<Longrightarrow>
      P (submit_callback i sp fn sz r (drop_cont i w))"
    and post: "\<And>w i r w'. P w \<Longrightarrow> status w = Running \<Longrightarrow> conts w i = Some CPost \<Longrightarrow>
      post_callback r (drop_cont i w) = Inr w' \<Longrightarrow> P w'"
    and data: "\<And>w i sp fn sz chunk w'. P w \<Longrightarrow> status w = Running \<Longrightarrow> conts w i = Some (CData sp fn sz) \<Longrightarrow>
      data_listener cfg L sp fn sz chunk w = Inr w' \<Longrightarrow> P w'"
    and stream_end: "\<And>w i sp fn sz. P w \<Longrightarrow> status w = Running \<Longrightarrow> conts w i = Some (CData sp fn sz) \<Longrightarrow>
      P (drop_cont i w)"
    and crash: "\<And>w e. P w \<Longrightarrow> P (w\<lparr>status := Crashed e\<rparr>)"
    and "P w"
  shows "P (step cfg L w ev)"
proof (cases "status w = Running")
  case False
  with \<open>P w\<close> show ?thesis by (simp add: step_stopped)
next
  case True
  show ?thesis
  proof (cases ev)
    case (Watch f cur prv)
    with True \<open>P w\<close> show ?thesis
      by (auto simp add: step_def commit_def split: sum.splits intro: watch crash)
  next
    case (Response i r)
    with True \<open>P w\<close> show ?thesis
      by (auto simp add: step_def commit_def split: option.splits cont.splits sum.splits
          intro: auth submit post crash)
  next
    case (Data i chunk)
    with True \<open>P w\<close> show ?thesis
      by (auto simp add: step_def commit_def split: option.splits cont.splits sum.splits
          intro: data crash)
  next
    case (End i)
    with True \<open>P w\<close> show ?thesis
      by (auto simp add: step_def split: option.splits cont.splits intro: stream_end)
  qed
qed

lemma reachable_preserves:
  assumes "reachable cfg L w" and "P init_world"
    and "\<And>w ev. P w \<Longrightarrow> P (step cfg L w ev)"
  shows "P w"
  using assms(1) by (induction rule: reachable.induct) (simp_all add: assms(2,3))

subsection \<open>Lemmas: the pending array\<close>

text \<open>
  A step changes \<open>pending\<close> in one of three ways only: not at all, by pushing an element not
  yet in it (a creation event), or by the removal of the data listener.  The end of a
  response stream leaves it alone.
\<close>

lemma step_pending:
  "pending (step cfg L w ev) = pending w \<or>
   (\<exists>f. f \<notin> set (pending w) \<and> pending (step cfg L w ev) = pending w @ [f]) \<or>
   (\<exists>fn. pending (step cfg L w ev) = remove1 (FPath fn) (pending w))"
proof (cases "status w = Running")
  case False
  then show ?thesis by (simp add: step_stopped)
next
  case True
  show ?thesis
  proof (cases ev)
    case (Watch f cur prv)
    with True show ?thesis
      by (auto simp add: step_def commit_def split: sum.splits dest: watch_callback_pending)
  next
    case (Response i r)
    with True show ?thesis
      by (auto simp add: step_def commit_def world_simps split: option.splits cont.splits sum.splits
          dest: auth_callback_fields post_callback_Inr)
  next
    case (Data i chunk)
    with True show ?thesis
      by (auto simp add: step_def commit_def split: option.splits cont.splits sum.splits
          dest: data_listener_fields)
  next
    case (End i)
    with True show ?thesis
      by (auto simp add: step_def world_simps split: option.splits cont.splits)
  qed
qed

lemma step_pending_distinct:
  "distinct (pending w) \<Longrightarrow> distinct (pending (step cfg L w ev))"
  using step_pending [of cfg L w ev] by auto

subsection \<open>Properties\<close>

text \<open>
  C3.  The array \<open>pending\<close> never holds a path twice, in any state the process reaches from
  its start through any sequence of file-system and network events: a path is pushed only
  when \<open>indexOf\<close> does not find it, and removed by \<open>splice\<close>.
\<close>

theorem reachable_pending_distinct: "reachable cfg L w \<Longrightarrow> distinct (pending w)"
  by (induction rule: reachable.induct) (simp_all add: init_world_def step_pending_distinct)

theorem reachable_pending_distinct_witness:
  "reachable demo_cfg demo_lib
     (run demo_cfg demo_lib init_world
        [Watch (FPath ''/watch/a.txt'') (Some \<lparr>st_size = 1, st_nlink = 1\<rparr>) None,
         Watch (FPath ''/watch/a.txt'') (Some \<lparr>st_size = 1, st_nlink = 1\<rparr>) None])
   \<and> distinct (pending (run demo_cfg demo_lib init_world
        [Watch (FPath ''/watch/a.txt'') (Some \<lparr>st_size = 1, st_nlink = 1\<rparr>) None,
         Watch (FPath ''/watch/a.txt'') (Some \<lparr>st_size = 1, st_nlink = 1\<rparr>) None]))"
proof -
  have r: "reachable demo_cfg demo_lib
     (run demo_cfg demo_lib init_world
        [Watch (FPath ''/watch/a.txt'') (Some \<lparr>st_size = 1, st_nlink = 1\<rparr>) None,
         Watch (FPath ''/watch/a.txt'') (Some \<lparr>st_size = 1, st_nlink = 1\<rparr>) None])"
    by (rule reachable_run [OF reachable.init])
  show ?thesis using r reachable_pending_distinct [OF r] by simp
qed

end
