(* ===== verification/JsonText.thy ===== *)
theory JsonText
  imports JsValue
begin

text \<open>
  Readers for the text the program writes, used to state what that text means.  The program
  writes JSON (\<open>JSON.stringify\<close> on line 116, \<open>request\<close> serialising \<open>messageData\<close> on
  line 100); here are the readers of the receiving side, written after RFC 8259 for string
  literals and flat objects of strings:
  \<^item> \<open>json_body\<close> reads the body of a string literal after its opening quote and returns the
    string and the rest of the input (escapes \<open>u\<close>XXXX beyond one byte are outside the
    model's \<open>char\<close> type and are refused);
  \<^item> \<open>json_members_read\<close> reads the members of an object of strings; its fuel is the length
    of the input, enough because every member takes at least one character.
  The lemmas show that the writers of \<open>JsValue\<close> are inverted by these readers: the upload
  attributes of line 116 read back as the short name and the space (used by \<open>uploads_wf\<close>
  in Requests).
\<close>

subsection \<open>Readers\<close>

definition hex_val :: "char \<Rightarrow> nat option" where
  "hex_val c =
     (let n = of_char c :: nat in
      if 48 \<le> n \<and> n < 58 then Some (n - 48)
      else if 97 \<le> n \<and> n < 103 then Some (n - 87)
      else if 65 \<le> n \<and> n < 71 then Some (n - 55)
      else None)"

definition hex4 :: "char \<Rightarrow> char \<Rightarrow> char \<Rightarrow> char \<Rightarrow> nat option" where
  "hex4 a b c d =
     Option.bind (hex_val a) (\<lambda>x. Option.bind (hex_val b) (\<lambda>y.
     Option.bind (hex_val c) (\<lambda>z. Option.bind (hex_val d) (\<lambda>u.
     Some (4096 * x + 256 * y + 16 * z + u)))))"

definition short_unescape :: "char \<Rightarrow> char option" where
  "short_unescape d =
     (if d = CHR 0x22 then Some (CHR 0x22)
      else if d = CHR 0x5C then Some (CHR 0x5C)
      else if d = CHR ''/'' then Some (CHR ''/'')
      else if d = CHR ''b'' then Some (char_of (8::nat))
      else if d = CHR ''f'' then Some (char_of (12::nat))
      else if d = CHR ''n'' then Some (char_of (10::nat))
      else if d = CHR ''r'' then Some (char_of (13::nat))
      else if d = CHR ''t'' then Some (char_of (9::nat))
      else None)"

fun json_body :: "string \<Rightarrow> (string \<times> string) option" where
  "json_body [] = None"
| "json_body (c # cs) =
     (if c = CHR 0x22 then Some ([], cs)
      else if c = CHR 0x5C then
        (case cs of
           [] \<Rightarrow> None
         | d # ds \<Rightarrow>
             (case short_unescape d of
                Some e \<Rightarrow> map_option (apfst (Cons e)) (json_body ds)
              | None \<Rightarrow>
                  if d = CHR ''u'' then
                    (case ds of
                       h1 # h2 # h3 # h4 # r \<Rightarrow>
                         (case hex4 h1 h2 h3 h4 of
                            Some n \<Rightarrow> if n < 256 then map_option (apfst (Cons (char_of n))) (json_body r)
                                      else None
                          | None \<Rightarrow> None)
                     | _ \<Rightarrow> None)
                  else None))
      else if of_char c < (32::nat) then None
      else map_option (apfst (Cons c)) (json_body cs))"

definition json_string :: "string \<Rightarrow> (string \<times> string) option" where
  "json_string t = (case t of c # r \<Rightarrow> if c = CHR 0x22 then json_body r else None | [] \<Rightarrow> None)"

fun json_members_read :: "nat \<Rightarrow> string \<Rightarrow> (string \<times> string) list option" where
  "json_members_read 0 t = None"
| "json_members_read (Suc n) t =
     (case json_string t of
        None \<Rightarrow> None
      | Some (k, r1) \<Rightarrow>
          (case r1 of
             c # r2 \<Rightarrow>
               if c = CHR '':'' then
                 (case json_string r2 of
                    None \<Rightarrow> None
                  | Some (v, r3) \<Rightarrow>
                      (case r3 of
                         d # r4 \<Rightarrow>
                           if d = CHR '','' then map_option (Cons (k, v)) (json_members_read n r4)
                           else if d = CHR ''}'' \<and> r4 = [] then Some [(k, v)] else None
                       | [] \<Rightarrow> None))
               else None
           | [] \<Rightarrow> None))"

definition json_read_str_object :: "string \<Rightarrow> (string \<times> string) list option" where
  "json_read_str_object t =
     (case t of
        c # r \<Rightarrow> if c = CHR ''{'' then (if r = ''}'' then Some [] else json_members_read (length r) r) else None
      | [] \<Rightarrow> None)"

definition str_member :: "string \<times> string \<Rightarrow> string" where
  "str_member kv = json_quote (fst kv) @ '':'' @ json_quote (snd kv)"

subsection \<open>Lemmas: string literals\<close>

lemma hex_val_digit_char: "d < 16 \<Longrightarrow> hex_val (digit_char d) = Some d"
proof -
  have "list_all (\<lambda>d. hex_val (digit_char d) = Some d) [0..<16]"
    by (simp add: hex_val_def digit_char_def upt_conv_Cons)
  then show "d < 16 \<Longrightarrow> hex_val (digit_char d) = Some d"
    by (simp add: list_all_iff)
qed
lemma json_body_short:
  "short_unescape d = Some e \<Longrightarrow>
   json_body (CHR 0x5C # d # t) = map_option (apfst (Cons e)) (json_body t)"
  by simp

lemma json_body_hex:
  "hex4 a b x y = Some n \<Longrightarrow> n < 256 \<Longrightarrow>
   json_body (CHR 0x5C # CHR ''u'' # a # b # x # y # t) = map_option (apfst (Cons (char_of n))) (json_body t)"
  by (simp add: short_unescape_def)

lemma json_body_plain:
  "c \<noteq> CHR 0x22 \<Longrightarrow> c \<noteq> CHR 0x5C \<Longrightarrow> 32 \<le> (of_char c :: nat) \<Longrightarrow>
   json_body (c # t) = map_option (apfst (Cons c)) (json_body t)"
  by simp

lemma char_of_eq: "of_char c = (n::nat) \<Longrightarrow> char_of n = c"
  by auto

lemma json_escape_cases:
  "(\<exists>d. json_escape c = [CHR 0x5C, d] \<and> short_unescape d = Some c)
   \<or> (of_char c < (32::nat) \<and> json_escape c = [CHR 0x5C, CHR ''u'', CHR ''0'', CHR ''0'',
        digit_char (of_char c div 16), digit_char (of_char c mod 16)])
   \<or> (json_escape c = [c] \<and> c \<noteq> CHR 0x22 \<and> c \<noteq> CHR 0x5C \<and> 32 \<le> (of_char c :: nat))"
  by (auto simp add: json_escape_def Let_def short_unescape_def char_of_eq)

lemma json_body_escape:
  "json_body (json_escape c @ t) = map_option (apfst (Cons c)) (json_body t)"
proof -
  have hex: "json_body ([CHR 0x5C, CHR ''u'', CHR ''0'', CHR ''0'',
      digit_char (of_char c div 16), digit_char (of_char c mod 16)] @ t) =
    map_option (apfst (Cons c)) (json_body t)" if lt: "of_char c < (32::nat)"
  proof -
    have "hex4 CHR ''0'' CHR ''0'' (digit_char (of_char c div 16)) (digit_char (of_char c mod 16))
        = Some (of_char c)"
      using lt by (simp add: hex4_def hex_val_digit_char) (simp add: hex_val_def)
    from json_body_hex [OF this] lt show ?thesis by simp
  qed
  from json_escape_cases [of c] show ?thesis
    by (auto simp only: json_body_short append.simps dest: hex intro: json_body_plain)
qed

lemma json_body_quoted:
  "json_body (concat (map json_escape s) @ CHR 0x22 # rest) = Some (s, rest)"
  by (induction s) (simp_all add: json_body_escape)

subsection \<open>Lemmas: objects of strings\<close>

lemma json_string_quote [simp]: "json_string (json_quote k @ t) = Some (k, t)"
  by (simp add: json_string_def json_quote_def json_body_quoted)

lemma json_members_strings:
  "json_members (map (\<lambda>(k, v). (k, JStr v)) kvs) = map str_member kvs"
  by (induction kvs) (auto simp add: str_member_def)

lemma join_with_length: "list_all (\<lambda>x. x \<noteq> []) xs \<Longrightarrow> length xs \<le> length (join_with sep xs)"
proof (induction sep xs rule: join_with.induct)
  case (3 sep x v va)
  then have "Suc (length va) \<le> length (join_with sep (v # va))" "1 \<le> length x"
    by (auto simp add: Suc_le_eq)
  then show ?case by simp
qed (auto simp add: Suc_le_eq)

lemma json_members_read_strings:
  "kvs \<noteq> [] \<Longrightarrow> length kvs \<le> n \<Longrightarrow>
   json_members_read n (join_with '','' (map str_member kvs) @ ''}'') = Some kvs"
proof (induction kvs arbitrary: n)
  case Nil
  then show ?case by simp
next
  case (Cons kv kvs)
  then obtain m where n: "n = Suc m" by (cases n) auto
  show ?case
  proof (cases kvs)
    case Nil
    then show ?thesis by (simp add: n str_member_def)
  next
    case (Cons kv' kvs')
    with Cons.IH [of m] Cons.prems n show ?thesis
      by (simp add: str_member_def)
  qed
qed

lemma json_read_str_object_stringify:
  "json_read_str_object (the (json_stringify (JObj (map (\<lambda>(k, v). (k, JStr v)) kvs)))) = Some kvs"
proof (cases "kvs = []")
  case True
  then show ?thesis by (simp add: json_read_str_object_def)
next
  case False
  have ne: "list_all (\<lambda>x. x \<noteq> []) (map str_member kvs)"
    by (simp add: list_all_iff str_member_def json_quote_def)
  have "join_with '','' (map str_member kvs) @ ''}'' \<noteq> ''}''"
    using False join_with_length [OF ne, of "'',''"] by (cases "join_with '','' (map str_member kvs)") auto
  moreover have "json_members_read (length (join_with '','' (map str_member kvs) @ ''}''))
      (join_with '','' (map str_member kvs) @ ''}'') = Some kvs"
    using False join_with_length [OF ne, of "'',''"] by (simp del: json_members_read.simps add: json_members_read_strings)
  ultimately show ?thesis
    by (simp del: json_members_read.simps add: json_read_str_object_def json_members_strings)
qed

end
