(* ===== verification/Requests.thy ===== *)
theory Requests
  imports Runtime JsonText
begin

text \<open>
  What the program sends and which callbacks may answer.  The model numbers the requests in
  the order they are sent (\<open>issue\<close>): \<open>next_id\<close> is the number of the next one, \<open>sent\<close>
  the log of those sent, \<open>conts\<close> the callbacks still registered.
  \<^item> \<open>ids_wf\<close>: the numbers in \<open>sent\<close> are exactly \<open>0, 1, ..., next_id - 1\<close> in
    order, and every registered callback belongs to a request already sent.  It is the
    bookkeeping the other invariants rest on (\<open>reachable_ids\<close>).
  \<^item> \<open>uploads_wf\<close>: every upload sent carries attributes that read back as its file's short
    name and the configured space, and every upload closure waiting for its token will send
    such attributes.
  Both are proved for every reachable state from one lemma per handler, through
  \<open>step_preserves\<close> and \<open>reachable_preserves\<close>.
\<close>

definition ids_wf :: "world \<Rightarrow> bool" where
  "ids_wf w \<longleftrightarrow> map fst (sent w) = [0..<next_id w] \<and> dom (conts w) \<subseteq> {..<next_id w}"

text \<open>
  What the uploads carry.  An upload request is well formed when its \<open>attributes\<close> part reads
  as the object naming the file's short name and the configured space; an upload closure
  waiting for its token is well formed when it holds the configured space and the attributes
  computed from its file.
\<close>

definition upload_req_ok :: "config \<Rightarrow> http_req \<Rightarrow> bool" where
  "upload_req_ok cfg r =
     (case r of
        FileReq h a fn attrs \<Rightarrow>
          json_read_str_object attrs = Some [(''name'', short_name cfg fn), (''space'', space_id cfg)]
      | _ \<Rightarrow> True)"

definition upload_k_ok :: "config \<Rightarrow> cont \<Rightarrow> bool" where
  "upload_k_ok cfg k =
     (case k of
        CAuth (KUpload sp fn sz attrs) \<Rightarrow> sp = space_id cfg \<and> attrs = upload_attributes (short_name cfg fn) sp
      | _ \<Rightarrow> True)"

definition uploads_wf :: "config \<Rightarrow> world \<Rightarrow> bool" where
  "uploads_wf cfg w \<longleftrightarrow>
     list_all (upload_req_ok cfg \<circ> snd) (sent w) \<and> (\<forall>k \<in> ran (conts w). upload_k_ok cfg k)"

subsection \<open>Lemmas: the helpers and the handlers keep the numbering\<close>

lemma ids_wf_frame [simp]:
  "ids_wf (log m w) = ids_wf w"
  "ids_wf (w\<lparr>pending := ps\<rparr>) = ids_wf w"
  "ids_wf (w\<lparr>status := st\<rparr>) = ids_wf w"
  by (simp_all add: ids_wf_def world_simps)

lemma ids_wf_issue [intro]: "ids_wf w \<Longrightarrow> ids_wf (issue r k w)"
  by (auto simp add: ids_wf_def world_simps)

lemma ids_wf_drop_cont [intro]: "ids_wf w \<Longrightarrow> ids_wf (drop_cont i w)"
  by (auto simp add: ids_wf_def world_simps)

lemma ids_wf_run_auth_k [intro]: "ids_wf w \<Longrightarrow> ids_wf (run_auth_k k t w)"
  by (auto simp add: run_auth_k_def split: auth_k.splits)

lemma ids_wf_authenticate [intro]: "ids_wf w \<Longrightarrow> ids_wf (authenticate_app cfg k w)"
  by (auto simp add: authenticate_app_def split: option.splits)

lemma ids_wf_watch:
  "ids_wf w \<Longrightarrow> watch_callback cfg f cur prv w = Inr w' \<Longrightarrow> ids_wf w'"
  by (auto simp add: watch_callback_def upload_file_Inr_iff Let_def split: if_splits option.splits)

lemma ids_wf_auth_callback:
  "ids_wf w \<Longrightarrow> auth_callback L k r w = Inr w' \<Longrightarrow> ids_wf w'"
  by (auto simp add: auth_callback_def ebind_eq_Inr split: http_resp.splits if_splits option.splits)

lemma ids_wf_post_callback:
  "ids_wf w \<Longrightarrow> post_callback r w = Inr w' \<Longrightarrow> ids_wf w'"
  by (auto simp add: post_callback_def split: http_resp.splits if_splits)

lemma ids_wf_submit:
  assumes "ids_wf w" "conts w i \<noteq> None"
  shows "ids_wf (submit_callback i sp fn sz r (drop_cont i w))"
proof -
  have "i < next_id w" using assms by (auto simp add: ids_wf_def)
  with assms show ?thesis
    by (auto simp add: submit_callback_def ids_wf_def world_simps split: http_resp.splits)
qed

lemma ids_wf_data:
  "ids_wf w \<Longrightarrow> data_listener cfg L sp fn sz chunk w = Inr w' \<Longrightarrow> ids_wf w'"
  by (auto simp add: data_listener_Inr_iff send_message_Inr_iff intro!: ids_wf_authenticate)

lemma ids_wf_step: "ids_wf w \<Longrightarrow> ids_wf (step cfg L w ev)"
  by (rule step_preserves)
    (auto intro: ids_wf_watch ids_wf_auth_callback ids_wf_post_callback ids_wf_submit ids_wf_data)

lemma reachable_ids: "reachable cfg L w \<Longrightarrow> ids_wf w"
  by (erule reachable_preserves) (simp add: init_world_def ids_wf_def, rule ids_wf_step)

subsection \<open>Lemmas: the callbacks a token closure registers\<close>

lemma run_auth_k_conts:
  "conts (run_auth_k k t w) =
     (conts w)(next_id w \<mapsto> (case k of KUpload sp fn sz a \<Rightarrow> CSubmit sp fn sz | KMessage u m \<Rightarrow> CPost))"
  by (simp add: run_auth_k_def world_simps split: auth_k.splits)

subsection \<open>Lemmas: the handlers keep the uploads well formed\<close>

lemma uploads_wf_frame [simp]:
  "uploads_wf cfg (log m w) = uploads_wf cfg w"
  "uploads_wf cfg (w\<lparr>pending := ps\<rparr>) = uploads_wf cfg w"
  "uploads_wf cfg (w\<lparr>status := st\<rparr>) = uploads_wf cfg w"
  by (simp_all add: uploads_wf_def world_simps)

lemma uploads_wf_drop_cont: "uploads_wf cfg w \<Longrightarrow> uploads_wf cfg (drop_cont i w)"
  by (auto simp add: uploads_wf_def world_simps ran_def)

lemma uploads_wf_cont: "uploads_wf cfg w \<Longrightarrow> conts w i = Some k \<Longrightarrow> upload_k_ok cfg k"
  by (auto simp add: uploads_wf_def ran_def)

lemma uploads_wf_issue:
  "uploads_wf cfg w \<Longrightarrow> upload_req_ok cfg r \<Longrightarrow> upload_k_ok cfg k \<Longrightarrow> uploads_wf cfg (issue r k w)"
  by (auto simp add: uploads_wf_def world_simps ran_def)

lemma uploads_wf_run_auth_k:
  "uploads_wf cfg w \<Longrightarrow> upload_k_ok cfg (CAuth k) \<Longrightarrow> uploads_wf cfg (run_auth_k k t w)"
  by (auto simp add: run_auth_k_def upload_k_ok_def upload_req_ok_def upload_attributes_def
      json_read_str_object_stringify [of "[(''name'', _), (''space'', _)]", simplified]
      intro!: uploads_wf_issue split: auth_k.splits)

lemma uploads_wf_authenticate:
  "uploads_wf cfg w \<Longrightarrow> upload_k_ok cfg (CAuth k) \<Longrightarrow> uploads_wf cfg (authenticate_app cfg k w)"
  by (auto simp add: authenticate_app_def upload_req_ok_def token_request_def
      intro: uploads_wf_run_auth_k uploads_wf_issue split: option.splits)

lemma uploads_wf_step: "uploads_wf cfg w \<Longrightarrow> uploads_wf cfg (step cfg L w ev)"
  apply (rule step_preserves)
  subgoal
    by (auto simp add: watch_callback_def upload_file_def upload_k_ok_def Let_def
        split: if_splits option.splits fs_arg.splits intro!: uploads_wf_authenticate)
  subgoal for w i k r
    using uploads_wf_drop_cont [of cfg w i] uploads_wf_cont [of cfg w i "CAuth k"]
    by (auto simp add: auth_callback_def ebind_eq_Inr
        split: http_resp.splits if_splits option.splits intro!: uploads_wf_run_auth_k)
  subgoal for w i
    using uploads_wf_drop_cont [of cfg w i]
    by (auto simp add: submit_callback_def uploads_wf_def upload_k_ok_def ran_def
        world_simps split: http_resp.splits)
  subgoal for w i
    using uploads_wf_drop_cont [of cfg w i]
    by (auto simp add: post_callback_def split: http_resp.splits if_splits)
  subgoal
    by (auto simp add: data_listener_Inr_iff send_message_Inr_iff upload_k_ok_def
        intro!: uploads_wf_authenticate)
  subgoal by (rule uploads_wf_drop_cont)
  subgoal by simp
  subgoal by assumption
  done

lemma reachable_uploads_wf: "reachable cfg L w \<Longrightarrow> uploads_wf cfg w"
  by (erule reachable_preserves) (simp add: uploads_wf_def init_world_def, rule uploads_wf_step)

subsection \<open>Lemmas: the state after a successful data listener\<close>

text \<open>
  When the \<open>data\<close> listener returns normally it has logged the chunk and the message object,
  called \<open>authenticateApp\<close> with the message closure, and spliced its path out of \<open>pending\<close>.
\<close>

lemma data_listener_Inr_shape:
  assumes "data_listener cfg L sp fn sz chunk w = Inr w'"
  obtains u m where "w' = (authenticate_app cfg (KMessage u m)
      (log (LogMessage m) (log (LogBody chunk) w)))\<lparr>pending := pending w'\<rparr>"
  using assms by (auto simp add: data_listener_Inr_iff send_message_Inr_iff)

end
