(* ===== verification/PendingSet.thy ===== *)
theory PendingSet
  imports Runtime
begin

text \<open>
  The Pending Set of the specification (its section 2): a set of paths, to which a creation
  event adds the created path (leaving the set as it is when the path is already there), and
  from which the Uploader's success continuation removes the uploaded path; no other event
  touches it.  \<open>pset_step\<close> is this abstract machine.  The program implements it with the
  global array \<open>pending\<close> (line 145), \<open>indexOf\<close>/\<open>push\<close> (lines 152--154) and
  \<open>indexOf\<close>/\<open>splice\<close> (lines 135--138); the abstraction is \<open>set \<circ> pending\<close> and its
  representation invariant is that the array has no duplicates.  \<open>abs_event\<close> says which
  abstract operation a concrete event performs.  The refinement lemma shows that each step of
  the event loop that leaves the process running moves the abstract set as that operation
  says, and that a step that stops the process leaves it alone.
\<close>

datatype pset_op = PCreate fs_arg | PComplete fs_arg | PKeep

definition pset_step :: "pset_op \<Rightarrow> fs_arg set \<Rightarrow> fs_arg set" where
  "pset_step op S = (case op of PCreate f \<Rightarrow> insert f S | PComplete f \<Rightarrow> S - {f} | PKeep \<Rightarrow> S)"

definition abs_event :: "world \<Rightarrow> event \<Rightarrow> pset_op" where
  "abs_event w ev =
     (case ev of
        Watch f (Some c) None \<Rightarrow> PCreate f
      | Data i chunk \<Rightarrow> (case conts w i of Some (CData sp fn sz) \<Rightarrow> PComplete (FPath fn) | _ \<Rightarrow> PKeep)
      | _ \<Rightarrow> PKeep)"

subsection \<open>Lemmas: each handler on the abstract set\<close>

lemma pset_step_simps [simp]:
  "pset_step (PCreate f) S = insert f S"
  "pset_step (PComplete f) S = S - {f}"
  "pset_step PKeep S = S"
  by (simp_all add: pset_step_def)

lemma watch_callback_pset:
  assumes "watch_callback cfg f cur prv w = Inr w'"
  shows "set (pending w') = (if prv = None \<and> cur \<noteq> None then insert f (set (pending w)) else set (pending w))"
  using assms
  by (auto simp add: watch_callback_def Let_def world_simps split: if_splits option.splits
      dest: upload_file_fields)

lemma data_listener_pset:
  assumes "distinct (pending w)" "data_listener cfg L sp fn sz chunk w = Inr w'"
  shows "set (pending w') = set (pending w) - {FPath fn} \<and> status w' = status w"
  using assms
  by (auto simp add: data_listener_def ebind_eq_Inr Let_def array_remove_remove1 world_simps
      split: option.splits dest: send_message_fields)

lemma response_pending:
  "pending (step cfg L w (Response i r)) = pending w"
  by (auto simp add: step_def commit_def world_simps split: option.splits cont.splits sum.splits
      dest: auth_callback_fields post_callback_Inr)

subsection \<open>Properties\<close>

text \<open>
  C19.  The array \<open>pending\<close> implements the Pending Set of the specification: on a state
  whose array has no duplicates, every event that leaves the process running changes the set
  of its elements exactly as the abstract operation of the event (a creation event adds the
  path, a data chunk of an upload removes it, every other event, the end of a response
  stream included, keeps the set), and an event
  that stops the process leaves it unchanged.
\<close>

theorem pending_refines_pset:
  assumes "distinct (pending w)"
  shows "set (pending (step cfg L w ev)) =
           (if status (step cfg L w ev) = Running then pset_step (abs_event w ev) (set (pending w))
            else set (pending w))"
proof (cases "status w = Running")
  case False
  then show ?thesis by (simp add: step_stopped)
next
  case run: True
  show ?thesis
  proof (cases ev)
    case (Watch f cur prv)
    with run show ?thesis
      by (cases "watch_callback cfg f cur prv w")
        (auto simp add: step_watch abs_event_def dest: watch_callback_pset watch_callback_status
          split: option.splits)
  next
    case (Response i r)
    then show ?thesis by (simp add: response_pending abs_event_def)
  next
    case (Data i chunk)
    with run assms show ?thesis
      by (auto simp add: step_def abs_event_def commit_def
          split: option.splits cont.splits sum.splits dest: data_listener_pset)
  next
    case (End i)
    with run show ?thesis
      by (auto simp add: step_def abs_event_def world_simps split: option.splits cont.splits)
  qed
qed

theorem pending_refines_pset_witness:
  "distinct (pending (init_world\<lparr>pending := [FPath ''/watch/a.txt'']\<rparr>))
   \<and> set (pending (step demo_cfg demo_lib (init_world\<lparr>pending := [FPath ''/watch/a.txt'']\<rparr>)
          (Watch (FPath ''/watch/b.txt'') (Some \<lparr>st_size = 7, st_nlink = 1\<rparr>) None))) =
       {FPath ''/watch/a.txt'', FPath ''/watch/b.txt''}"
proof -
  have d: "distinct (pending (init_world\<lparr>pending := [FPath ''/watch/a.txt'']\<rparr>))" by simp
  have r: "status (step demo_cfg demo_lib (init_world\<lparr>pending := [FPath ''/watch/a.txt'']\<rparr>)
          (Watch (FPath ''/watch/b.txt'') (Some \<lparr>st_size = 7, st_nlink = 1\<rparr>) None)) = Running"
    by (simp add: step_def watch_callback_def upload_file_def init_world_def world_simps Let_def)
  show ?thesis
    using pending_refines_pset [OF d, of demo_cfg demo_lib
        "Watch (FPath ''/watch/b.txt'') (Some \<lparr>st_size = 7, st_nlink = 1\<rparr>) None"] r
    by (simp add: abs_event_def insert_commute)
qed

end
