(* ===== verification/Pipeline.thy ===== *)
theory Pipeline
  imports Requests
begin

text \<open>
  The order of a file's pipeline (the specification's section 5: for a single file the upload
  completes before message composition is attempted).  A message names its file in the
  \<open>name\<close> member of its second annotation (line 79); \<open>uploaded_before cfg w i msg\<close> says
  that among the requests sent in \<open>w\<close> with a number below \<open>i\<close> is the upload of a file
  whose short name the message names.  \<open>pipeline_wf\<close> extends the numbering invariant
  \<open>ids_wf\<close> with what each waiting callback descends from:
  \<^item> the upload's callback and its \<open>data\<close> listener sit under the number of the upload
    request of their file;
  \<^item> a message closure waiting for its token names a file uploaded before \<open>next_id\<close>;
  \<^item> every message request sent names a file whose upload was sent before it.
\<close>

definition msg_file :: "jsval \<Rightarrow> js_error + jsval" where
  "msg_file msg = js_path msg [PKey ''annotations'', PIdx 1, PKey ''name'']"

definition upload_sent :: "(nat \<times> http_req) list \<Rightarrow> nat \<Rightarrow> string \<Rightarrow> bool" where
  "upload_sent rs i fn = list_ex (\<lambda>(j, r). j = i \<and> (case r of FileReq h a f at \<Rightarrow> f = fn | _ \<Rightarrow> False)) rs"

definition uploaded_before :: "config \<Rightarrow> (nat \<times> http_req) list \<Rightarrow> nat \<Rightarrow> jsval \<Rightarrow> bool" where
  "uploaded_before cfg rs i msg =
     list_ex (\<lambda>(j, r). j < i \<and>
        (case r of FileReq h a fn at \<Rightarrow> msg_file msg = Inr (JStr (short_name cfg fn)) | _ \<Rightarrow> False)) rs"

definition cont_ok :: "config \<Rightarrow> (nat \<times> http_req) list \<Rightarrow> nat \<Rightarrow> nat \<Rightarrow> cont \<Rightarrow> bool" where
  "cont_ok cfg rs n i k =
     (case k of
        CSubmit sp fn sz \<Rightarrow> upload_sent rs i fn
      | CData sp fn sz \<Rightarrow> upload_sent rs i fn
      | CAuth (KMessage u msg) \<Rightarrow> uploaded_before cfg rs n msg
      | _ \<Rightarrow> True)"

definition msgs_ok :: "config \<Rightarrow> (nat \<times> http_req) list \<Rightarrow> bool" where
  "msgs_ok cfg rs =
     list_all (\<lambda>(i, r). case r of MsgReq u a msg \<Rightarrow> uploaded_before cfg rs i msg | _ \<Rightarrow> True) rs"

definition pipeline_wf :: "config \<Rightarrow> world \<Rightarrow> bool" where
  "pipeline_wf cfg w \<longleftrightarrow>
     ids_wf w \<and> (\<forall>i k. conts w i = Some k \<longrightarrow> cont_ok cfg (sent w) (next_id w) i k) \<and>
     msgs_ok cfg (sent w)"

subsection \<open>Lemmas: growth of the request log\<close>

lemma upload_sent_mono: "upload_sent rs i fn \<Longrightarrow> upload_sent (rs @ xs) i fn"
  by (simp add: upload_sent_def)

lemma uploaded_before_mono:
  assumes "uploaded_before cfg rs i msg" "i \<le> i'"
  shows "uploaded_before cfg (rs @ xs) i' msg"
proof -
  from assms(1) obtain j r where "(j, r) \<in> set rs" "j < i"
    "case r of FileReq h a fn at \<Rightarrow> msg_file msg = Inr (JStr (short_name cfg fn)) | _ \<Rightarrow> False"
    by (auto simp add: uploaded_before_def list_ex_iff)
  with assms(2) show ?thesis
    by (auto simp add: uploaded_before_def list_ex_iff intro!: bexI [of _ "(j, r)"])
qed

lemma cont_ok_mono:
  "cont_ok cfg rs n i k \<Longrightarrow> n \<le> n' \<Longrightarrow> cont_ok cfg (rs @ xs) n' i k"
  by (auto simp add: cont_ok_def upload_sent_mono uploaded_before_mono
      split: cont.splits auth_k.splits)

lemma msgs_ok_append:
  "msgs_ok cfg rs \<Longrightarrow>
   list_all (\<lambda>(i, r). case r of MsgReq u a msg \<Rightarrow> uploaded_before cfg (rs @ xs) i msg | _ \<Rightarrow> True) xs \<Longrightarrow>
   msgs_ok cfg (rs @ xs)"
  by (fastforce simp add: msgs_ok_def list_all_iff uploaded_before_mono split: http_req.splits)

subsection \<open>Lemmas: the helpers and the handlers keep the pipeline order\<close>

lemma pipeline_wf_frame [simp]:
  "pipeline_wf cfg (log m w) = pipeline_wf cfg w"
  "pipeline_wf cfg (w\<lparr>pending := ps\<rparr>) = pipeline_wf cfg w"
  "pipeline_wf cfg (w\<lparr>status := st\<rparr>) = pipeline_wf cfg w"
  by (simp_all add: pipeline_wf_def world_simps)

lemma pipeline_wf_drop_cont: "pipeline_wf cfg w \<Longrightarrow> pipeline_wf cfg (drop_cont i w)"
  by (simp add: pipeline_wf_def ids_wf_drop_cont world_simps)

lemma pipeline_wf_issue:
  assumes "pipeline_wf cfg w"
    and "cont_ok cfg (sent w @ [(next_id w, r)]) (Suc (next_id w)) (next_id w) k"
    and "case r of MsgReq u a msg \<Rightarrow> uploaded_before cfg (sent w) (next_id w) msg | _ \<Rightarrow> True"
  shows "pipeline_wf cfg (issue r k w)"
proof -
  have "cont_ok cfg (sent w @ [(next_id w, r)]) (Suc (next_id w)) i k'"
    if "((conts w)(next_id w \<mapsto> k)) i = Some k'" for i k'
    using that assms(1,2) cont_ok_mono [of cfg "sent w" "next_id w" _ _ "Suc (next_id w)"]
    by (auto simp add: pipeline_wf_def split: if_splits)
  moreover have "msgs_ok cfg (sent w @ [(next_id w, r)])"
    using assms(1,3) by (auto intro!: msgs_ok_append uploaded_before_mono simp add: pipeline_wf_def
        split: http_req.splits)
  ultimately show ?thesis
    using assms(1) by (simp add: pipeline_wf_def ids_wf_issue world_simps)
qed

lemma msg_file_message_data [simp]: "msg_file (message_data fid short mt sz d) = Inr (JStr short)"
  by (simp add: msg_file_def message_data_def)

lemma upload_sent_before:
  assumes "upload_sent rs i fn" "i < n" "msg_file msg = Inr (JStr (short_name cfg fn))"
  shows "uploaded_before cfg rs n msg"
proof -
  from assms(1) obtain r where r: "(i, r) \<in> set rs" "case r of FileReq h a f at \<Rightarrow> f = fn | _ \<Rightarrow> False"
    by (auto simp add: upload_sent_def list_ex_iff)
  then obtain h a at where "r = FileReq h a fn at"
    by (cases r) auto
  with r(1) assms(2,3) show ?thesis
    unfolding uploaded_before_def list_ex_iff by (intro bexI [of _ "(i, r)"]) simp_all
qed

lemma pipeline_wf_cont:
  "pipeline_wf cfg w \<Longrightarrow> conts w i = Some k \<Longrightarrow> cont_ok cfg (sent w) (next_id w) i k"
  by (simp add: pipeline_wf_def)

lemma pipeline_wf_run_auth_k:
  "pipeline_wf cfg w \<Longrightarrow> cont_ok cfg (sent w) (next_id w) i (CAuth k) \<Longrightarrow> pipeline_wf cfg (run_auth_k k t w)"
  by (cases k) (auto simp add: run_auth_k_def cont_ok_def upload_sent_def intro!: pipeline_wf_issue)

lemma pipeline_wf_authenticate:
  assumes "pipeline_wf cfg w" "cont_ok cfg (sent w) (next_id w) i (CAuth k)"
  shows "pipeline_wf cfg (authenticate_app cfg k w)"
proof -
  have "cont_ok cfg (sent w @ [(next_id w, token_request cfg)]) (Suc (next_id w)) (next_id w) (CAuth k)"
    using cont_ok_mono [OF assms(2)] by (simp add: cont_ok_def split: auth_k.splits)
  with assms show ?thesis
    by (auto simp add: authenticate_app_def token_request_def
        intro!: pipeline_wf_issue intro: pipeline_wf_run_auth_k split: option.splits)
qed

lemma pipeline_wf_submit:
  assumes "pipeline_wf cfg w" "conts w i = Some (CSubmit sp fn sz)"
  shows "pipeline_wf cfg (submit_callback i sp fn sz r (drop_cont i w))"
proof (cases r)
  case (NetError e)
  with assms(1) show ?thesis by (simp add: submit_callback_def pipeline_wf_drop_cont)
next
  case (HttpResp code body)
  have up: "upload_sent (sent w) i fn"
    using pipeline_wf_cont [OF assms] by (simp add: cont_ok_def)
  have ids: "ids_wf (submit_callback i sp fn sz r (drop_cont i w))"
    using assms by (simp add: pipeline_wf_def ids_wf_submit)
  from assms(1) up ids HttpResp show ?thesis
    by (auto simp add: pipeline_wf_def submit_callback_def cont_ok_def world_simps)
qed

lemma pipeline_wf_data:
  assumes "pipeline_wf cfg w" "conts w i = Some (CData sp fn sz)"
    and "data_listener cfg L sp fn sz chunk w = Inr w'"
  shows "pipeline_wf cfg w'"
proof -
  have up: "upload_sent (sent w) i fn"
    using pipeline_wf_cont [OF assms(1,2)] by (simp add: cont_ok_def)
  have lt: "i < next_id w"
    using assms(1,2) by (auto simp add: pipeline_wf_def ids_wf_def)
  from assms(3) obtain fid mt d u where w': "w' =
      (authenticate_app cfg (KMessage u (message_data fid (short_name cfg fn) mt sz d))
        (log (LogMessage (message_data fid (short_name cfg fn) mt sz d)) (log (LogBody chunk) w)))
      \<lparr>pending := array_remove (pending (authenticate_app cfg
          (KMessage u (message_data fid (short_name cfg fn) mt sz d))
          (log (LogMessage (message_data fid (short_name cfg fn) mt sz d)) (log (LogBody chunk) w))))
          (FPath fn)\<rparr>"
    by (auto simp add: data_listener_def send_message_def ebind_eq_Inr Let_def split: option.splits)
  have "cont_ok cfg (sent w) (next_id w) i (CAuth (KMessage u (message_data fid (short_name cfg fn) mt sz d)))"
    using upload_sent_before [OF up lt] by (simp add: cont_ok_def)
  with assms(1) show ?thesis
    unfolding w' by (auto intro: pipeline_wf_authenticate simp add: world_simps)
qed

lemma pipeline_wf_step: "pipeline_wf cfg w \<Longrightarrow> pipeline_wf cfg (step cfg L w ev)"
  apply (rule step_preserves)
  subgoal
    by (auto simp add: watch_callback_def upload_file_def cont_ok_def Let_def
        split: if_splits option.splits fs_arg.splits intro!: pipeline_wf_authenticate)
  subgoal for w i k r
    using pipeline_wf_drop_cont [of cfg w i] pipeline_wf_cont [of cfg w i "CAuth k"]
    by (auto simp add: auth_callback_def ebind_eq_Inr world_simps
        split: http_resp.splits if_splits option.splits intro: pipeline_wf_run_auth_k)
  subgoal by (rule pipeline_wf_submit)
  subgoal for w i
    using pipeline_wf_drop_cont [of cfg w i]
    by (auto simp add: post_callback_def split: http_resp.splits if_splits)
  subgoal by (rule pipeline_wf_data)
  subgoal by (rule pipeline_wf_drop_cont)
  subgoal by simp
  subgoal by assumption
  done

lemma reachable_pipeline_wf: "reachable cfg L w \<Longrightarrow> pipeline_wf cfg w"
  by (erule reachable_preserves)
    (simp add: pipeline_wf_def ids_wf_def msgs_ok_def init_world_def, rule pipeline_wf_step)

lemma uploaded_before_iff:
  "uploaded_before cfg rs i msg \<longleftrightarrow>
     (\<exists>j h a fn at. j < i \<and> (j, FileReq h a fn at) \<in> set rs \<and> msg_file msg = Inr (JStr (short_name cfg fn)))"
proof
  assume "uploaded_before cfg rs i msg"
  then obtain j r where jr: "(j, r) \<in> set rs" "j < i"
    "case r of FileReq h a fn at \<Rightarrow> msg_file msg = Inr (JStr (short_name cfg fn)) | _ \<Rightarrow> False"
    by (auto simp add: uploaded_before_def list_ex_iff)
  moreover from jr(3) obtain h a fn at where "r = FileReq h a fn at"
    by (cases r) auto
  ultimately show "\<exists>j h a fn at. j < i \<and> (j, FileReq h a fn at) \<in> set rs \<and> msg_file msg = Inr (JStr (short_name cfg fn))"
    by (intro exI [of _ j] exI [of _ h] exI [of _ a] exI [of _ fn] exI [of _ at]) simp
next
  assume "\<exists>j h a fn at. j < i \<and> (j, FileReq h a fn at) \<in> set rs \<and> msg_file msg = Inr (JStr (short_name cfg fn))"
  then obtain j h a fn at where "j < i" "(j, FileReq h a fn at) \<in> set rs" "msg_file msg = Inr (JStr (short_name cfg fn))"
    by blast
  then show "uploaded_before cfg rs i msg"
    unfolding uploaded_before_def list_ex_iff by (intro bexI [of _ "(j, FileReq h a fn at)"]) simp_all
qed

end
