(* ===== verification/Progress.thy ===== *)
theory Progress
  imports Requests
begin

text \<open>
  Termination of the network side of the pipelines.  Every callback waiting for a request's
  completion stands for a bounded amount of remaining work: a token closure (\<open>CAuth\<close>) two
  completions (its token response, then the response of the request it sends), an upload
  or a message post one, a \<open>data\<close> listener none (it waits for chunks, not for a completion).
  \<open>work\<close> sums this over the callbacks of a running process; a stopped process has none.
  Every completion that the loop handles (that changes the state) strictly decreases
  \<open>work\<close>, so however many completions arrive, at most \<open>work w\<close> of them are handled.
  \<open>data\<close> chunks are left out on purpose: each parseable chunk starts a new message pipeline
  (C23), so they may add work.  The requests themselves are bounded too: each event sends at
  most one, so a run sends at most as many requests as it has events (C27).
\<close>

fun cont_work :: "cont \<Rightarrow> nat" where
  "cont_work (CAuth k) = 2"
| "cont_work (CSubmit sp fn sz) = 1"
| "cont_work (CData sp fn sz) = 0"
| "cont_work CPost = 1"

definition opt_work :: "cont option \<Rightarrow> nat" where
  "opt_work c = (case c of Some k \<Rightarrow> cont_work k | None \<Rightarrow> 0)"

definition outstanding :: "(nat \<Rightarrow> cont option) \<Rightarrow> nat \<Rightarrow> nat" where
  "outstanding m n = (\<Sum>j<n. opt_work (m j))"

definition work :: "world \<Rightarrow> nat" where
  "work w = (if status w = Running then outstanding (conts w) (next_id w) else 0)"

definition is_response :: "event \<Rightarrow> bool" where
  "is_response ev = (case ev of Response i r \<Rightarrow> True | _ \<Rightarrow> False)"

fun handled :: "config \<Rightarrow> lib \<Rightarrow> world \<Rightarrow> event list \<Rightarrow> nat" where
  "handled cfg L w [] = 0"
| "handled cfg L w (ev # evs) =
     (if step cfg L w ev = w then 0 else 1) + handled cfg L (step cfg L w ev) evs"

subsection \<open>Lemmas: the measure under the updates the handlers make\<close>

lemma outstanding_update:
  assumes "i < n"
  shows "outstanding (m(i := v)) n + opt_work (m i) = outstanding m n + opt_work v"
proof -
  have "outstanding m n = opt_work (m i) + (\<Sum>j \<in> {..<n} - {i}. opt_work (m j))"
    using assms by (simp add: outstanding_def sum.remove)
  moreover have "outstanding (m(i := v)) n = opt_work v + (\<Sum>j \<in> {..<n} - {i}. opt_work (m j))"
    using assms by (simp add: outstanding_def sum.remove)
  ultimately show ?thesis by simp
qed

lemma outstanding_issue:
  "outstanding (m(n := v)) (Suc n) = outstanding m n + opt_work v"
  by (simp add: outstanding_def lessThan_Suc add.commute)

lemma outstanding_pos:
  "i < n \<Longrightarrow> opt_work (m i) \<le> outstanding m n"
  using outstanding_update [of i n m None] by (simp add: opt_work_def)

lemma outstanding_replace:
  assumes "i < n" "m i = Some c"
  shows "outstanding ((m(i := v))(n := u)) (Suc n) + cont_work c = outstanding m n + opt_work v + opt_work u"
  using outstanding_update [OF assms(1), of m v] assms(2)
  by (simp add: outstanding_issue opt_work_def)

lemma step_Response_cases:
  assumes "step cfg L w (Response i r) \<noteq> w"
  obtains c where "status w = Running" "conts w i = Some c" "\<And>sp fn sz. c \<noteq> CData sp fn sz"
proof -
  have run: "status w = Running" using assms step_stopped by blast
  obtain c where c: "conts w i = Some c" using assms step_no_cont(1) by blast
  have "c \<noteq> CData sp fn sz" for sp fn sz using assms run c by (auto simp add: step_def)
  with run c show ?thesis by (rule that)
qed

lemma response_work_decreases:
  assumes "ids_wf w" "step cfg L w (Response i r) \<noteq> w"
  shows "work (step cfg L w (Response i r)) < work w"
proof -
  obtain c where run: "status w = Running" and c: "conts w i = Some c"
    and nd: "\<And>sp fn sz. c \<noteq> CData sp fn sz"
    using step_Response_cases [OF assms(2)] by blast
  have lt: "i < next_id w" using assms(1) c by (auto simp add: ids_wf_def)
  have upd: "outstanding ((conts w)(i := v)) (next_id w) + cont_work c = work w + opt_work v" for v
    using outstanding_update [OF lt, of "conts w" v] c run by (simp add: work_def opt_work_def)
  have rep: "outstanding (((conts w)(i := None))(next_id w := u)) (Suc (next_id w)) + cont_work c
      = work w + opt_work u" for u
    using outstanding_replace [where m = "conts w", OF lt c, of None u] run by (simp add: work_def opt_work_def)
  have pos: "0 < work w"
    using upd [of None] nd by (cases c) (auto simp add: opt_work_def)
  show ?thesis
  proof (cases c)
    case (CAuth k)
    with run c rep [of "Some (case k of KUpload sp fn sz a \<Rightarrow> CSubmit sp fn sz | KMessage u m \<Rightarrow> CPost)"] pos
    show ?thesis
      by (cases k)
        (auto simp add: step_def commit_def auth_callback_def ebind_eq_Inr run_auth_k_conts
          world_simps work_def opt_work_def split: sum.splits http_resp.splits if_splits option.splits)
  next
    case (CSubmit sp fn sz)
    with run c upd [of None] upd [of "Some (CData sp fn sz)"] show ?thesis
      by (auto simp add: step_def submit_callback_def world_simps work_def opt_work_def
          split: http_resp.splits)
  next
    case (CData sp fn sz)
    with nd [of sp fn sz] show ?thesis by simp
  next
    case CPost
    with run c upd [of None] pos show ?thesis
      by (auto simp add: step_def commit_def post_callback_def world_simps work_def opt_work_def
          split: sum.splits http_resp.splits if_splits)
  qed
qed

subsection \<open>Lemmas: the requests a handler sends\<close>

text \<open>
  Every handler sends at most one request: \<open>authenticateApp\<close> sends the token exchange or,
  with \<open>USER_JWT\<close>, the closure's request (it returns right after calling the closure,
  line 27); the token callback sends the closure's request; the upload and post callbacks
  send nothing; the \<open>data\<close> listener sends one through \<open>sendMessage\<close>.
\<close>

lemma run_auth_k_sent: "\<exists>r. sent (run_auth_k k t w) = sent w @ [(next_id w, r)]"
  by (cases k) (simp_all add: run_auth_k_def world_simps)

lemma step_sent:
  "sent (step cfg L w ev) = sent w \<or> (\<exists>r. sent (step cfg L w ev) = sent w @ [r])"
proof (cases "status w = Running")
  case False
  then show ?thesis by (simp add: step_stopped)
next
  case True
  have auth: "sent w' = sent w \<or> (\<exists>r. sent w' = sent w @ [r])" if "auth_callback L k r (drop_cont i w) = Inr w'" for k r i w'
  proof -
    have "sent w' = sent w \<or> (\<exists>t. w' = run_auth_k k t (drop_cont i w))"
      using that by (auto simp add: auth_callback_def ebind_eq_Inr world_simps split: http_resp.splits if_splits option.splits)
    then show ?thesis
      using run_auth_k_sent [of k _ "drop_cont i w"] by (auto simp add: world_simps)
  qed
  have data: "\<exists>r. sent w' = sent w @ [r]" if d: "data_listener cfg L sp fn sz c w = Inr w'" for sp fn sz c w'
  proof -
    obtain u m where w': "w' = (authenticate_app cfg (KMessage u m)
        (log (LogMessage m) (log (LogBody c) w)))\<lparr>pending := pending w'\<rparr>"
      using d by (rule data_listener_Inr_shape)
    show ?thesis
      using authenticate_app_sent [of cfg "KMessage u m" "log (LogMessage m) (log (LogBody c) w)"]
      by (subst w', simp add: world_simps, blast)
  qed
  show ?thesis
  proof (cases ev)
    case (Watch f cur prv)
    have "sent w' = sent w \<or> (\<exists>r. sent w' = sent w @ [r])" if "watch_callback cfg f cur prv w = Inr w'" for w'
    proof -
      have "sent w' = sent w \<or> (\<exists>k. w' = authenticate_app cfg k (log (LogCreated f) (w\<lparr>pending := pending w @ [f]\<rparr>)))"
        using that by (auto simp add: watch_callback_def upload_file_def Let_def world_simps
            split: if_splits option.splits fs_arg.splits)
      then show ?thesis
        using authenticate_app_sent [of cfg _ "log (LogCreated f) (w\<lparr>pending := pending w @ [f]\<rparr>)"]
        by (auto simp add: world_simps)
    qed
    with Watch True show ?thesis
      by (auto simp add: step_def commit_def split: sum.splits)
  next
    case (Response i r)
    with True auth show ?thesis
      by (auto simp add: step_def commit_def submit_callback_def world_simps
          split: option.splits cont.splits sum.splits http_resp.splits dest: post_callback_Inr)
  next
    case (Data i c)
    with True data show ?thesis
      by (auto simp add: step_def commit_def split: option.splits cont.splits sum.splits)
  next
    case (End i)
    with True show ?thesis
      by (auto simp add: step_def world_simps split: option.splits cont.splits)
  qed
qed

subsection \<open>Properties\<close>

text \<open>
  C24.  The network side of the pipelines terminates: from any reachable state, whatever
  completions arrive and in whatever order (retries and duplicates included), at most
  \<open>work w\<close> of them are handled, that is change the state; all others are ignored.
\<close>

theorem responses_terminate:
  assumes "reachable cfg L w" and "list_all is_response evs"
  shows "handled cfg L w evs \<le> work w"
  using assms
proof (induction evs arbitrary: w)
  case Nil
  then show ?case by simp
next
  case (Cons ev evs)
  then obtain i r where ev: "ev = Response i r"
    by (cases ev) (simp_all add: is_response_def)
  have reach: "reachable cfg L (step cfg L w ev)"
    using Cons.prems(1) by (rule reachable.step)
  have ih: "handled cfg L (step cfg L w ev) evs \<le> work (step cfg L w ev)"
    using Cons.IH [OF reach] Cons.prems(2) by simp
  show ?case
  proof (cases "step cfg L w ev = w")
    case True
    with ih show ?thesis by simp
  next
    case False
    with response_work_decreases [OF reachable_ids [OF Cons.prems(1)]] ev
    have "work (step cfg L w ev) < work w" by simp
    with ih False show ?thesis by simp
  qed
qed

theorem responses_terminate_witness:
  "list_all is_response [Response 0 (HttpResp 200 ''token-body''), Response 1 (NetError ''ECONNRESET''),
                         Response 0 (HttpResp 200 ''token-body''), Response 1 (HttpResp 200 [])]
   \<and> handled demo_cfg demo_lib
       (run demo_cfg demo_lib init_world [Watch (FPath ''/watch/a.txt'') (Some \<lparr>st_size = 7, st_nlink = 1\<rparr>) None])
       [Response 0 (HttpResp 200 ''token-body''), Response 1 (NetError ''ECONNRESET''),
        Response 0 (HttpResp 200 ''token-body''), Response 1 (HttpResp 200 [])]
     \<le> work (run demo_cfg demo_lib init_world [Watch (FPath ''/watch/a.txt'') (Some \<lparr>st_size = 7, st_nlink = 1\<rparr>) None])"
proof -
  have r: "list_all is_response [Response 0 (HttpResp 200 ''token-body''), Response 1 (NetError ''ECONNRESET''),
                         Response 0 (HttpResp 200 ''token-body''), Response 1 (HttpResp 200 [])]"
    by (simp add: is_response_def)
  show ?thesis
    by (rule conjI [OF r responses_terminate [OF reachable_run [OF reachable.init] r]])
qed

text \<open>
  C27.  The requests sent are only ever appended to, and each event sends at most one: over
  any sequence of events the process sends at most as many requests as there are events.
\<close>

theorem requests_per_event:
  "\<exists>rs. sent (run cfg L w evs) = sent w @ rs \<and> length rs \<le> length evs"
proof (induction evs arbitrary: w)
  case Nil
  then show ?case by simp
next
  case (Cons ev evs)
  obtain rs where rs: "sent (run cfg L (step cfg L w ev) evs) = sent (step cfg L w ev) @ rs" "length rs \<le> length evs"
    using Cons.IH by blast
  from step_sent [of cfg L w ev] show ?case
  proof (elim disjE exE)
    assume "sent (step cfg L w ev) = sent w"
    with rs show ?case by simp
  next
    fix r assume "sent (step cfg L w ev) = sent w @ [r]"
    with rs show ?case by (intro exI [of _ "r # rs"]) simp
  qed
qed

end
