(* ===== verification/Interleaving.thy ===== *)
theory Interleaving
  imports Requests
begin

text \<open>
  Independence of the pipelines of different files (the specification's section 5: no order
  is guaranteed across files, and completions are independent continuations).  Whether the
  \<open>data\<close> listener of an upload succeeds depends only on the chunk, the file and the
  libraries, not on the rest of the state; it leaves the callbacks of earlier requests alone
  and changes the pending array by \<open>remove1\<close>, which commutes with itself.  The property
  itself (C25) is stated in the root theory beside the example runs.
\<close>

subsection \<open>Lemmas\<close>

lemma authenticate_app_conts:
  "j \<noteq> next_id w \<Longrightarrow> conts (authenticate_app cfg k w) j = conts w j"
  by (auto simp add: authenticate_app_def run_auth_k_def world_simps split: option.splits auth_k.splits)

lemma data_listener_old_conts:
  assumes "data_listener cfg L sp fn sz c w = Inr w'" "j < next_id w"
  shows "conts w' j = conts w j"
  using assms
  by (auto simp add: data_listener_Inr_iff send_message_Inr_iff authenticate_app_conts world_simps)

lemma data_listener_any_world:
  assumes "data_listener cfg L sp fn sz c w = Inr w1"
  shows "\<exists>w2. data_listener cfg L sp fn sz c w' = Inr w2"
  using assms by (auto simp add: data_listener_Inr_iff send_message_Inr_iff)

lemma data_step:
  assumes "ids_wf w" "status w = Running" "conts w i = Some (CData sp fn sz)"
    and "data_listener cfg L sp fn sz c w = Inr w1"
  shows "step cfg L w (Data i c) = w1 \<and> ids_wf w1 \<and> status w1 = Running \<and>
         pending w1 = remove1 (FPath fn) (pending w) \<and> next_id w \<le> next_id w1 \<and>
         (\<forall>j < next_id w. conts w1 j = conts w j)"
  using assms data_listener_fields [OF assms(4)] data_listener_old_conts [OF assms(4)]
    ids_wf_data [OF assms(1,4)]
  by (simp add: step_data)

lemma data_listener_Inr_obtain:
  assumes "\<not> isl (data_listener cfg L sp fn sz c w)"
  obtains w1 where "data_listener cfg L sp fn sz c w = Inr w1"
  using assms by (cases "data_listener cfg L sp fn sz c w") auto

end
