(* ===== verification/Stuck.thy ===== *)
theory Stuck
  imports Requests
begin

text \<open>
  Files stuck in \<open>pending\<close>.  A path in \<open>pending\<close> blocks every later creation event of
  the same path (line 151), and only the \<open>data\<close> listener of an upload of that path takes
  it out again (line 137).  \<open>file_in_flight w f\<close> holds when a registered callback still
  concerns the file: the token closure of its upload, its \<open>form.submit\<close> callback or its
  \<open>data\<close> listener.  A pending file with none of them is lost: whatever events follow, no
  new callback for it is ever registered (its creation events are ignored) and nothing
  removes it.  The files that get there are those whose upload fails with a transport error
  (line 129, C11) and, with no log line at all, those whose upload answer ends without a
  chunk that completes the pipeline, an empty body for instance (the \<open>End\<close> event of the
  loop).
\<close>

fun cont_file :: "cont \<Rightarrow> string option" where
  "cont_file (CAuth (KUpload sp fn sz attrs)) = Some fn"
| "cont_file (CAuth (KMessage url msg)) = None"
| "cont_file (CSubmit sp fn sz) = Some fn"
| "cont_file (CData sp fn sz) = Some fn"
| "cont_file CPost = None"

definition file_in_flight :: "world \<Rightarrow> fs_arg \<Rightarrow> bool" where
  "file_in_flight w f =
     (case f of
        FPath fn \<Rightarrow> list_ex (\<lambda>i. map_option cont_file (conts w i) = Some (Some fn)) [0..<next_id w]
      | FilesObj \<Rightarrow> False)"

definition stranded :: "world \<Rightarrow> fs_arg \<Rightarrow> bool" where
  "stranded w f \<longleftrightarrow> ids_wf w \<and> f \<in> set (pending w) \<and> \<not> file_in_flight w f"

subsection \<open>Lemmas: callbacks in flight under the updates of the handlers\<close>

lemma file_in_flight_iff:
  "file_in_flight w (FPath fn) \<longleftrightarrow> (\<exists>i < next_id w. \<exists>c. conts w i = Some c \<and> cont_file c = Some fn)"
  by (auto simp add: file_in_flight_def list_ex_iff)

lemma file_in_flight_FilesObj [simp]: "\<not> file_in_flight w FilesObj"
  by (simp add: file_in_flight_def)

lemma file_in_flight_frame [simp]:
  "file_in_flight (log m w) f = file_in_flight w f"
  "file_in_flight (w\<lparr>pending := ps\<rparr>) f = file_in_flight w f"
  "file_in_flight (w\<lparr>status := st\<rparr>) f = file_in_flight w f"
  "file_in_flight (w\<lparr>out := ms\<rparr>) f = file_in_flight w f"
  by (cases f; simp add: file_in_flight_def world_simps)+

lemma file_in_flight_issue:
  "file_in_flight (issue r k w) f \<longleftrightarrow> file_in_flight w f \<or> (\<exists>fn. f = FPath fn \<and> cont_file k = Some fn)"
proof (cases f)
  case (FPath fn)
  have "(\<exists>i < Suc (next_id w). \<exists>c. ((conts w)(next_id w \<mapsto> k)) i = Some c \<and> cont_file c = Some fn)
      \<longleftrightarrow> (\<exists>i < next_id w. \<exists>c. conts w i = Some c \<and> cont_file c = Some fn) \<or> cont_file k = Some fn"
    by (auto simp add: less_Suc_eq) (metis less_irrefl_nat)
  with FPath show ?thesis by (simp add: file_in_flight_iff world_simps)
qed simp

lemma file_in_flight_run_auth_k:
  "file_in_flight (run_auth_k k t w) f \<longleftrightarrow> file_in_flight w f \<or> (\<exists>fn. f = FPath fn \<and> cont_file (CAuth k) = Some fn)"
  by (cases k) (simp_all add: run_auth_k_def file_in_flight_issue)

lemma file_in_flight_authenticate:
  "file_in_flight (authenticate_app cfg k w) f \<longleftrightarrow> file_in_flight w f \<or> (\<exists>fn. f = FPath fn \<and> cont_file (CAuth k) = Some fn)"
  by (simp add: authenticate_app_def file_in_flight_run_auth_k file_in_flight_issue split: option.splits)

lemma file_in_flight_drop_mono:
  "file_in_flight (drop_cont i w) f \<Longrightarrow> file_in_flight w f"
  by (cases f) (auto simp add: file_in_flight_iff drop_cont_def split: if_splits)

lemma file_in_flight_of_cont:
  "ids_wf w \<Longrightarrow> conts w i = Some c \<Longrightarrow> cont_file c = Some fn \<Longrightarrow> file_in_flight w (FPath fn)"
  by (auto simp add: file_in_flight_iff ids_wf_def)

lemma stranded_frame [simp]:
  "stranded (log m w) f = stranded w f"
  "stranded (w\<lparr>status := st\<rparr>) f = stranded w f"
  by (simp_all add: stranded_def world_simps)

lemma stranded_drop:
  "stranded w f \<Longrightarrow> stranded (drop_cont i w) f"
  by (auto simp add: stranded_def world_simps dest: file_in_flight_drop_mono)

subsection \<open>Lemmas: no handler frees a stranded file\<close>

lemma stranded_watch:
  assumes "stranded w f" "watch_callback cfg g cur prv w = Inr w'"
  shows "stranded w' f"
proof -
  have "ids_wf w'" using assms by (auto simp add: stranded_def intro: ids_wf_watch)
  moreover have "f \<in> set (pending w')"
    using watch_callback_pending [OF assms(2)] assms(1) by (auto simp add: stranded_def)
  moreover have "\<not> file_in_flight w' f"
    using assms
    by (auto simp add: stranded_def watch_callback_def upload_file_def Let_def file_in_flight_authenticate
        world_simps split: if_splits option.splits fs_arg.splits)
  ultimately show ?thesis by (simp add: stranded_def)
qed

lemma stranded_auth:
  assumes "stranded w f" "conts w i = Some (CAuth k)" "auth_callback L k r (drop_cont i w) = Inr w'"
  shows "stranded w' f"
proof -
  have d: "stranded (drop_cont i w) f" using assms(1) by (rule stranded_drop)
  have k: "f \<noteq> FPath fn" if "cont_file (CAuth k) = Some fn" for fn
    using assms(1,2) that file_in_flight_of_cont [of w i "CAuth k" fn] by (auto simp add: stranded_def)
  from assms(3) consider (exit) "w' = (log LogAuthExit (drop_cont i w))\<lparr>status := Exited 1\<rparr>"
    | (ok) t where "w' = run_auth_k k t (drop_cont i w)"
    by (auto simp add: auth_callback_def ebind_eq_Inr split: http_resp.splits if_splits option.splits)
  then show ?thesis
  proof cases
    case exit
    with d show ?thesis by simp
  next
    case ok
    with d k show ?thesis
      by (auto simp add: stranded_def file_in_flight_run_auth_k world_simps)
  qed
qed

lemma stranded_submit:
  assumes "stranded w f" "conts w i = Some (CSubmit sp fn sz)"
  shows "stranded (submit_callback i sp fn sz r (drop_cont i w)) f"
proof (cases r)
  case (NetError e)
  with stranded_drop [OF assms(1)] show ?thesis by (simp add: submit_callback_def)
next
  case (HttpResp code body)
  have "f \<noteq> FPath fn"
    using assms file_in_flight_of_cont [of w i "CSubmit sp fn sz" fn] by (auto simp add: stranded_def)
  moreover have "i < next_id w" using assms by (auto simp add: stranded_def ids_wf_def)
  ultimately show ?thesis
    using stranded_drop [OF assms(1), of i] HttpResp
    by (cases f) (auto simp add: stranded_def submit_callback_def file_in_flight_iff ids_wf_def world_simps)
qed

lemma stranded_data:
  assumes "stranded w f" "conts w i = Some (CData sp fn sz)" "data_listener cfg L sp fn sz chunk w = Inr w'"
  shows "stranded w' f"
proof -
  have ne: "f \<noteq> FPath fn"
    using assms(1,2) file_in_flight_of_cont [of w i "CData sp fn sz" fn] by (auto simp add: stranded_def)
  obtain u m where w': "w' = (authenticate_app cfg (KMessage u m)
      (log (LogMessage m) (log (LogBody chunk) w)))\<lparr>pending := pending w'\<rparr>"
    using assms(3) by (rule data_listener_Inr_shape)
  have "ids_wf w'" using assms by (auto simp add: stranded_def intro: ids_wf_data)
  moreover have "f \<in> set (pending w')"
    using data_listener_fields(1) [OF assms(3)] assms(1) ne by (simp add: stranded_def)
  moreover have "\<not> file_in_flight w' f"
    using assms(1) by (subst w') (simp add: stranded_def file_in_flight_authenticate)
  ultimately show ?thesis by (simp add: stranded_def)
qed

lemma stranded_step: "stranded w f \<Longrightarrow> stranded (step cfg L w ev) f"
  apply (rule step_preserves)
  subgoal by (rule stranded_watch)
  subgoal by (rule stranded_auth)
  subgoal by (rule stranded_submit)
  subgoal for w i r w'
    by (auto simp add: post_callback_def stranded_drop split: http_resp.splits if_splits)
  subgoal by (rule stranded_data)
  subgoal by (rule stranded_drop)
  subgoal by simp
  subgoal by assumption
  done

subsection \<open>Properties\<close>

text \<open>
  C26.  A stranded file stays pending for ever: in a reachable state, a file that is in
  \<open>pending\<close> but that no registered callback concerns any more stays in \<open>pending\<close>, and
  still has no callback, whatever events follow; so every later creation of that path is
  ignored.  The witness reaches such a state without any error: the upload is answered with
  status 200 and an empty body, whose stream ends without a \<open>data\<close> chunk.
\<close>

theorem stranded_stays_pending:
  assumes "reachable cfg L w" and "f \<in> set (pending w)" and "\<not> file_in_flight w f"
  shows "f \<in> set (pending (run cfg L w evs)) \<and> \<not> file_in_flight (run cfg L w evs) f"
proof -
  have "stranded w f" using assms reachable_ids [OF assms(1)] by (simp add: stranded_def)
  then have "stranded (run cfg L w evs) f"
  proof (induction evs arbitrary: w)
    case (Cons ev evs)
    then show ?case using stranded_step [OF Cons.prems] by simp
  qed simp
  then show ?thesis by (simp add: stranded_def)
qed

theorem stranded_stays_pending_witness:
  "FPath ''/watch/a.txt'' \<in> set (pending (run demo_cfg demo_lib
      (run demo_cfg demo_lib init_world
        [Watch (FPath ''/watch/a.txt'') (Some \<lparr>st_size = 7, st_nlink = 1\<rparr>) None,
         Response 0 (HttpResp 200 ''token-body''), Response 1 (HttpResp 200 []), End 1])
      [Watch (FPath ''/watch/a.txt'') (Some \<lparr>st_size = 7, st_nlink = 1\<rparr>) None, Data 1 ''upload-body'']))
   \<and> \<not> file_in_flight (run demo_cfg demo_lib
      (run demo_cfg demo_lib init_world
        [Watch (FPath ''/watch/a.txt'') (Some \<lparr>st_size = 7, st_nlink = 1\<rparr>) None,
         Response 0 (HttpResp 200 ''token-body''), Response 1 (HttpResp 200 []), End 1])
      [Watch (FPath ''/watch/a.txt'') (Some \<lparr>st_size = 7, st_nlink = 1\<rparr>) None, Data 1 ''upload-body''])
      (FPath ''/watch/a.txt'')"
proof -
  define w0 where "w0 = run demo_cfg demo_lib init_world
        [Watch (FPath ''/watch/a.txt'') (Some \<lparr>st_size = 7, st_nlink = 1\<rparr>) None,
         Response 0 (HttpResp 200 ''token-body''), Response 1 (HttpResp 200 []), End 1]"
  have sa: "short_name demo_cfg ''/watch/a.txt'' = ''a.txt''"
    by (simp add: demo_simps short_name_def js_eval_simps)
  note defs = w0_def step_watch watch_callback_def upload_file_def Let_def authenticate_app_exchange
    env_truthy_def demo_facts step_auth_ok step_submit submit_callback_def run_auth_k_def step_end
    drop_cont_def world_simps init_world_def
  have p: "FPath ''/watch/a.txt'' \<in> set (pending w0)" using sa by (simp add: defs)
  have f: "\<not> file_in_flight w0 (FPath ''/watch/a.txt'')"
    using sa by (simp add: defs file_in_flight_def)
  have r: "reachable demo_cfg demo_lib w0"
    unfolding w0_def by (rule reachable_run [OF reachable.init])
  show ?thesis
    unfolding w0_def [symmetric] by (rule stranded_stays_pending [OF r p f])
qed

end
