(* ===== verification/Spec2Isabelle.thy ===== *)
theory Spec2Isabelle
  imports Runtime Requests PendingSet Pipeline Progress Interleaving Stuck
begin

text \<open>
  \<^bold>\<open>A verification development for watsonwork-filesync (\<open>src/app.js\<close>).\<close>

  \<^bold>\<open>The program.\<close>  A single Node.js process watches a folder (\<open>watch.watchTree\<close>, lines
  147--161).  When a file is created and is not yet in the global array \<open>pending\<close>
  (line 145) the path is pushed and \<open>uploadFile\<close> (lines 113--143) runs: it authenticates
  (\<open>authenticateApp\<close>, lines 24--53: the static \<open>USER_JWT\<close> or a client-credentials token
  request), submits the file as a multipart form, and on each \<open>data\<close> chunk of the response
  parses \<open>entries[0].id\<close>, calls \<open>sendMessage\<close> (lines 56--111: MIME type, image
  dimensions, message object, a second authentication, the post) and splices the file out
  of \<open>pending\<close>.  Every network call is asynchronous; handlers run one at a time.

  \<^bold>\<open>How it is modelled.\<close>  Each handler is a function from the process state to
  \<open>js_error + world\<close>: \<open>Inl\<close> is an exception that escapes the handler.
  \<^item> \<open>Prelude\<close>: exception sequencing (\<open>ebind\<close>), list lemmas, the collections
    \<open>handler_defs\<close> and \<open>world_simps\<close>.
  \<^item> \<open>JsValue\<close>: JavaScript values and the built-ins the code uses: property access that
    throws on \<open>undefined\<close>/\<open>null\<close> (\<open>js_get\<close>, \<open>js_index\<close>, \<open>js_path\<close>), ToString
    (\<open>js_to_string\<close>), \<open>indexOf\<close> and \<open>replace\<close> on strings, \<open>indexOf\<close>/\<open>splice\<close>
    on arrays (\<open>array_remove\<close>), \<open>JSON.stringify\<close>.
  \<^item> \<open>World\<close>: the configuration (\<open>config\<close>), the libraries the code only calls
    (\<open>lib\<close>: \<open>mime.lookup\<close>, \<open>imageSize\<close>, \<open>JSON.parse\<close> as parameters, so every
    theorem holds for every implementation of them), requests, responses, the callbacks
    waiting for an event (\<open>cont\<close>; the closures given to \<open>authenticateApp\<close> are the
    first-order values \<open>auth_k\<close>), and the state \<open>world\<close>: \<open>pending\<close>, the callbacks by
    request number, the requests sent, the console output, and the process status.
  \<^item> \<open>Auth\<close>: \<open>authenticate_app\<close>, \<open>auth_callback\<close>, and \<open>run_auth_k\<close>, the bodies of
    the two closures.  \<open>Message\<close>: \<open>send_message\<close>, \<open>message_data\<close>, \<open>image_dims\<close>,
    \<open>short_name\<close>, \<open>post_callback\<close>.  \<open>Upload\<close>: \<open>upload_file\<close>,
    \<open>submit_callback\<close>, \<open>data_listener\<close>.  \<open>Watcher\<close>: \<open>watch_callback\<close>.
  \<^item> \<open>Runtime\<close>: the event loop.  An event is a file-system notification, the completion of
    a request (its callback runs once), a \<open>data\<close> chunk of an upload's response (the
    listener stays), or the end of that response stream (\<open>End\<close>: no chunk follows; Node
    emits it at once for an empty body).  \<open>step\<close> runs the matching handler; an uncaught
    exception (\<open>commit\<close>) or \<open>process.exit\<close> stops all further handling.  \<open>run\<close> folds a
    list of events; \<open>reachable\<close> is the set of states that some sequence of events reaches
    from \<open>init_world\<close>.  Concurrency is the interleaving of events in any order: the
    theorems over \<open>reachable\<close> hold for all of them.  The request numbers of \<open>issue\<close> are
    the model's own bookkeeping, to match completions with callbacks.
  \<^item> \<open>JsonText\<close>: the readers of the receiving side, written from RFC 8259: JSON string
    literals (\<open>json_body\<close>) and flat objects of strings (\<open>json_read_str_object\<close>; its loop
    \<open>json_members_read\<close> runs on fuel equal to the length of the input, enough because
    every member takes at least one character).  They say what the upload attributes mean.
  \<^item> \<open>Requests\<close>: the request numbering invariant \<open>ids_wf\<close> and the well-formed uploads
    invariant \<open>uploads_wf\<close>, each proved for every reachable state from one lemma per
    handler through \<open>step_preserves\<close> (\<open>Runtime\<close>).  \<open>Pipeline\<close>: \<open>pipeline_wf\<close>,
    what each waiting callback descends from, giving the order of a file's pipeline.
    \<open>PendingSet\<close>: the specification's Pending Set as the abstract machine
    \<open>pset_step\<close>, the operation \<open>abs_event\<close> of each event, and the refinement lemma.
  \<^item> \<open>Progress\<close>: the measure \<open>work\<close>, the completions still owed to the callbacks of a
    running process (a token closure two, an upload or a post one, a \<open>data\<close> listener none),
    and the lemma that each completion the loop handles decreases it; each event sends at
    most one request.  \<open>Interleaving\<close>: the lemmas by which \<open>data\<close> chunks of different
    uploads commute (a listener's success depends on its chunk only, it keeps earlier
    callbacks and removes its path by \<open>remove1\<close>).
  \<^item> \<open>Stuck\<close>: \<open>file_in_flight\<close> (a registered callback concerns the file) and
    \<open>stranded\<close> (pending with none), with one lemma per handler that no handler frees a
    stranded file.
  \<^item> This theory: properties over whole event sequences and the example runs used by
    the witnesses (\<open>demo_cfg\<close>, \<open>demo_lib\<close> in \<open>World\<close>; \<open>demo_created\<close>,
    \<open>demo_uploading\<close>, \<open>demo_bin_uploading\<close>, \<open>demo_posting\<close>, \<open>demo_two\<close> here).

  \<^bold>\<open>What is proved.\<close>  Creation events (C1, C2) and the duplicate-free pending array
  in every reachable state (C3); the whole pipeline with its request order (C4); the static
  token in every request (C5); authentication failure is fatal (C6); the message object
  (C7--C9) and the short name (C10).  Error paths: a failed upload stays pending forever
  (C11), an unknown MIME type (C12), a failed post (C13), an upload answer without
  \<open>entries\<close> (C17) and a transport error of the token request (C20) crash the process, and
  a token response without \<open>access_token\<close> leads to \<open>Bearer undefined\<close> (C18).  The
  removal idiom of the data listener (C14, C15) and that the pending entry is cleared before
  the message is posted (C16).  Invariants of the loop: the array refines the
  specification's Pending Set (C19); every upload sent carries well-formed attributes (C21);
  a file's message follows its upload (C22); two parseable chunks of one upload response
  announce the file twice (C23).  Termination: from any reachable state at most \<open>work\<close>
  completions are handled, whatever completions arrive (C24).  Interleaving: the chunks of
  two uploads commute on the pending array (C25).  A pending file with no callback left is
  pending for ever, and an upload answered with an empty body gets there without any error
  logged (C26).  Bounds: each event sends at most one request (C27).  Change and removal
  events only log (C28).  No fuel and no bound is needed for the program: every handler
  terminates, and runs are finite lists of events; the only fuel is that of the JSON object
  reader, as above.

  \<^bold>\<open>Extensions left open.\<close>  Commutation of the events of different files up to a
  renaming of request numbers (C25 covers the \<open>data\<close> chunks, whose order does not change
  the numbering).  Every source line of \<open>src/app.js\<close> that does work is modelled.

  \<^bold>\<open>Not modelled.\<close>  The libraries' code (mime-types, image-size, request, form-data,
  watch): they are parameters or are seen only through the events they deliver; the file
  body of the upload form (\<open>form.append\<close> with \<open>fs.createReadStream\<close>, lines 117--119); the text \<open>console.log\<close>
  prints (for objects it is \<open>util.inspect\<close>'s formatting, which the program does not depend
  on: only the order and the values logged are modelled; the three lines of a failed post
  are one \<open>LogPostError\<close>).  A crash keeps the state from before the handler (\<open>commit\<close>):
  the lines a handler logs before it throws (\<open>BODY\<close> at line 132, \<open>File Created\<close> at
  line 153) are not in the model's output, which the crash claims (C12, C17) compare.  The
  specification's per-file phase machine (\<open>Created \<rightarrow> Uploading \<rightarrow> Composing \<rightarrow> Done\<close>)
  is not modelled as a simulation, because the code does not follow it: the \<open>data\<close>
  listener stays registered after the message is started (C23) and a path leaves
  \<open>pending\<close> before its post (C16), so one path can have several pipelines in flight at
  once; their order is stated instead by \<open>pipeline_wf\<close> (C22).  The \<open>$\<close>-patterns of
  \<open>String.replace\<close>'s replacement (the code passes the empty string); JavaScript numbers
  beyond the integers the program handles.
\<close>

section \<open>Properties of whole event sequences\<close>

subsection \<open>Observing requests\<close>

text \<open>The \<open>Authorization\<close> header a request carries; the token exchange uses basic auth instead.\<close>

fun request_bearer :: "http_req \<Rightarrow> string option" where
  "request_bearer (TokenReq u usr pw form) = None"
| "request_bearer (FileReq h a f at) = Some a"
| "request_bearer (MsgReq u a m) = Some a"

text \<open>
  The invariant of a process started with a static token \<open>j\<close>: every request sent so far
  carries \<open>Bearer j\<close>, and no callback waits for a token response.
\<close>

definition static_inv :: "string \<Rightarrow> world \<Rightarrow> bool" where
  "static_inv j w \<longleftrightarrow>
     (\<forall>r \<in> set (sent w). request_bearer (snd r) = Some (''Bearer '' @ j)) \<and>
     (\<forall>i k. conts w i \<noteq> Some (CAuth k))"

subsection \<open>Change and removal events\<close>

text \<open>
  A file-system event for a path that existed before (\<open>prev\<close> given) with its current
  status (\<open>curr\<close> given): a change, or a removal when the link count is zero (lines 156--160),
  and the line the callback logs for it.
\<close>

fun is_update_event :: "event \<Rightarrow> bool" where
  "is_update_event (Watch f (Some c) (Some p)) = True"
| "is_update_event ev = False"

fun update_log :: "event \<Rightarrow> log_msg" where
  "update_log (Watch f (Some c) p) = (if st_nlink c = 0 then LogRemoved f else LogChanged f)"
| "update_log ev = LogWalked"

subsection \<open>Runs of the example configuration used by the witnesses\<close>

definition demo_stat :: stat where
  "demo_stat = \<lparr>st_size = 7, st_nlink = 1\<rparr>"

text \<open>A text file is created; its token request is number 0.\<close>

definition demo_created :: world where
  "demo_created = run demo_cfg demo_lib init_world [Watch (FPath ''/watch/a.txt'') (Some demo_stat) None]"

text \<open>The token arrives and the upload (request 1) is sent; the upload server answers.\<close>

definition demo_uploading :: world where
  "demo_uploading = run demo_cfg demo_lib demo_created
     [Response 0 (HttpResp 200 ''token-body''), Response 1 (HttpResp 200 [])]"

text \<open>A file without a known MIME type, at the same stage.\<close>

definition demo_bin_uploading :: world where
  "demo_bin_uploading = run demo_cfg demo_lib init_world
     [Watch (FPath ''/watch/data.bin'') (Some demo_stat) None,
      Response 0 (HttpResp 200 ''token-body''), Response 1 (HttpResp 200 [])]"

text \<open>The text file's upload body arrives, its message token (request 2) is granted and the post (request 3) is sent.\<close>

definition demo_posting :: world where
  "demo_posting = run demo_cfg demo_lib demo_uploading
     [Data 1 ''upload-body'', Response 2 (HttpResp 200 ''token-body'')]"

text \<open>Two text files are created and both uploads (requests 2 and 3) are answered: two \<open>data\<close> listeners wait.\<close>

definition demo_two :: world where
  "demo_two = run demo_cfg demo_lib init_world
     [Watch (FPath ''/watch/a.txt'') (Some demo_stat) None, Watch (FPath ''/watch/b.txt'') (Some demo_stat) None,
      Response 0 (HttpResp 200 ''token-body''), Response 1 (HttpResp 200 ''token-body''),
      Response 2 (HttpResp 200 []), Response 3 (HttpResp 200 [])]"

subsection \<open>The static token: preservation lemmas\<close>

lemma static_inv_frame [simp]:
  "static_inv j (log m w) = static_inv j w"
  "static_inv j (w\<lparr>pending := ps\<rparr>) = static_inv j w"
  "static_inv j (w\<lparr>status := st\<rparr>) = static_inv j w"
  by (simp_all add: static_inv_def world_simps)

lemma static_inv_drop_cont: "static_inv j w \<Longrightarrow> static_inv j (drop_cont i w)"
  by (simp add: static_inv_def world_simps)

lemma static_inv_authenticate:
  assumes "user_jwt cfg = Some j" "j \<noteq> []" "static_inv j w"
  shows "static_inv j (authenticate_app cfg k w)"
  using assms
  by (auto simp add: authenticate_app_def run_auth_k_def static_inv_def world_simps bearer_def
      split: auth_k.splits)

lemma static_inv_watch:
  assumes "user_jwt cfg = Some j" "j \<noteq> []" "static_inv j w"
    and "watch_callback cfg f cur prv w = Inr w'"
  shows "static_inv j w'"
  using assms
  by (auto simp add: watch_callback_def upload_file_Inr_iff Let_def
      split: if_splits option.splits intro: static_inv_authenticate)

lemma static_inv_data:
  assumes "user_jwt cfg = Some j" "j \<noteq> []" "static_inv j w"
    and "data_listener cfg L sp fn sz chunk w = Inr w'"
  shows "static_inv j w'"
  using assms
  by (auto simp add: data_listener_Inr_iff send_message_Inr_iff static_inv_authenticate)

lemma static_inv_step:
  assumes "user_jwt cfg = Some j" "j \<noteq> []" "static_inv j w"
  shows "static_inv j (step cfg L w ev)"
  apply (rule step_preserves [where P = "static_inv j"])
  subgoal by (rule static_inv_watch [OF assms(1,2)])
  subgoal by (simp add: static_inv_def)
  subgoal by (auto simp add: submit_callback_def static_inv_def world_simps split: http_resp.splits)
  subgoal by (auto simp add: post_callback_def static_inv_def world_simps split: http_resp.splits if_splits)
  subgoal by (rule static_inv_data [OF assms(1,2)])
  subgoal by (rule static_inv_drop_cont)
  subgoal by (simp add: static_inv_frame)
  subgoal by (rule assms(3))
  done

lemma reachable_static_inv:
  assumes "user_jwt cfg = Some j" and "j \<noteq> []"
  shows "reachable cfg L w \<Longrightarrow> static_inv j w"
  by (erule reachable_preserves) (simp add: static_inv_def init_world_def, rule static_inv_step [OF assms])

subsection \<open>The upload pipeline, event by event\<close>

text \<open>
  The four events that carry a fresh file from its creation to the start of its message:
  the creation, the token response, the upload response and its \<open>data\<close> chunk.  The
  numbers of the requests follow from \<open>next_id\<close>.
\<close>

lemma pipeline_upload_phase:
  fixes c :: stat
  assumes running: "status w = Running"
    and fresh: "FPath p \<notin> set (pending w)"
    and exch: "\<not> env_truthy (user_jwt cfg)"
    and tok: "json_parse L tb = Some vt" "js_get vt ''access_token'' = Inr t"
    and up: "json_parse L ub = Some vu" "js_path vu [PKey ''entries'', PIdx 0, PKey ''id''] = Inr fid"
    and mime: "mime_lookup L (short_name cfg p) = Some mt" "image_dims L mt p = Inr d"
    and n: "n = next_id w"
  defines "msg \<equiv> message_data fid (short_name cfg p) mt (st_size c) d"
    and "url \<equiv> watson_work @ ''/'' @ spaces_api (space_id cfg)"
    and "attrs \<equiv> upload_attributes (short_name cfg p) (space_id cfg)"
  shows "let w4 = run cfg L w [Watch (FPath p) (Some c) None, Response n (HttpResp 200 tb),
                             Response (Suc n) (HttpResp code ub0), Data (Suc n) ub] in
         status w4 = Running \<and> pending w4 = pending w \<and> next_id w4 = n + 3 \<and>
         sent w4 = sent w @ [(n, token_request cfg), (Suc n, FileReq files_api (bearer t) p attrs),
                             (n + 2, token_request cfg)] \<and>
         conts w4 (n + 2) = Some (CAuth (KMessage url msg))"
proof -
  define w1 where "w1 = step cfg L w (Watch (FPath p) (Some c) None)"
  define w2 where "w2 = step cfg L w1 (Response n (HttpResp 200 tb))"
  define w3 where "w3 = step cfg L w2 (Response (Suc n) (HttpResp code ub0))"
  define w4 where "w4 = step cfg L w3 (Data (Suc n) ub)"
  have w1: "w1 = issue (token_request cfg) (CAuth (KUpload (space_id cfg) p (st_size c) attrs))
                  (log (LogCreated (FPath p)) (w\<lparr>pending := pending w @ [FPath p]\<rparr>))"
    using running fresh exch
    by (simp add: w1_def step_watch watch_created_fresh authenticate_app_exchange attrs_def)
  have w2: "w2 = issue (FileReq files_api (bearer t) p attrs) (CSubmit (space_id cfg) p (st_size c))
                  (drop_cont n w1)"
    using running tok n by (simp add: w2_def w1 step_auth_ok world_simps run_auth_k_def)
  have w3: "w3 = (drop_cont (Suc n) w2)\<lparr>conts := (conts (drop_cont (Suc n) w2))(Suc n \<mapsto> CData (space_id cfg) p (st_size c))\<rparr>"
    using running n by (simp add: w3_def w2 w1 step_submit world_simps submit_callback_def)
  have sm: "send_message cfg L (space_id cfg) fid p (st_size c) (log (LogBody ub) w3)
            = Inr (issue (token_request cfg) (CAuth (KMessage url msg)) (log (LogMessage msg) (log (LogBody ub) w3)))"
    using mime exch by (simp add: send_message_def Let_def msg_def url_def authenticate_app_exchange)
  have w4: "w4 = (issue (token_request cfg) (CAuth (KMessage url msg)) (log (LogMessage msg) (log (LogBody ub) w3)))
                   \<lparr>pending := remove1 (FPath p) (pending w @ [FPath p])\<rparr>"
    using running n up sm
    by (simp add: w4_def w3 w2 w1 step_data world_simps data_listener_def array_remove_remove1)
  have run: "run cfg L w [Watch (FPath p) (Some c) None, Response n (HttpResp 200 tb),
                          Response (Suc n) (HttpResp code ub0), Data (Suc n) ub] = w4"
    by (simp add: w1_def w2_def w3_def w4_def)
  show ?thesis
    unfolding run Let_def
    using running fresh n
    by (simp add: w4 w3 w2 w1 world_simps remove1_append_notin)
qed

lemma demo_created_eq:
  "demo_created = issue (token_request demo_cfg)
     (CAuth (KUpload ''space1'' ''/watch/a.txt'' 7 (upload_attributes ''a.txt'' ''space1'')))
     (log (LogCreated (FPath ''/watch/a.txt'')) (init_world\<lparr>pending := [FPath ''/watch/a.txt'']\<rparr>))"
proof -
  have "short_name demo_cfg ''/watch/a.txt'' = ''a.txt''"
    by (simp add: demo_simps short_name_def js_eval_simps)
  then show ?thesis
    by (simp add: demo_created_def demo_stat_def step_watch watch_created_fresh
        authenticate_app_exchange init_world_def demo_simps env_truthy_def)
qed

lemma demo_created_fields:
  "status demo_created = Running"
  "conts demo_created 0 = Some (CAuth (KUpload ''space1'' ''/watch/a.txt'' 7 (upload_attributes ''a.txt'' ''space1'')))"
  by (simp_all add: demo_created_eq world_simps init_world_def)

lemma demo_uploading_fields:
  "status demo_uploading = Running"
  "pending demo_uploading = [FPath ''/watch/a.txt'']"
  "conts demo_uploading 1 = Some (CData ''space1'' ''/watch/a.txt'' 7)"
  "next_id demo_uploading = 2"
  by (simp_all add: demo_uploading_def demo_created_eq step_auth_ok step_submit submit_callback_def
      run_auth_k_def world_simps init_world_def demo_simps)

lemma demo_uploading_sent:
  "(1, FileReq files_api ''Bearer T'' ''/watch/a.txt'' (upload_attributes ''a.txt'' ''space1''))
     \<in> set (sent demo_uploading)"
  by (simp add: demo_uploading_def demo_created_eq step_auth_ok step_submit submit_callback_def
      run_auth_k_def bearer_def world_simps init_world_def demo_simps)

lemma demo_uploading_reachable: "reachable demo_cfg demo_lib demo_uploading"
  unfolding demo_uploading_def demo_created_def
  by (rule reachable_run [OF reachable_run [OF reachable.init]])

lemma demo_posting_fields:
  "conts demo_posting 3 = Some CPost" "status demo_posting = Running"
  "(3, MsgReq (watson_work @ ''/'' @ spaces_api ''space1'') ''Bearer T''
       (message_data (JNum 42) ''a.txt'' ''text/plain'' 7 (0, 0))) \<in> set (sent demo_posting)"
proof -
  have sn: "short_name demo_cfg ''/watch/a.txt'' = ''a.txt''"
    by (simp add: demo_simps short_name_def js_eval_simps)
  have m: "mime_lookup demo_lib ''a.txt'' = Some ''text/plain''"
    by (simp add: demo_lib_def js_eval_simps)
  have d: "image_dims demo_lib ''text/plain'' ''/watch/a.txt'' = Inr (0, 0)"
    by (simp add: image_dims_other js_eval_simps)
  have c1: "conts demo_uploading (Suc 0) = Some (CData ''space1'' ''/watch/a.txt'' 7)"
    using demo_uploading_fields(3) by simp
  note defs = demo_posting_def demo_uploading_fields step_data data_listener_def send_message_def
    Let_def step_auth_ok authenticate_app_exchange env_truthy_def demo_facts run_auth_k_def
    bearer_def world_simps
  show "conts demo_posting 3 = Some CPost" using sn m d c1 by (simp add: defs)
  show "status demo_posting = Running" using sn m d c1 by (simp add: defs)
  show "(3, MsgReq (watson_work @ ''/'' @ spaces_api ''space1'') ''Bearer T''
       (message_data (JNum 42) ''a.txt'' ''text/plain'' 7 (0, 0))) \<in> set (sent demo_posting)"
    using sn m d c1 by (simp add: defs)
qed

lemma demo_posting_reachable: "reachable demo_cfg demo_lib demo_posting"
  unfolding demo_posting_def by (rule reachable_run [OF demo_uploading_reachable])

text \<open>A \<open>data\<close> chunk that parses and names a known file starts the message's token request.\<close>

lemma data_listener_message:
  assumes "json_parse L c = Some v" "js_path v [PKey ''entries'', PIdx 0, PKey ''id''] = Inr fid"
    and "mime_lookup L (short_name cfg fn) = Some mt" "image_dims L mt fn = Inr d"
    and "\<not> env_truthy (user_jwt cfg)"
  shows "\<exists>w'. data_listener cfg L sp fn sz c w = Inr w' \<and> status w' = status w \<and>
     next_id w' = Suc (next_id w) \<and>
     conts w' = (conts w)(next_id w \<mapsto> CAuth (KMessage (watson_work @ ''/'' @ spaces_api sp)
                                       (message_data fid (short_name cfg fn) mt sz d)))"
  using assms
  by (simp add: data_listener_def send_message_def Let_def authenticate_app_exchange world_simps)

lemma demo_two_fields:
  "status demo_two = Running"
  "conts demo_two 2 = Some (CData ''space1'' ''/watch/a.txt'' 7)"
  "conts demo_two 3 = Some (CData ''space1'' ''/watch/b.txt'' 7)"
  "\<not> isl (data_listener demo_cfg demo_lib ''space1'' ''/watch/a.txt'' 7 ''upload-body'' demo_two)"
  "\<not> isl (data_listener demo_cfg demo_lib ''space1'' ''/watch/b.txt'' 7 ''upload-body'' demo_two)"
  "reachable demo_cfg demo_lib demo_two"
proof -
  have sa: "short_name demo_cfg ''/watch/a.txt'' = ''a.txt''" "short_name demo_cfg ''/watch/b.txt'' = ''b.txt''"
    by (simp_all add: demo_simps short_name_def js_eval_simps)
  have m: "mime_lookup demo_lib ''a.txt'' = Some ''text/plain''" "mime_lookup demo_lib ''b.txt'' = Some ''text/plain''"
    by (simp_all add: demo_lib_def js_eval_simps)
  have d: "image_dims demo_lib ''text/plain'' fn = Inr (0, 0)" for fn
    by (simp add: image_dims_other js_eval_simps)
  note defs = demo_two_def demo_stat_def step_watch watch_callback_def upload_file_def Let_def
    authenticate_app_exchange env_truthy_def demo_facts step_auth_ok step_submit submit_callback_def
    run_auth_k_def world_simps init_world_def
  show "status demo_two = Running" using sa by (simp add: defs)
  show "conts demo_two 2 = Some (CData ''space1'' ''/watch/a.txt'' 7)" using sa by (simp add: defs)
  show "conts demo_two 3 = Some (CData ''space1'' ''/watch/b.txt'' 7)" using sa by (simp add: defs)
  show "\<not> isl (data_listener demo_cfg demo_lib ''space1'' ''/watch/a.txt'' 7 ''upload-body'' demo_two)"
    using sa m d by (simp add: data_listener_def send_message_def demo_facts Let_def)
  show "\<not> isl (data_listener demo_cfg demo_lib ''space1'' ''/watch/b.txt'' 7 ''upload-body'' demo_two)"
    using sa m d by (simp add: data_listener_def send_message_def demo_facts Let_def)
  show "reachable demo_cfg demo_lib demo_two"
    unfolding demo_two_def by (rule reachable_run [OF reachable.init])
qed

lemma update_step:
  assumes "status w = Running" "is_update_event ev"
  shows "step cfg L w ev = log (update_log ev) w"
  using assms by (cases ev rule: is_update_event.cases) (auto simp add: step_watch watch_callback_def)

subsection \<open>Creation events and the pending array\<close>

text \<open>
  C1.  A creation event for a path that is not pending, in a running process without
  \<open>USER_JWT\<close>, pushes the path onto \<open>pending\<close>, logs it, and starts exactly one upload
  attempt: one token request is sent, and the upload closure for this path, its size
  and its attributes waits for the token.
\<close>

theorem create_fresh_step:
  assumes "status w = Running" and "FPath p \<notin> set (pending w)" and "\<not> env_truthy (user_jwt cfg)"
  shows "step cfg L w (Watch (FPath p) (Some c) None) =
           issue (token_request cfg)
             (CAuth (KUpload (space_id cfg) p (st_size c) (upload_attributes (short_name cfg p) (space_id cfg))))
             (log (LogCreated (FPath p)) (w\<lparr>pending := pending w @ [FPath p]\<rparr>))"
  using assms
  by (simp add: step_watch watch_callback_def upload_file_def Let_def authenticate_app_exchange)

theorem create_fresh_step_witness:
  "step demo_cfg demo_lib init_world (Watch (FPath ''/watch/a.txt'') (Some demo_stat) None) =
     issue (token_request demo_cfg)
       (CAuth (KUpload (space_id demo_cfg) ''/watch/a.txt'' (st_size demo_stat)
          (upload_attributes (short_name demo_cfg ''/watch/a.txt'') (space_id demo_cfg))))
       (log (LogCreated (FPath ''/watch/a.txt''))
          (init_world\<lparr>pending := pending init_world @ [FPath ''/watch/a.txt'']\<rparr>))"
proof -
  have h1: "status init_world = Running" by (simp add: init_world_def)
  have h2: "FPath ''/watch/a.txt'' \<notin> set (pending init_world)" by (simp add: init_world_def)
  have h3: "\<not> env_truthy (user_jwt demo_cfg)" by (simp add: demo_simps env_truthy_def)
  show ?thesis by (rule create_fresh_step [OF h1 h2 h3])
qed

text \<open>
  C2.  A creation event for a path that is already pending changes nothing: no request,
  no log line, no change of \<open>pending\<close>, even when the event carries no \<open>curr\<close>.
\<close>

theorem create_duplicate_step:
  assumes "FPath p \<in> set (pending w)"
  shows "step cfg L w (Watch (FPath p) cur None) = w"
proof (cases "status w = Running")
  case True
  with assms show ?thesis by (simp add: step_watch watch_callback_def)
next
  case False
  then show ?thesis by (rule step_stopped)
qed

theorem create_duplicate_step_witness:
  "step demo_cfg demo_lib demo_uploading (Watch (FPath ''/watch/a.txt'') (Some demo_stat) None) = demo_uploading"
proof -
  have h: "FPath ''/watch/a.txt'' \<in> set (pending demo_uploading)"
    by (simp add: demo_uploading_fields)
  show ?thesis by (rule create_duplicate_step [OF h])
qed

subsection \<open>The whole pipeline\<close>

text \<open>
  C4.  The complete pipeline for a fresh file, with token exchange: after the creation,
  the token response, the upload response with its body, the second token response and
  the \<open>201\<close> of the message post, the process still runs, the file is no longer pending
  (\<open>pending\<close> is as before the creation), and exactly four requests were sent, in this order:
  token, upload of the file with the first token, token, post of the message with the
  second token.  The upload completes before the message is composed.
\<close>

theorem upload_pipeline:
  fixes c :: stat
  assumes "status w = Running"
    and "FPath p \<notin> set (pending w)"
    and "\<not> env_truthy (user_jwt cfg)"
    and "json_parse L tb = Some vt" "js_get vt ''access_token'' = Inr t"
    and "json_parse L ub = Some vu" "js_path vu [PKey ''entries'', PIdx 0, PKey ''id''] = Inr fid"
    and "mime_lookup L (short_name cfg p) = Some mt" "image_dims L mt p = Inr d"
    and "n = next_id w"
  shows "let w6 = run cfg L w [Watch (FPath p) (Some c) None, Response n (HttpResp 200 tb),
                 Response (Suc n) (HttpResp code ub0), Data (Suc n) ub,
                 Response (n + 2) (HttpResp 200 tb), Response (n + 3) (HttpResp 201 mb)] in
         status w6 = Running \<and> FPath p \<notin> set (pending w6) \<and> pending w6 = pending w \<and>
         sent w6 = sent w @
           [(n, token_request cfg),
            (Suc n, FileReq files_api (bearer t) p (upload_attributes (short_name cfg p) (space_id cfg))),
            (n + 2, token_request cfg),
            (n + 3, MsgReq (watson_work @ ''/'' @ spaces_api (space_id cfg)) (bearer t)
                      (message_data fid (short_name cfg p) mt (st_size c) d))]"
proof -
  define w4 where "w4 = run cfg L w [Watch (FPath p) (Some c) None, Response n (HttpResp 200 tb),
                 Response (Suc n) (HttpResp code ub0), Data (Suc n) ub]"
  have ph: "status w4 = Running \<and> pending w4 = pending w \<and> next_id w4 = n + 3 \<and>
         sent w4 = sent w @ [(n, token_request cfg),
            (Suc n, FileReq files_api (bearer t) p (upload_attributes (short_name cfg p) (space_id cfg))),
            (n + 2, token_request cfg)] \<and>
         conts w4 (n + 2) = Some (CAuth (KMessage (watson_work @ ''/'' @ spaces_api (space_id cfg))
                                     (message_data fid (short_name cfg p) mt (st_size c) d)))"
    using pipeline_upload_phase [OF assms, of c code ub0] by (simp add: w4_def Let_def)
  define w5 where "w5 = step cfg L w4 (Response (n + 2) (HttpResp 200 tb))"
  have w5: "w5 = issue (MsgReq (watson_work @ ''/'' @ spaces_api (space_id cfg)) (bearer t)
                          (message_data fid (short_name cfg p) mt (st_size c) d)) CPost (drop_cont (n + 2) w4)"
    using ph assms(4,5) by (simp add: w5_def step_auth_ok run_auth_k_def)
  have w6: "step cfg L w5 (Response (n + 3) (HttpResp 201 mb)) = drop_cont (n + 3) w5"
    using ph by (simp add: w5 step_post post_callback_def world_simps)
  have "run cfg L w [Watch (FPath p) (Some c) None, Response n (HttpResp 200 tb),
                 Response (Suc n) (HttpResp code ub0), Data (Suc n) ub,
                 Response (n + 2) (HttpResp 200 tb), Response (n + 3) (HttpResp 201 mb)]
             = step cfg L w5 (Response (n + 3) (HttpResp 201 mb))"
    by (simp add: w4_def w5_def)
  with w6 have run: "run cfg L w [Watch (FPath p) (Some c) None, Response n (HttpResp 200 tb),
                 Response (Suc n) (HttpResp code ub0), Data (Suc n) ub,
                 Response (n + 2) (HttpResp 200 tb), Response (n + 3) (HttpResp 201 mb)]
             = drop_cont (n + 3) w5"
    by simp
  show ?thesis
    unfolding run Let_def using ph assms(2) by (simp add: w5 world_simps)
qed

theorem upload_pipeline_witness:
  "let w6 = run demo_cfg demo_lib init_world
          [Watch (FPath ''/watch/a.txt'') (Some demo_stat) None, Response 0 (HttpResp 200 ''token-body''),
           Response (Suc 0) (HttpResp 200 []), Data (Suc 0) ''upload-body'',
           Response (0 + 2) (HttpResp 200 ''token-body''), Response (0 + 3) (HttpResp 201 [])] in
   status w6 = Running \<and> FPath ''/watch/a.txt'' \<notin> set (pending w6) \<and> pending w6 = pending init_world \<and>
   sent w6 = sent init_world @
     [(0, token_request demo_cfg),
      (Suc 0, FileReq files_api (bearer (JStr ''T'')) ''/watch/a.txt''
                (upload_attributes (short_name demo_cfg ''/watch/a.txt'') (space_id demo_cfg))),
      (0 + 2, token_request demo_cfg),
      (0 + 3, MsgReq (watson_work @ ''/'' @ spaces_api (space_id demo_cfg)) (bearer (JStr ''T''))
                (message_data (JNum 42) (short_name demo_cfg ''/watch/a.txt'') ''text/plain'' (st_size demo_stat) (0, 0)))]"
proof -
  have h1: "status init_world = Running" by (simp add: init_world_def)
  have h2: "FPath ''/watch/a.txt'' \<notin> set (pending init_world)" by (simp add: init_world_def)
  have h3: "\<not> env_truthy (user_jwt demo_cfg)" by (simp add: demo_simps env_truthy_def)
  have h4: "json_parse demo_lib ''token-body'' = Some (JObj [(''access_token'', JStr ''T'')])"
    by (simp add: demo_simps)
  have h5: "js_get (JObj [(''access_token'', JStr ''T'')]) ''access_token'' = Inr (JStr ''T'')"
    by simp
  have h6: "json_parse demo_lib ''upload-body'' = Some (JObj [(''entries'', JArr [JObj [(''id'', JNum 42)]])])"
    by (simp add: demo_simps)
  have h7: "js_path (JObj [(''entries'', JArr [JObj [(''id'', JNum 42)]])]) [PKey ''entries'', PIdx 0, PKey ''id''] = Inr (JNum 42)"
    by simp
  have sn: "short_name demo_cfg ''/watch/a.txt'' = ''a.txt''"
    by (simp add: demo_simps short_name_def js_eval_simps)
  have h8: "mime_lookup demo_lib (short_name demo_cfg ''/watch/a.txt'') = Some ''text/plain''"
    by (simp add: sn demo_lib_def js_eval_simps)
  have h9: "image_dims demo_lib ''text/plain'' ''/watch/a.txt'' = Inr (0, 0)"
    by (simp add: image_dims_other js_eval_simps)
  have h10: "(0::nat) = next_id init_world" by (simp add: init_world_def)
  show ?thesis
    by (rule upload_pipeline [OF h1 h2 h3 h4 h5 h6 h7 h8 h9 h10])
qed

subsection \<open>The static token\<close>

text \<open>
  C5.  Authentication short-circuit: when a non-empty \<open>USER_JWT\<close> is configured, every
  request the process has sent, in any reachable state, carries the header
  \<open>Authorization: Bearer\<close> followed by exactly that token; in particular no token-exchange
  request is ever sent.
\<close>

theorem static_token_requests:
  assumes "user_jwt cfg = Some j" and "j \<noteq> []" and "reachable cfg L w"
  shows "\<forall>r \<in> set (sent w). request_bearer (snd r) = Some (''Bearer '' @ j)"
  using reachable_static_inv [OF assms(1,2) assms(3)] by (simp add: static_inv_def)

theorem static_token_requests_witness:
  "sent (run (demo_cfg\<lparr>user_jwt := Some ''JWT''\<rparr>) demo_lib init_world
          [Watch (FPath ''/watch/a.txt'') (Some demo_stat) None]) \<noteq> [] \<and>
   list_all (\<lambda>r. request_bearer (snd r) = Some (''Bearer '' @ ''JWT''))
     (sent (run (demo_cfg\<lparr>user_jwt := Some ''JWT''\<rparr>) demo_lib init_world
          [Watch (FPath ''/watch/a.txt'') (Some demo_stat) None]))"
proof -
  have h1: "user_jwt (demo_cfg\<lparr>user_jwt := Some ''JWT''\<rparr>) = Some ''JWT''" by simp
  have h2: "''JWT'' \<noteq> []" by simp
  have h3: "reachable (demo_cfg\<lparr>user_jwt := Some ''JWT''\<rparr>) demo_lib
              (run (demo_cfg\<lparr>user_jwt := Some ''JWT''\<rparr>) demo_lib init_world
                 [Watch (FPath ''/watch/a.txt'') (Some demo_stat) None])"
    by (rule reachable_run [OF reachable.init])
  have "sent (run (demo_cfg\<lparr>user_jwt := Some ''JWT''\<rparr>) demo_lib init_world
          [Watch (FPath ''/watch/a.txt'') (Some demo_stat) None]) \<noteq> []"
    by (simp add: step_watch watch_created_fresh authenticate_app_static init_world_def world_simps
        run_auth_k_def)
  then show ?thesis
    using static_token_requests [OF h1 h2 h3] by (simp add: list_all_iff)
qed

text \<open>
  C21.  In every state the process reaches, every upload request it has sent carries an
  \<open>attributes\<close> part that a JSON reader decodes to exactly the short name of the uploaded
  file and the configured space id.  This follows the file from the watcher through
  \<open>uploadFile\<close>, the upload closure waiting for its token and the token callback.
\<close>

theorem uploads_carry_attributes:
  assumes "reachable cfg L w" and "(i, FileReq h a fn attrs) \<in> set (sent w)"
  shows "json_read_str_object attrs = Some [(''name'', short_name cfg fn), (''space'', space_id cfg)]"
  using reachable_uploads_wf [OF assms(1)] assms(2)
  by (auto simp add: uploads_wf_def list_all_iff upload_req_ok_def)

theorem uploads_carry_attributes_witness:
  "json_read_str_object (upload_attributes ''a.txt'' ''space1'') =
     Some [(''name'', short_name demo_cfg ''/watch/a.txt''), (''space'', space_id demo_cfg)]"
  by (rule uploads_carry_attributes [OF demo_uploading_reachable demo_uploading_sent])

text \<open>
  C22.  A file's message is posted only after its upload: in every state the process reaches,
  every message request sent names (in its file annotation) the short name of a file whose
  upload request was sent before it.  Messages are composed only in the \<open>data\<close> listener of
  an upload's response, and the message closure keeps the link while it waits for its token.
\<close>

theorem message_after_upload:
  assumes "reachable cfg L w" and "(i, MsgReq u a msg) \<in> set (sent w)"
  shows "\<exists>j h a' fn at. j < i \<and> (j, FileReq h a' fn at) \<in> set (sent w) \<and>
           js_path msg [PKey ''annotations'', PIdx 1, PKey ''name''] = Inr (JStr (short_name cfg fn))"
proof -
  have "msgs_ok cfg (sent w)"
    using reachable_pipeline_wf [OF assms(1)] by (simp add: pipeline_wf_def)
  with assms(2) have "uploaded_before cfg (sent w) i msg"
    by (auto simp add: msgs_ok_def list_all_iff)
  then show ?thesis by (simp add: uploaded_before_iff msg_file_def)
qed

theorem message_after_upload_witness:
  "\<exists>j h a' fn at. j < 3 \<and> (j, FileReq h a' fn at) \<in> set (sent demo_posting) \<and>
     js_path (message_data (JNum 42) ''a.txt'' ''text/plain'' 7 (0, 0)) [PKey ''annotations'', PIdx 1, PKey ''name'']
       = Inr (JStr (short_name demo_cfg fn))"
  by (rule message_after_upload [OF demo_posting_reachable demo_posting_fields(3)])

text \<open>
  C23.  The \<open>data\<close> listener of an upload stays registered (line 131), and every chunk
  of the response that parses runs it again: two such chunks start two message pipelines for
  the same file, whose closures wait side by side for their tokens, so the file is announced
  twice.
\<close>

theorem repeated_chunk_two_messages:
  assumes "reachable cfg L w" "status w = Running" "conts w i = Some (CData sp fn sz)"
    and "\<not> env_truthy (user_jwt cfg)"
    and "json_parse L c1 = Some v1" "js_path v1 [PKey ''entries'', PIdx 0, PKey ''id''] = Inr fid1"
    and "json_parse L c2 = Some v2" "js_path v2 [PKey ''entries'', PIdx 0, PKey ''id''] = Inr fid2"
    and "mime_lookup L (short_name cfg fn) = Some mt" "image_dims L mt fn = Inr d"
  shows "conts (run cfg L w [Data i c1, Data i c2]) (next_id w) =
           Some (CAuth (KMessage (watson_work @ ''/'' @ spaces_api sp) (message_data fid1 (short_name cfg fn) mt sz d)))
       \<and> conts (run cfg L w [Data i c1, Data i c2]) (Suc (next_id w)) =
           Some (CAuth (KMessage (watson_work @ ''/'' @ spaces_api sp) (message_data fid2 (short_name cfg fn) mt sz d)))"
proof -
  have lt: "i < next_id w"
    using reachable_ids [OF assms(1)] assms(3) by (auto simp add: ids_wf_def)
  obtain w1 where d1: "data_listener cfg L sp fn sz c1 w = Inr w1" "status w1 = status w"
    "next_id w1 = Suc (next_id w)"
    "conts w1 = (conts w)(next_id w \<mapsto> CAuth (KMessage (watson_work @ ''/'' @ spaces_api sp)
                                       (message_data fid1 (short_name cfg fn) mt sz d)))"
    using data_listener_message [OF assms(5,6,9,10,4)] by blast
  have c1: "conts w1 i = Some (CData sp fn sz)" using d1(4) lt assms(3) by simp
  obtain w2 where d2: "data_listener cfg L sp fn sz c2 w1 = Inr w2" "next_id w2 = Suc (next_id w1)"
    "conts w2 = (conts w1)(next_id w1 \<mapsto> CAuth (KMessage (watson_work @ ''/'' @ spaces_api sp)
                                       (message_data fid2 (short_name cfg fn) mt sz d)))"
    using data_listener_message [OF assms(7,8,9,10,4)] by blast
  have "run cfg L w [Data i c1, Data i c2] = w2"
    using assms(2,3) d1 c1 d2 by (simp add: step_data)
  with d1 d2 show ?thesis by simp
qed

theorem repeated_chunk_two_messages_witness:
  "conts (run demo_cfg demo_lib demo_uploading [Data 1 ''upload-body'', Data 1 ''upload-body'']) (next_id demo_uploading) =
     Some (CAuth (KMessage (watson_work @ ''/'' @ spaces_api ''space1'')
       (message_data (JNum 42) (short_name demo_cfg ''/watch/a.txt'') ''text/plain'' 7 (0, 0))))
   \<and> conts (run demo_cfg demo_lib demo_uploading [Data 1 ''upload-body'', Data 1 ''upload-body'']) (Suc (next_id demo_uploading)) =
     Some (CAuth (KMessage (watson_work @ ''/'' @ spaces_api ''space1'')
       (message_data (JNum 42) (short_name demo_cfg ''/watch/a.txt'') ''text/plain'' 7 (0, 0))))"
proof -
  have c: "conts demo_uploading 1 = Some (CData ''space1'' ''/watch/a.txt'' 7)"
    using demo_uploading_fields(3) by simp
  have e: "\<not> env_truthy (user_jwt demo_cfg)" by (simp add: demo_facts env_truthy_def)
  have p: "json_parse demo_lib ''upload-body'' = Some (JObj [(''entries'', JArr [JObj [(''id'', JNum 42)]])])"
    by (simp add: demo_facts)
  have i: "js_path (JObj [(''entries'', JArr [JObj [(''id'', JNum 42)]])]) [PKey ''entries'', PIdx 0, PKey ''id''] = Inr (JNum 42)"
    by simp
  have m: "mime_lookup demo_lib (short_name demo_cfg ''/watch/a.txt'') = Some ''text/plain''"
    by (simp add: demo_simps short_name_def js_eval_simps)
  have d: "image_dims demo_lib ''text/plain'' ''/watch/a.txt'' = Inr (0, 0)"
    by (simp add: image_dims_other js_eval_simps)
  show ?thesis
    by (rule repeated_chunk_two_messages [OF demo_uploading_reachable demo_uploading_fields(1) c e p i p i m d])
qed

text \<open>
  C16.  The pending entry is cleared before the message is posted: right after the upload
  response's \<open>data\<close> chunk the file is no longer pending, while the message post has not
  been sent and still waits for its token (request \<open>n + 2\<close>).
\<close>

theorem pending_cleared_before_post:
  fixes c :: stat
  assumes "status w = Running"
    and "FPath p \<notin> set (pending w)"
    and "\<not> env_truthy (user_jwt cfg)"
    and "json_parse L tb = Some vt" "js_get vt ''access_token'' = Inr t"
    and "json_parse L ub = Some vu" "js_path vu [PKey ''entries'', PIdx 0, PKey ''id''] = Inr fid"
    and "mime_lookup L (short_name cfg p) = Some mt" "image_dims L mt p = Inr d"
    and "n = next_id w"
  shows "let w4 = run cfg L w [Watch (FPath p) (Some c) None, Response n (HttpResp 200 tb),
                 Response (Suc n) (HttpResp code ub0), Data (Suc n) ub] in
         FPath p \<notin> set (pending w4) \<and>
         conts w4 (n + 2) = Some (CAuth (KMessage (watson_work @ ''/'' @ spaces_api (space_id cfg))
                                     (message_data fid (short_name cfg p) mt (st_size c) d))) \<and>
         (\<forall>r \<in> set (drop (length (sent w)) (sent w4)). \<not> (\<exists>u a m. snd r = MsgReq u a m))"
  using pipeline_upload_phase [OF assms, of c code ub0] assms(2) by (simp add: Let_def token_request_def)

theorem pending_cleared_before_post_witness:
  "let w4 = run demo_cfg demo_lib init_world
          [Watch (FPath ''/watch/a.txt'') (Some demo_stat) None, Response 0 (HttpResp 200 ''token-body''),
           Response (Suc 0) (HttpResp 200 []), Data (Suc 0) ''upload-body''] in
   FPath ''/watch/a.txt'' \<notin> set (pending w4) \<and>
   conts w4 (0 + 2) = Some (CAuth (KMessage (watson_work @ ''/'' @ spaces_api (space_id demo_cfg))
                              (message_data (JNum 42) (short_name demo_cfg ''/watch/a.txt'') ''text/plain'' (st_size demo_stat) (0, 0)))) \<and>
   list_all (\<lambda>r. \<not> (\<exists>u a m. snd r = MsgReq u a m)) (drop (length (sent init_world)) (sent w4))"
proof -
  have h1: "status init_world = Running" by (simp add: init_world_def)
  have h2: "FPath ''/watch/a.txt'' \<notin> set (pending init_world)" by (simp add: init_world_def)
  have h3: "\<not> env_truthy (user_jwt demo_cfg)" by (simp add: demo_simps env_truthy_def)
  have h4: "json_parse demo_lib ''token-body'' = Some (JObj [(''access_token'', JStr ''T'')])"
    by (simp add: demo_simps)
  have h5: "js_get (JObj [(''access_token'', JStr ''T'')]) ''access_token'' = Inr (JStr ''T'')"
    by simp
  have h6: "json_parse demo_lib ''upload-body'' = Some (JObj [(''entries'', JArr [JObj [(''id'', JNum 42)]])])"
    by (simp add: demo_simps)
  have h7: "js_path (JObj [(''entries'', JArr [JObj [(''id'', JNum 42)]])]) [PKey ''entries'', PIdx 0, PKey ''id''] = Inr (JNum 42)"
    by simp
  have sn: "short_name demo_cfg ''/watch/a.txt'' = ''a.txt''"
    by (simp add: demo_simps short_name_def js_eval_simps)
  have h8: "mime_lookup demo_lib (short_name demo_cfg ''/watch/a.txt'') = Some ''text/plain''"
    by (simp add: sn demo_lib_def js_eval_simps)
  have h9: "image_dims demo_lib ''text/plain'' ''/watch/a.txt'' = Inr (0, 0)"
    by (simp add: image_dims_other js_eval_simps)
  have h10: "(0::nat) = next_id init_world" by (simp add: init_world_def)
  show ?thesis
    using pending_cleared_before_post [OF h1 h2 h3 h4 h5 h6 h7 h8 h9 h10]
    by (simp add: Let_def list_all_iff)
qed

subsection \<open>Error paths\<close>

text \<open>
  C6.  Authentication failure is fatal: a token response with a status other than 200
  ends the process with exit code 1, and whatever events follow, no further request
  (upload or message post) is ever sent.
\<close>

theorem auth_failure_exit:
  assumes "status w = Running" and "conts w i = Some (CAuth k)" and "code \<noteq> 200"
  shows "status (run cfg L w (Response i (HttpResp code body) # evs)) = Exited 1 \<and>
         sent (run cfg L w (Response i (HttpResp code body) # evs)) = sent w"
proof -
  have st: "step cfg L w (Response i (HttpResp code body)) =
            (log LogAuthExit (drop_cont i w))\<lparr>status := Exited 1\<rparr>"
    using assms by (simp add: step_auth auth_callback_def)
  then show ?thesis
    by (simp add: run_stopped world_simps)
qed

theorem auth_failure_exit_witness:
  "status (run demo_cfg demo_lib demo_created
      (Response 0 (HttpResp 401 []) # [Response 1 (HttpResp 200 []), Data 1 ''upload-body''])) = Exited 1 \<and>
   sent (run demo_cfg demo_lib demo_created
      (Response 0 (HttpResp 401 []) # [Response 1 (HttpResp 200 []), Data 1 ''upload-body''])) = sent demo_created"
proof -
  note h1 = demo_created_fields(1) and h2 = demo_created_fields(2)
  have h3: "(401::nat) \<noteq> 200" by simp
  show ?thesis by (rule auth_failure_exit [OF h1 h2 h3])
qed

text \<open>
  C20.  A transport error of the token request is not handled as an authentication failure:
  \<open>response\<close> is \<open>undefined\<close>, reading \<open>response.statusCode\<close> (line 47) throws a
  \<open>TypeError\<close>, and the process dies with nothing logged and nothing sent; no later event
  is handled.
\<close>

theorem token_transport_error_crash:
  assumes "status w = Running" and "conts w i = Some (CAuth k)"
  shows "run cfg L w (Response i (NetError e) # evs) = w\<lparr>status := Crashed TypeError\<rparr>"
proof -
  have "step cfg L w (Response i (NetError e)) = w\<lparr>status := Crashed TypeError\<rparr>"
    using assms by (simp add: step_auth auth_callback_def)
  then show ?thesis by (simp add: run_stopped)
qed

theorem token_transport_error_crash_witness:
  "run demo_cfg demo_lib demo_created
      (Response 0 (NetError ''ECONNRESET'') # [Response 1 (HttpResp 200 []), Data 1 ''upload-body''])
   = demo_created\<lparr>status := Crashed TypeError\<rparr>"
proof -
  note h1 = demo_created_fields(1) and h2 = demo_created_fields(2)
  show ?thesis by (rule token_transport_error_crash [OF h1 h2])
qed

text \<open>
  C11.  A transport error of the upload leaves the file in \<open>pending\<close> for good: the process
  keeps running, the upload's callback is gone, and every later creation event for the same
  path is ignored, so the file is never uploaded again.
\<close>

theorem upload_error_keeps_pending:
  assumes "status w = Running" and "conts w i = Some (CSubmit sp fn sz)"
    and "FPath fn \<in> set (pending w)"
  shows "let w' = step cfg L w (Response i (NetError e)) in
         status w' = Running \<and> pending w' = pending w \<and> conts w' i = None \<and>
         (\<forall>cur. step cfg L w' (Watch (FPath fn) cur None) = w')"
proof -
  have st: "step cfg L w (Response i (NetError e)) = log (LogUploadError e) (drop_cont i w)"
    using assms(1,2) by (simp add: step_submit submit_callback_def)
  have "status (log (LogUploadError e) (drop_cont i w)) = Running"
    "FPath fn \<in> set (pending (log (LogUploadError e) (drop_cont i w)))"
    using assms(1,3) by (simp_all add: world_simps)
  then have "step cfg L (log (LogUploadError e) (drop_cont i w)) (Watch (FPath fn) cur None)
             = log (LogUploadError e) (drop_cont i w)" for cur
    by (simp add: step_watch watch_created_pending)
  with st assms(1) show ?thesis by (simp add: world_simps)
qed

theorem upload_error_keeps_pending_witness:
  "let w' = step demo_cfg demo_lib (step demo_cfg demo_lib demo_created (Response 0 (HttpResp 200 ''token-body'')))
              (Response 1 (NetError ''ECONNRESET'')) in
   status w' = Running \<and> pending w' = [FPath ''/watch/a.txt''] \<and> conts w' 1 = None \<and>
   (\<forall>cur. step demo_cfg demo_lib w' (Watch (FPath ''/watch/a.txt'') cur None) = w')"
proof -
  define w where "w = step demo_cfg demo_lib demo_created (Response 0 (HttpResp 200 ''token-body''))"
  have w: "w = issue (FileReq files_api (bearer (JStr ''T'')) ''/watch/a.txt'' (upload_attributes ''a.txt'' ''space1''))
                 (CSubmit ''space1'' ''/watch/a.txt'' 7) (drop_cont 0 demo_created)"
    by (simp add: w_def demo_created_eq step_auth_ok world_simps init_world_def demo_simps run_auth_k_def)
  have h1: "status w = Running" by (simp add: w demo_created_eq world_simps init_world_def)
  have h2: "conts w 1 = Some (CSubmit ''space1'' ''/watch/a.txt'' 7)"
    by (simp add: w demo_created_eq world_simps init_world_def)
  have h3: "FPath ''/watch/a.txt'' \<in> set (pending w)"
    by (simp add: w demo_created_eq world_simps init_world_def)
  have "pending w = [FPath ''/watch/a.txt'']"
    by (simp add: w demo_created_eq world_simps init_world_def)
  then show ?thesis
    using upload_error_keeps_pending [OF h1 h2 h3, of demo_cfg demo_lib "''ECONNRESET''"]
    by (simp add: w_def Let_def)
qed

text \<open>
  C12.  An upload of a file whose name has no known MIME type crashes the process:
  \<open>mime.lookup\<close> returns \<open>false\<close> and \<open>false.indexOf\<close> throws a \<open>TypeError\<close> inside the
  \<open>data\<close> listener (line 63), before the file is removed from \<open>pending\<close>.
\<close>

theorem unknown_mime_crash:
  assumes "status w = Running" and "conts w i = Some (CData sp fn sz)"
    and "json_parse L chunk = Some v" and "js_path v [PKey ''entries'', PIdx 0, PKey ''id''] = Inr fid"
    and "mime_lookup L (short_name cfg fn) = None"
  shows "step cfg L w (Data i chunk) = w\<lparr>status := Crashed TypeError\<rparr>"
  using assms by (simp add: step_data data_listener_def send_message_def)

theorem unknown_mime_crash_witness:
  "step demo_cfg demo_lib demo_bin_uploading (Data 1 ''upload-body'') = demo_bin_uploading\<lparr>status := Crashed TypeError\<rparr>"
proof -
  have sn: "short_name demo_cfg ''/watch/data.bin'' = ''data.bin''"
    by (simp add: demo_simps short_name_def js_eval_simps)
  have eq: "demo_bin_uploading =
     (drop_cont 1 (issue (FileReq files_api (bearer (JStr ''T'')) ''/watch/data.bin'' (upload_attributes ''data.bin'' ''space1''))
        (CSubmit ''space1'' ''/watch/data.bin'' 7)
        (drop_cont 0 (issue (token_request demo_cfg)
           (CAuth (KUpload ''space1'' ''/watch/data.bin'' 7 (upload_attributes ''data.bin'' ''space1'')))
           (log (LogCreated (FPath ''/watch/data.bin'')) (init_world\<lparr>pending := [FPath ''/watch/data.bin'']\<rparr>))))))
       \<lparr>conts := ((conts (issue (FileReq files_api (bearer (JStr ''T'')) ''/watch/data.bin'' (upload_attributes ''data.bin'' ''space1''))
        (CSubmit ''space1'' ''/watch/data.bin'' 7)
        (drop_cont 0 (issue (token_request demo_cfg)
           (CAuth (KUpload ''space1'' ''/watch/data.bin'' 7 (upload_attributes ''data.bin'' ''space1'')))
           (log (LogCreated (FPath ''/watch/data.bin'')) (init_world\<lparr>pending := [FPath ''/watch/data.bin'']\<rparr>))))))(1 := None))(1 \<mapsto> CData ''space1'' ''/watch/data.bin'' 7)\<rparr>"
    using sn
    by (simp add: demo_bin_uploading_def demo_stat_def step_watch watch_created_fresh authenticate_app_exchange
        env_truthy_def step_auth_ok step_submit submit_callback_def run_auth_k_def world_simps init_world_def
        demo_simps drop_cont_def)
  have h1: "status demo_bin_uploading = Running" by (simp add: eq world_simps init_world_def)
  have h2: "conts demo_bin_uploading 1 = Some (CData ''space1'' ''/watch/data.bin'' 7)"
    by (simp add: eq)
  have h3: "json_parse demo_lib ''upload-body'' = Some (JObj [(''entries'', JArr [JObj [(''id'', JNum 42)]])])"
    by (simp add: demo_simps)
  have h4: "js_path (JObj [(''entries'', JArr [JObj [(''id'', JNum 42)]])]) [PKey ''entries'', PIdx 0, PKey ''id''] = Inr (JNum 42)"
    by simp
  have h5: "mime_lookup demo_lib (short_name demo_cfg ''/watch/data.bin'') = None"
    by (simp add: sn demo_lib_def js_eval_simps)
  show ?thesis by (rule unknown_mime_crash [OF h1 h2 h3 h4 h5])
qed

text \<open>
  C13.  A transport error on the message post is not swallowed: the callback reads
  \<open>response.statusCode\<close> of an undefined \<open>response\<close> (line 104), the \<open>TypeError\<close>
  escapes and the process crashes.
\<close>

theorem post_error_crash:
  assumes "status w = Running" and "conts w i = Some CPost"
  shows "step cfg L w (Response i (NetError e)) = w\<lparr>status := Crashed TypeError\<rparr>"
  using assms by (simp add: step_post post_callback_def)

theorem post_error_crash_witness:
  "step demo_cfg demo_lib demo_posting (Response 3 (NetError ''ETIMEDOUT'')) = demo_posting\<lparr>status := Crashed TypeError\<rparr>"
  by (rule post_error_crash [OF demo_posting_fields(2,1)])

text \<open>
  C17.  The upload's HTTP status is never checked: a response whose body parses but has no
  \<open>entries\<close> (an error response) makes \<open>entries[0]\<close> read a property of \<open>undefined\<close>
  in the \<open>data\<close> listener, and the process crashes with the file still pending.
\<close>

theorem upload_error_body_crash:
  assumes "status w = Running" and "conts w i = Some (CData sp fn sz)"
    and "json_parse L chunk = Some v" and "js_get v ''entries'' = Inr JUndef"
  shows "step cfg L w (Data i chunk) = w\<lparr>status := Crashed TypeError\<rparr>"
  using assms by (simp add: step_data data_listener_def)

theorem upload_error_body_crash_witness:
  "step demo_cfg demo_lib demo_uploading (Data 1 ''error-body'') = demo_uploading\<lparr>status := Crashed TypeError\<rparr>"
proof -
  have h3: "json_parse demo_lib ''error-body'' = Some (JObj [(''errors'', JArr [])])"
    by (simp add: demo_simps)
  have h4: "js_get (JObj [(''errors'', JArr [])]) ''entries'' = Inr JUndef"
    by simp
  show ?thesis
    by (rule upload_error_body_crash [OF demo_uploading_fields(1) demo_uploading_fields(3) h3 h4])
qed

text \<open>
  C18.  A 200 token response without \<open>access_token\<close> is not detected: the closure receives
  \<open>undefined\<close>, and the upload is sent with the header \<open>Bearer undefined\<close>.
\<close>

theorem missing_token_bearer_undefined:
  assumes "status w = Running" and "conts w i = Some (CAuth (KUpload sp fn sz attrs))"
    and "json_parse L b = Some v" and "js_get v ''access_token'' = Inr JUndef"
  shows "sent (step cfg L w (Response i (HttpResp 200 b))) =
           sent w @ [(next_id w, FileReq files_api ''Bearer undefined'' fn attrs)]"
  using assms by (simp add: step_auth_ok run_auth_k_def bearer_def world_simps)

theorem missing_token_bearer_undefined_witness:
  "sent (step demo_cfg demo_lib demo_created (Response 0 (HttpResp 200 ''no-token-body''))) =
     sent demo_created @ [(next_id demo_created, FileReq files_api ''Bearer undefined'' ''/watch/a.txt''
                             (upload_attributes ''a.txt'' ''space1''))]"
proof -
  note h1 = demo_created_fields(1) and h2 = demo_created_fields(2)
  have h3: "json_parse demo_lib ''no-token-body'' = Some (JObj [(''token_type'', JStr ''bearer'')])"
    by (simp add: demo_simps)
  have h4: "js_get (JObj [(''token_type'', JStr ''bearer'')]) ''access_token'' = Inr JUndef"
    by simp
  show ?thesis by (rule missing_token_bearer_undefined [OF h1 h2 h3 h4])
qed

text \<open>
  C25.  The upload responses of two different files commute: in a reachable state with the
  \<open>data\<close> listeners of two uploads registered, if each listener handles its chunk without an
  exception, delivering the two chunks in either order leaves the same pending array and a
  running process.
\<close>

theorem data_chunks_commute:
  assumes "reachable cfg L w" "status w = Running"
    and "conts w i = Some (CData sp fn sz)" "conts w j = Some (CData sp' fn' sz')"
    and "\<not> isl (data_listener cfg L sp fn sz c w)" "\<not> isl (data_listener cfg L sp' fn' sz' c' w)"
  shows "pending (run cfg L w [Data i c, Data j c']) = pending (run cfg L w [Data j c', Data i c])
       \<and> status (run cfg L w [Data i c, Data j c']) = Running
       \<and> status (run cfg L w [Data j c', Data i c]) = Running"
proof -
  obtain w1 where d1: "data_listener cfg L sp fn sz c w = Inr w1"
    using assms(5) by (rule data_listener_Inr_obtain)
  obtain w2 where d2: "data_listener cfg L sp' fn' sz' c' w = Inr w2"
    using assms(6) by (rule data_listener_Inr_obtain)
  have wf: "ids_wf w" by (rule reachable_ids [OF assms(1)])
  have lt: "i < next_id w" "j < next_id w"
    using wf assms(3,4) by (auto simp add: ids_wf_def)
  have s1: "step cfg L w (Data i c) = w1" "ids_wf w1" "status w1 = Running"
    "pending w1 = remove1 (FPath fn) (pending w)" "conts w1 j = Some (CData sp' fn' sz')"
    using data_step [OF wf assms(2,3) d1] lt assms(4) by auto
  obtain w12 where d12: "data_listener cfg L sp' fn' sz' c' w1 = Inr w12"
    using data_listener_any_world [OF d2] by blast
  have s12: "step cfg L w1 (Data j c') = w12" "status w12 = Running"
    "pending w12 = remove1 (FPath fn') (pending w1)"
    using data_step [OF s1(2,3,5) d12] by auto
  have s2: "step cfg L w (Data j c') = w2" "ids_wf w2" "status w2 = Running"
    "pending w2 = remove1 (FPath fn') (pending w)" "conts w2 i = Some (CData sp fn sz)"
    using data_step [OF wf assms(2,4) d2] lt assms(3) by auto
  obtain w21 where d21: "data_listener cfg L sp fn sz c w2 = Inr w21"
    using data_listener_any_world [OF d1] by blast
  have s21: "step cfg L w2 (Data i c) = w21" "status w21 = Running"
    "pending w21 = remove1 (FPath fn) (pending w2)"
    using data_step [OF s2(2,3,5) d21] by auto
  show ?thesis
    using s1 s12 s2 s21 by (simp add: remove1_commute)
qed

theorem data_chunks_commute_witness:
  "pending (run demo_cfg demo_lib demo_two [Data 2 ''upload-body'', Data 3 ''upload-body''])
     = pending (run demo_cfg demo_lib demo_two [Data 3 ''upload-body'', Data 2 ''upload-body''])
   \<and> status (run demo_cfg demo_lib demo_two [Data 2 ''upload-body'', Data 3 ''upload-body'']) = Running
   \<and> status (run demo_cfg demo_lib demo_two [Data 3 ''upload-body'', Data 2 ''upload-body'']) = Running"
  by (rule data_chunks_commute [OF demo_two_fields(6,1,2,3,4,5)])

text \<open>
  C28.  Change and removal events only log, as the specification says (section 8, "ignored by
  design"): in a running process any sequence of them leaves the state as it was except for
  their log lines; in particular removing a pending file neither removes it from
  \<open>pending\<close> nor stops its pipeline.
\<close>

theorem updates_only_log:
  assumes "status w = Running" and "list_all is_update_event evs"
  shows "run cfg L w evs = w\<lparr>out := out w @ map update_log evs\<rparr>"
  using assms
proof (induction evs arbitrary: w)
  case Nil
  then show ?case by simp
next
  case (Cons ev evs)
  have "step cfg L w ev = log (update_log ev) w"
    using Cons.prems by (intro update_step) simp_all
  moreover have "status (log (update_log ev) w) = Running" using Cons.prems(1) by (simp add: world_simps)
  ultimately show ?case using Cons.IH [of "log (update_log ev) w"] Cons.prems(2) by (simp add: log_def)
qed

theorem updates_only_log_witness:
  "run demo_cfg demo_lib demo_created
     [Watch (FPath ''/watch/a.txt'') (Some \<lparr>st_size = 9, st_nlink = 1\<rparr>) (Some demo_stat),
      Watch (FPath ''/watch/a.txt'') (Some \<lparr>st_size = 0, st_nlink = 0\<rparr>) (Some demo_stat)]
   = demo_created\<lparr>out := out demo_created @ [LogChanged (FPath ''/watch/a.txt''), LogRemoved (FPath ''/watch/a.txt'')]\<rparr>"
proof -
  have l: "list_all is_update_event
     [Watch (FPath ''/watch/a.txt'') (Some \<lparr>st_size = 9, st_nlink = 1\<rparr>) (Some demo_stat),
      Watch (FPath ''/watch/a.txt'') (Some \<lparr>st_size = 0, st_nlink = 0\<rparr>) (Some demo_stat)]"
    by simp
  show ?thesis
    using updates_only_log [OF demo_created_fields(1) l, of demo_cfg demo_lib] by simp
qed

end
